theory Spec2Isabelle
  imports
    Main
    "HOL-Library.Sublist"
    "HOL-Library.Char_ord"
    "HOL-Library.List_Lexorder"
    "HOL-Library.Multiset"
begin

section \<open>JavaScript string primitives\<close>

text \<open>
  A JavaScript string is a sequence of UTF-16 code units. The model keeps the code units
  below 256 (the Latin-1 range), one \<^typ>\<open>char\<close> each: \<open>of_char c\<close> is the code unit.
\<close>

definition isWhiteSpace :: "char \<Rightarrow> bool" where
  \<comment> \<open>WhiteSpace and LineTerminator code units below 256, as \<open>String.prototype.trim\<close> strips them\<close>
  "isWhiteSpace c = ((of_char c :: nat) \<in> {9, 10, 11, 12, 13, 32, 160})"

definition trim :: "string \<Rightarrow> string" where
  "trim s = rev (dropWhile isWhiteSpace (rev (dropWhile isWhiteSpace s)))"

definition lowerChar :: "char \<Rightarrow> char" where
  "lowerChar c =
     (let n = (of_char c :: nat)
      in if (65 \<le> n \<and> n \<le> 90) \<or> (192 \<le> n \<and> n \<le> 222 \<and> n \<noteq> 215)
         then char_of (n + 32) else c)"

definition toLowerCase :: "string \<Rightarrow> string" where
  "toLowerCase s = map lowerChar s"

definition includes_str :: "string \<Rightarrow> string \<Rightarrow> bool" where
  \<comment> \<open>\<open>s.includes(t)\<close>: \<open>t\<close> occurs in \<open>s\<close> as a contiguous run\<close>
  "includes_str s t = sublist t s"


fun join :: "string \<Rightarrow> string list \<Rightarrow> string" where
  "join sep [] = []"
| "join sep [x] = x"
| "join sep (x # y # ys) = x @ sep @ join sep (y # ys)"

fun replace_first :: "string \<Rightarrow> string \<Rightarrow> string \<Rightarrow> string" where
  \<comment> \<open>\<open>s.replace(pat, rep)\<close> for a string pattern: only the first occurrence is replaced\<close>
  "replace_first pat rep [] = (if pat = [] then rep else [])"
| "replace_first pat rep (x # xs) =
     (if prefix pat (x # xs) then rep @ drop (length pat) (x # xs)
      else x # replace_first pat rep xs)"

text \<open>
  The text that an element gets from a string written into \<open>innerHTML\<close> after
  \<open>escapeHtml\<close>: escaping and parsing give the string back, but for what the HTML parser
  does to any input: a carriage return, alone or before a line feed, is read as one line
  feed, and a NUL character is dropped.
\<close>

fun normaliseNewlines :: "string \<Rightarrow> string" where
  "normaliseNewlines [] = []"
| "normaliseNewlines [c] = (if c = CHR 0x0D then [CHR 0x0A] else [c])"
| "normaliseNewlines (c # d # cs) =
     (if c = CHR 0x0D
      then (if d = CHR 0x0A then CHR 0x0A # normaliseNewlines cs
            else CHR 0x0A # normaliseNewlines (d # cs))
      else c # normaliseNewlines (d # cs))"

definition htmlText :: "string \<Rightarrow> string" where
  "htmlText s = filter (\<lambda>c. c \<noteq> CHR 0x00) (normaliseNewlines s)"

section \<open>The control panel (script.js)\<close>

subsection \<open>The console\<close>

text \<open>
  A child element of \<open>consoleOutput\<close>. \<open>ConsoleLine type message\<close> is the \<open>div\<close> of class
  \<open>console-line type\<close> that \<open>addConsoleMessage\<close> builds, \<open>message\<close> being the text of its
  \<open>.message\<close> span; the other two are the lines of \<open>addFunctionCallMessage\<close> and
  \<open>addFunctionResponseMessage\<close>, kept by the texts of their name, summary and details
  elements. The timestamp span, read from the wall clock, is left out.
\<close>

datatype console_child =
    ConsoleLine string string
  | FunctionCallLine string string
  | FunctionResponseLine string bool string string

fun isResponseLine :: "console_child \<Rightarrow> bool" where
  \<comment> \<open>class list contains both \<open>console-line\<close> and \<open>response\<close>\<close>
  "isResponseLine (ConsoleLine t m) = (t = ''response'')"
| "isResponseLine _ = False"

fun appendToMessage :: "string \<Rightarrow> console_child \<Rightarrow> console_child" where
  "appendToMessage extra (ConsoleLine t m) = ConsoleLine t (m @ extra)"
| "appendToMessage extra l = l"

definition trimConsole :: "console_child list \<Rightarrow> console_child list" where
  \<comment> \<open>\<open>if (lines.length > 1000) removeChild(lines[0])\<close>\<close>
  "trimConsole ls = (if length ls > 1000 then tl ls else ls)"

subsection \<open>State of \<open>GabrielControlPanel\<close>\<close>

datatype ready_state = CONNECTING | OPEN | CLOSING | CLOSED

text \<open>The callbacks that the modelled methods hand to \<open>setTimeout\<close>.\<close>

datatype callback =
    ReconnectCallback
  | FlushSpeechCallback
  | LoadPersonalitiesCallback
  | LoadVRChatControlsStatusCallback

record speech_item =
  speech_text :: string
  speech_timestamp :: string

text \<open>
  A personality as the API lists it, and the button that \<open>renderPersonalities\<close> makes of
  it (the texts of its name and description elements, its status text, and whether it is
  marked active or disabled).
\<close>

record personality =
  p_id :: string
  p_name :: string
  p_description :: string
  p_enabled :: bool

record personality_button =
  b_id :: string
  b_name :: string
  b_description :: string
  b_status :: string
  b_active :: bool
  b_disabled :: bool

datatype personalities_view =
    LoadingView
  | ErrorView
  | NoneAvailableView
  | ButtonsView "personality_button list"

text \<open>
  The mode, personality and VRChat controls: the fields \<open>v2ModeEnabled\<close>,
  \<open>v2ModeAvailable\<close>, \<open>personalities\<close> and \<open>currentPersonality\<close> of the class, and of the page
  the two status indicators (online or not), the V2 toggle (checked, disabled, greyed out
  with its note), the personalities list, the name shown as current personality with its
  colour, the text of the VRChat badge and the voice toggle.
\<close>

record controls =
  statusOnline :: bool
  apiStatusOnline :: bool
  v2ModeEnabled :: bool
  v2ModeAvailable :: bool
  v2ModeToggle :: bool
  v2ModeToggleDisabled :: bool
  v2ModeGreyed :: bool
  personalities :: "personality list"
  currentPersonality :: "string option"
  personalitiesList :: personalities_view
  currentPersonalityName :: "string \<times> string"
  vrchatStatus :: string
  voiceToggle :: bool

text \<open>
  The fields of the class that the modelled methods read or write, and the parts of the page
  and of the browser they touch: \<open>sockets\<close> holds the \<open>readyState\<close> of every \<open>WebSocket\<close>
  created so far (\<open>websocket\<close> is an index into it), \<open>timers\<close> the pending \<open>setTimeout\<close>
  callbacks as (handle, delay, callback), \<open>nextTimer\<close> the next handle (handles are
  positive, hence truthy), \<open>toasts\<close> the toasts shown so far as (type, text),
  \<open>controls\<close> the fields and page elements of the mode, personality and VRChat controls.
\<close>

record panel =
  apiUrl :: string
  consoleOutput :: "console_child list"
  toasts :: "(string \<times> string) list"
  wsStatus :: string
  websocket :: "nat option"
  sockets :: "ready_state list"
  reconnectAttempts :: nat
  maxReconnectAttempts :: nat
  reconnectDelay :: nat
  userSpeechBuffer :: "speech_item list"
  userSpeechBufferTimeout :: "nat option"
  userSpeechGroupingDelay :: nat
  timers :: "(nat \<times> nat \<times> callback) list"
  nextTimer :: nat
  yapModeEnabled :: bool
  yapModeToggle :: bool
  loadingOverlayHidden :: bool
  sendButtonDisabled :: bool
  messageInput :: string
  messageType :: "string option"
  charCounter :: string
  controls :: controls

definition setTimeout :: "callback \<Rightarrow> nat \<Rightarrow> panel \<Rightarrow> nat \<times> panel" where
  "setTimeout cb delay s =
     (nextTimer s, s\<lparr>timers := timers s @ [(nextTimer s, delay, cb)], nextTimer := Suc (nextTimer s)\<rparr>)"

definition clearTimeout :: "nat \<Rightarrow> panel \<Rightarrow> panel" where
  "clearTimeout h s = s\<lparr>timers := filter (\<lambda>t. fst t \<noteq> h) (timers s)\<rparr>"

definition addConsoleMessage :: "string \<Rightarrow> string \<Rightarrow> bool \<Rightarrow> panel \<Rightarrow> panel" where
  "addConsoleMessage ty message newLine s =
     (if \<not> newLine \<and> ty = ''response'' \<and> consoleOutput s \<noteq> []
         \<and> isResponseLine (last (consoleOutput s))
      then s\<lparr>consoleOutput := butlast (consoleOutput s) @
              [appendToMessage (replace_first ''Gabriel: '' [] message) (last (consoleOutput s))]\<rparr>
      else s\<lparr>consoleOutput := trimConsole (consoleOutput s @ [ConsoleLine ty (htmlText message)])\<rparr>)"

text \<open>
  The payload of a \<open>function_response\<close> event, or what \<open>JSON.parse\<close> makes of a logged
  one: \<open>r_success\<close> and \<open>r_yap_mode_enabled\<close> are \<open>None\<close> when the property is missing or no
  boolean, \<open>r_message\<close> is \<open>None\<close> when it is missing, \<open>r_json\<close> is the text that
  \<open>JSON.stringify(response, null, 2)\<close> gives.
\<close>

record response_data =
  r_success :: "bool option"
  r_message :: "string option"
  r_yap_mode_enabled :: "bool option"
  r_json :: string

text \<open>
  The \<open>data\<close> object of a WebSocket event: \<open>d_args\<close> is the text of
  \<open>JSON.stringify(args, null, 2)\<close> (empty when \<open>args\<close> is missing), \<open>d_response\<close> is
  \<open>data.response\<close>, which may be missing or null, \<open>d_yap_mode_enabled\<close> is a boolean
  property of \<open>data\<close> itself. A JSON text does not begin with a line feed, which the
  \<open>pre\<close> element of the details would drop.
\<close>

datatype 'a property = Absent | IsNull | Present 'a

record ws_data =
  d_message :: string
  d_text :: string
  d_name :: string
  d_args :: string
  d_response :: "response_data property"
  d_yap_mode_enabled :: "bool option"

record ws_message =
  msg_type :: string
  msg_data :: ws_data
  msg_timestamp :: string

definition addFunctionCallMessage :: "ws_data \<Rightarrow> panel \<Rightarrow> panel" where
  "addFunctionCallMessage d s =
     s\<lparr>consoleOutput := trimConsole (consoleOutput s @
         [FunctionCallLine (htmlText (d_name d)) (htmlText (d_args d))])\<rparr>"

definition truthy :: "string option \<Rightarrow> bool" where
  \<comment> \<open>a string property is truthy when it is present and not empty\<close>
  "truthy v = (case v of None \<Rightarrow> False | Some x \<Rightarrow> x \<noteq> [])"

definition orElse :: "string option \<Rightarrow> string \<Rightarrow> string" where
  \<comment> \<open>\<open>v || dflt\<close> for a string property\<close>
  "orElse v dflt = (case v of None \<Rightarrow> dflt | Some x \<Rightarrow> (if x = [] then dflt else x))"

definition addFunctionResponseMessage :: "ws_data \<Rightarrow> panel \<Rightarrow> panel" where
  "addFunctionResponseMessage d s =
     (let success = (case d_response d of
                       Present r \<Rightarrow> r_success r \<noteq> Some False | _ \<Rightarrow> True);
          message = (case d_response d of
                       Present r \<Rightarrow> orElse (r_message r) ''No message''
                     | _ \<Rightarrow> ''No message'');
          responseJson = (case d_response d of
                            Absent \<Rightarrow> [] | IsNull \<Rightarrow> ''null'' | Present r \<Rightarrow> r_json r)
      in s\<lparr>consoleOutput := trimConsole (consoleOutput s @
              [FunctionResponseLine (htmlText (d_name d)) success (htmlText message)
                 (htmlText responseJson)])\<rparr>)"

definition showToast :: "string \<Rightarrow> string \<Rightarrow> panel \<Rightarrow> panel" where
  "showToast ty message s = s\<lparr>toasts := toasts s @ [(ty, htmlText message)]\<rparr>"

definition showLoading :: "panel \<Rightarrow> panel" where
  "showLoading s = s\<lparr>loadingOverlayHidden := False, sendButtonDisabled := True\<rparr>"

definition hideLoading :: "panel \<Rightarrow> panel" where
  "hideLoading s = s\<lparr>loadingOverlayHidden := True, sendButtonDisabled := False\<rparr>"

definition updateWebSocketStatus :: "string \<Rightarrow> panel \<Rightarrow> panel" where
  "updateWebSocketStatus status s = s\<lparr>wsStatus := status\<rparr>"

subsection \<open>WebSocket connection and reconnect backoff\<close>

fun digitChar :: "nat \<Rightarrow> char" where
  "digitChar n = char_of (48 + n)"

fun showNat :: "nat \<Rightarrow> string" where
  \<comment> \<open>the decimal text of a number in a template string\<close>
  "showNat n = (if n < 10 then [digitChar n] else showNat (n div 10) @ [digitChar (n mod 10)])"

declare showNat.simps [simp del]

definition scheduleReconnect :: "panel \<Rightarrow> panel" where
  "scheduleReconnect s =
     (if reconnectAttempts s \<ge> maxReconnectAttempts s
      then updateWebSocketStatus ''failed''
             (addConsoleMessage ''error''
                ''Max reconnection attempts reached. Please refresh the page.'' True s)
      else (let s1 = snd (setTimeout ReconnectCallback (reconnectDelay s) s)
            in s1\<lparr>reconnectDelay := min (reconnectDelay s1 * 2) 30000\<rparr>))"

definition isOpen :: "panel \<Rightarrow> bool" where
  \<comment> \<open>\<open>this.websocket && this.websocket.readyState === WebSocket.OPEN\<close>\<close>
  "isOpen s = (case websocket s of None \<Rightarrow> False
               | Some i \<Rightarrow> i < length (sockets s) \<and> sockets s ! i = OPEN)"

text \<open>
  \<open>connectWebSocket\<close>; \<open>ctorThrows\<close> tells whether \<open>new WebSocket(this.wsUrl)\<close> throws.
  The four handlers it installs are the functions \<open>onopen\<close>, \<open>onclose\<close>, \<open>onerror\<close> below
  and \<open>handleWebSocketMessage\<close>.
\<close>

definition connectWebSocket :: "bool \<Rightarrow> panel \<Rightarrow> panel" where
  "connectWebSocket ctorThrows s =
     (if isOpen s then s
      else (let s1 = updateWebSocketStatus ''connecting'' s
            in if ctorThrows
               then scheduleReconnect
                      (updateWebSocketStatus ''error''
                         (addConsoleMessage ''error''
                            ''Failed to establish WebSocket connection'' True s1))
               else s1\<lparr>websocket := Some (length (sockets s1)),
                        sockets := sockets s1 @ [CONNECTING]\<rparr>))"

definition onopen :: "panel \<Rightarrow> panel" where
  "onopen s =
     (updateWebSocketStatus ''connected''
        (addConsoleMessage ''system'' ''WebSocket connected - Real-time monitoring active'' True s))
     \<lparr>reconnectAttempts := 0, reconnectDelay := 1000\<rparr>"

definition onclose :: "panel \<Rightarrow> panel" where
  "onclose s =
     scheduleReconnect
       (updateWebSocketStatus ''disconnected''
          (addConsoleMessage ''warning''
             ''WebSocket disconnected - Attempting to reconnect...'' True s))"

definition onerror :: "panel \<Rightarrow> panel" where
  "onerror s =
     updateWebSocketStatus ''error'' (addConsoleMessage ''error'' ''WebSocket connection error'' True s)"

definition reconnectCallback :: "bool \<Rightarrow> panel \<Rightarrow> panel" where
  \<comment> \<open>the arrow function that \<open>scheduleReconnect\<close> gives to \<open>setTimeout\<close>\<close>
  "reconnectCallback ctorThrows s =
     (let s1 = s\<lparr>reconnectAttempts := Suc (reconnectAttempts s)\<rparr>;
          s2 = addConsoleMessage ''system''
                 (''Reconnecting... (Attempt '' @ showNat (reconnectAttempts s1) @ ''/''
                    @ showNat (maxReconnectAttempts s1) @ '')'') True s1
      in connectWebSocket ctorThrows s2)"

subsection \<open>Speech buffer\<close>

definition flushUserSpeechBuffer :: "panel \<Rightarrow> panel" where
  "flushUserSpeechBuffer s =
     (if userSpeechBuffer s = [] then s
      else (let s1 = (case userSpeechBufferTimeout s of
                        None \<Rightarrow> s
                      | Some h \<Rightarrow> (clearTimeout h s)\<lparr>userSpeechBufferTimeout := None\<rparr>);
                combinedText = trim (join '' '' (map speech_text (userSpeechBuffer s1)));
                s2 = (if combinedText \<noteq> []
                      then addConsoleMessage ''user-speech'' (''[User Speech]: '' @ combinedText) True s1
                      else s1)
            in s2\<lparr>userSpeechBuffer := []\<rparr>))"

definition disconnect :: "panel \<Rightarrow> panel" where
  "disconnect s =
     (let s1 = flushUserSpeechBuffer s
      in case websocket s1 of
           None \<Rightarrow> s1
         | Some i \<Rightarrow>
             s1\<lparr>sockets := (if i < length (sockets s1) \<and> sockets s1 ! i \<noteq> CLOSED
                               then (sockets s1)[i := CLOSING] else sockets s1),
                 websocket := None\<rparr>)"

subsection \<open>Incoming WebSocket events\<close>

definition updateYapModeFromResponse :: "bool option \<Rightarrow> string option \<Rightarrow> panel \<Rightarrow> panel" where
  \<comment> \<open>the arguments are \<open>responseData.yap_mode_enabled\<close> (when a boolean) and \<open>responseData.message\<close>\<close>
  "updateYapModeFromResponse yap msg s =
     (case yap of
        None \<Rightarrow> s
      | Some newYapModeState \<Rightarrow>
          if yapModeToggle s \<noteq> newYapModeState
          then (let s1 = s\<lparr>yapModeToggle := newYapModeState, yapModeEnabled := newYapModeState\<rparr>;
                    statusMessage = (if newYapModeState then ''enabled'' else ''disabled'');
                    s2 = showToast ''info'' (''Yap mode automatically '' @ statusMessage) s1;
                    s3 = addConsoleMessage ''success'' (''Yap mode toggle updated: '' @ statusMessage) True s2
                in if truthy msg
                   then addConsoleMessage ''info'' (''Response: '' @ orElse msg []) True s3
                   else s3)
          else s)"

definition handleFunctionResponse :: "ws_data \<Rightarrow> panel \<Rightarrow> panel" where
  "handleFunctionResponse d s =
     (let s1 = addFunctionResponseMessage d s
      in case d_response d of
           Present r \<Rightarrow> updateYapModeFromResponse (r_yap_mode_enabled r) (r_message r) s1
         | _ \<Rightarrow> updateYapModeFromResponse (d_yap_mode_enabled d) (Some (d_message d)) s1)"

definition isLineTerminator :: "char \<Rightarrow> bool" where
  "isLineTerminator c = ((of_char c :: nat) \<in> {10, 13})"

definition matchHere :: "string \<Rightarrow> string option" where
  \<comment> \<open>the regular expression \<open>Function response:\s*({.*})\<close> anchored at the start; gives group 1\<close>
  "matchHere s =
     (if prefix ''Function response:'' s
      then (case dropWhile isWhiteSpace (drop (length ''Function response:'') s) of
              [] \<Rightarrow> None
            | c # rest \<Rightarrow>
                if c = CHR ''{''
                then (let line = takeWhile (\<lambda>c. \<not> isLineTerminator c) rest
                      in if CHR ''}'' \<in> set line
                         then Some (CHR ''{'' # rev (dropWhile (\<lambda>c. c \<noteq> CHR ''}'') (rev line)))
                         else None)
                else None)
      else None)"

fun matchFunctionResponse :: "string \<Rightarrow> string option" where
  \<comment> \<open>\<open>message.match(...)\<close>: the leftmost position at which the expression matches\<close>
  "matchFunctionResponse [] = None"
| "matchFunctionResponse (x # xs) =
     (case matchHere (x # xs) of Some g \<Rightarrow> Some g | None \<Rightarrow> matchFunctionResponse xs)"

function replace_all :: "string \<Rightarrow> string \<Rightarrow> string \<Rightarrow> string" where
  \<comment> \<open>\<open>s.replace(/pat/g, rep)\<close> for a literal, non-empty pattern\<close>
  "replace_all pat rep [] = []"
| "replace_all pat rep (x # xs) =
     (if pat \<noteq> [] \<and> prefix pat (x # xs)
      then rep @ replace_all pat rep (drop (length pat) (x # xs))
      else x # replace_all pat rep xs)"
  by pat_completeness auto
termination
  by (relation "measure (\<lambda>(pat, rep, s). length s)") (auto simp: neq_Nil_conv)

text \<open>
  \<open>checkForFunctionResponse\<close>. \<open>jsonParse\<close> stands for \<open>JSON.parse\<close> followed by the reading
  of the two properties that \<open>updateYapModeFromResponse\<close> uses; it is \<open>None\<close> where
  \<open>JSON.parse\<close> throws, which the \<open>catch\<close> block only logs.
\<close>

definition checkForFunctionResponse ::
  "(string \<Rightarrow> response_data option) \<Rightarrow> string \<Rightarrow> panel \<Rightarrow> panel" where
  "checkForFunctionResponse jsonParse message s =
     (case matchFunctionResponse message of
        None \<Rightarrow> s
      | Some g \<Rightarrow>
          (let jsonString =
                 replace_all ''None'' ''null''
                   (replace_all ''False'' ''false''
                      (replace_all ''True'' ''true''
                         (replace_all [CHR 0x27] [CHR 0x22] g)))
           in case jsonParse jsonString of
                None \<Rightarrow> s
              | Some r \<Rightarrow> updateYapModeFromResponse (r_yap_mode_enabled r) (r_message r) s))"

definition flushesBuffer :: "string \<Rightarrow> bool" where
  "flushesBuffer ty =
     (ty \<noteq> ''user_input_transcription'' \<and> ty \<noteq> ''heartbeat'' \<and> ty \<noteq> ''pong'')"

definition dispatchMessage ::
  "(string \<Rightarrow> response_data option) \<Rightarrow> ws_message \<Rightarrow> panel \<Rightarrow> panel" where
  \<comment> \<open>the \<open>switch (type)\<close> of \<open>handleWebSocketMessage\<close>\<close>
  "dispatchMessage jsonParse m s =
     (let ty = msg_type m; d = msg_data m
      in if ty = ''connection'' then addConsoleMessage ''success'' (d_message d) True s
         else if ty = ''user_message'' then addConsoleMessage ''info'' (d_message d) True s
         else if ty = ''system_instruction'' then addConsoleMessage ''system'' (d_message d) True s
         else if ty = ''function_call'' then addFunctionCallMessage d s
         else if ty = ''function_response'' then handleFunctionResponse d s
         else if ty = ''user_input_transcription'' then
           (let s1 = s\<lparr>userSpeechBuffer := userSpeechBuffer s @
                         [\<lparr>speech_text = d_text d, speech_timestamp = msg_timestamp m\<rparr>]\<rparr>;
                s2 = (case userSpeechBufferTimeout s1 of
                        None \<Rightarrow> s1 | Some h \<Rightarrow> clearTimeout h s1);
                (h, s3) = setTimeout FlushSpeechCallback (userSpeechGroupingDelay s2) s2
            in s3\<lparr>userSpeechBufferTimeout := Some h\<rparr>)
         else if ty = ''text_chunk'' then
           checkForFunctionResponse jsonParse (d_text d)
             (addConsoleMessage ''response'' (''Gabriel: '' @ d_text d) False s)
         else if ty = ''transcription_chunk'' then s
         else if ty = ''complete_response'' then
           checkForFunctionResponse jsonParse (d_text d)
             (addConsoleMessage ''response'' (''Gabriel (complete): '' @ d_text d) True s)
         else if ty = ''system'' then
           (let s1 = checkForFunctionResponse jsonParse (d_message d)
                       (addConsoleMessage ''system'' (d_message d) True s)
            in if includes_str (d_message d) ''Personality switched to:''
               then snd (setTimeout LoadPersonalitiesCallback 1000 s1)
               else s1)
         else if ty = ''error'' then addConsoleMessage ''error'' (d_message d) True s
         else s)"

definition handleWebSocketMessage ::
  "(string \<Rightarrow> response_data option) \<Rightarrow> ws_message \<Rightarrow> panel \<Rightarrow> panel" where
  "handleWebSocketMessage jsonParse m s =
     dispatchMessage jsonParse m
       (if flushesBuffer (msg_type m) then flushUserSpeechBuffer s else s)"

subsection \<open>Actions around a \<open>fetch\<close> call\<close>

datatype js_error = TypeError string

text \<open>
  How a request ends: the response parses to an object whose \<open>success\<close> is truthy or not
  (with its \<open>message\<close>, if any), or \<open>fetch\<close> or \<open>response.json()\<close> throws an error with the
  given message.
\<close>

datatype fetch_outcome = Responded bool "string option" | Threw string

record chat_request =
  req_method :: string
  req_url :: string
  req_message :: string
  req_system_instruction :: bool
  req_turn_complete :: bool

definition sendMessage :: "fetch_outcome \<Rightarrow> panel \<Rightarrow> js_error + (panel \<times> chat_request list)" where
  "sendMessage outcome s =
     (let message = trim (messageInput s)
      in if message = [] then Inr (showToast ''warning'' ''Please enter a message'' s, [])
         else (case messageType s of
                 None \<Rightarrow> Inl (TypeError ''Cannot read properties of null (reading 'value')'')
               | Some mt \<Rightarrow>
                   (let isSystemInstruction = (mt = ''system'');
                        s1 = showLoading s;
                        request = \<lparr>req_method = ''POST'', req_url = apiUrl s @ ''/api/chat/send'',
                                   req_message = message,
                                   req_system_instruction = isSystemInstruction,
                                   req_turn_complete = True\<rparr>;
                        caught = (\<lambda>msg.
                           addConsoleMessage ''error'' (''Failed to send message: '' @ msg) True
                             (showToast ''error'' (''Failed to send message: '' @ msg) s1));
                        s2 = (case outcome of
                                Responded ok msg \<Rightarrow>
                                  if ok
                                  then (addConsoleMessage ''success''
                                          (''Sent '' @ (if isSystemInstruction
                                                        then ''system instruction'' else ''message'')
                                             @ '': '' @ message) True
                                          (showToast ''success'' ''Message sent successfully'' s1))
                                       \<lparr>messageInput := [], charCounter := ''0/1000''\<rparr>
                                  else caught (orElse msg ''Failed to send message'')
                              | Threw msg \<Rightarrow> caught msg)
                    in Inr (hideLoading s2, [request]))))"

definition toggleYapMode :: "bool \<Rightarrow> fetch_outcome \<Rightarrow> panel \<Rightarrow> panel \<times> chat_request list" where
  "toggleYapMode enabled outcome s =
     (let s1 = showLoading s;
          message = (if enabled
                     then ''Enable yap mode - prevent interruptions during conversations''
                     else ''Disable yap mode - allow interruptions during conversations'');
          request = \<lparr>req_method = ''POST'', req_url = apiUrl s @ ''/api/chat/send'',
                     req_message = message, req_system_instruction = True,
                     req_turn_complete = True\<rparr>;
          caught = (\<lambda>msg.
             (showToast ''error'' (''Failed to toggle yap mode: '' @ msg) s1)
             \<lparr>yapModeToggle := yapModeEnabled s1\<rparr>);
          s2 = (case outcome of
                  Responded ok msg \<Rightarrow>
                    if ok
                    then (let word = (if enabled then ''enabled'' else ''disabled'')
                          in addConsoleMessage ''success'' (''Yap mode '' @ word) True
                               (showToast ''success'' (''Yap mode '' @ word)
                                  (s1\<lparr>yapModeEnabled := enabled\<rparr>)))
                    else caught (orElse msg ''Failed to toggle yap mode'')
                | Threw msg \<Rightarrow> caught msg)
      in (hideLoading s2, [request]))"

text \<open>
  A reply that carries more than \<open>success\<close> and \<open>message\<close>: \<open>Answered success message rest\<close>
  is the parsed object with what else the caller reads of it, \<open>Thrown\<close> is \<open>fetch\<close> or
  \<open>response.json()\<close> throwing.
\<close>

datatype 'a answer = Answered bool "string option" 'a | Thrown string

text \<open>
  A request other than the chat message: its method and URL, and the one boolean property
  of its JSON body, if it has a body.
\<close>

record api_request =
  ar_method :: string
  ar_url :: string
  ar_body :: "(string \<times> bool) option"

definition sendQuickMessage ::
  "string \<Rightarrow> fetch_outcome \<Rightarrow> panel \<Rightarrow> panel \<times> chat_request list" where
  "sendQuickMessage message outcome s =
     (let s1 = showLoading s;
          request = \<lparr>req_method = ''POST'', req_url = apiUrl s @ ''/api/chat/send'',
                     req_message = message, req_system_instruction = True,
                     req_turn_complete = True\<rparr>;
          caught = (\<lambda>msg.
             addConsoleMessage ''error'' (''Failed to send instruction: '' @ msg) True
               (showToast ''error'' (''Failed to send instruction: '' @ msg) s1));
          s2 = (case outcome of
                  Responded ok msg \<Rightarrow>
                    if ok
                    then addConsoleMessage ''success'' (''Quick instruction: '' @ message) True
                           (showToast ''success'' ''Quick instruction sent'' s1)
                    else caught (orElse msg ''Failed to send instruction'')
                | Threw msg \<Rightarrow> caught msg)
      in (hideLoading s2, [request]))"

definition toggleV2Mode ::
  "bool \<Rightarrow> fetch_outcome \<Rightarrow> panel \<Rightarrow> panel \<times> api_request list" where
  "toggleV2Mode enabled outcome s =
     (if enabled \<and> \<not> v2ModeAvailable (controls s)
      then ((showToast ''error'' ''V2 mode is not available on this system'' s)
              \<lparr>controls := (controls s)\<lparr>v2ModeToggle := v2ModeEnabled (controls s)\<rparr>\<rparr>, [])
      else (let s1 = showLoading s;
                request = \<lparr>ar_method = ''POST'', ar_url = apiUrl s @ ''/api/v2/toggle'',
                           ar_body = Some (''enable_v2'', enabled)\<rparr>;
                caught = (\<lambda>msg.
                   (let s' = showToast ''error'' (''Failed to toggle V2 mode: '' @ msg) s1
                    in s'\<lparr>controls := (controls s')
                            \<lparr>v2ModeToggle := v2ModeEnabled (controls s')\<rparr>\<rparr>));
                s2 = (case outcome of
                        Responded ok msg \<Rightarrow>
                          if ok
                          then (let modeText = (if enabled then ''V2'' else ''V1'');
                                    s' = s1\<lparr>controls := (controls s1)\<lparr>v2ModeEnabled := enabled\<rparr>\<rparr>
                                in addConsoleMessage ''info''
                                     (if enabled
                                      then ''V2 mode: Enhanced voice quality and advanced features''
                                      else ''V1 mode: Standard operation mode'') True
                                     (addConsoleMessage ''success''
                                        (''AI mode switched to '' @ modeText) True
                                        (showToast ''success''
                                           (''Switched to '' @ modeText @ '' mode'') s')))
                          else caught (orElse msg ''Failed to toggle V2 mode'')
                      | Threw msg \<Rightarrow> caught msg)
            in (hideLoading s2, [request])))"

text \<open>What \<open>reconnectSession\<close> reads of a successful reply; the age is in whole seconds.\<close>

record session_info =
  session_age_seconds :: nat
  session_mode :: string
  handle_preview :: string

definition reconnectSession ::
  "session_info answer \<Rightarrow> panel \<Rightarrow> panel \<times> api_request list" where
  "reconnectSession outcome s =
     (let s1 = showLoading s;
          request = \<lparr>ar_method = ''POST'', ar_url = apiUrl s @ ''/api/session/reconnect'',
                     ar_body = None\<rparr>;
          caught = (\<lambda>msg.
             if msg \<noteq> [] \<and> includes_str msg ''404''
             then addConsoleMessage ''error''
                    ''No saved session available. Start a new session first.'' True
                    (showToast ''error'' ''No saved session handle found'' s1)
             else if msg \<noteq> [] \<and> includes_str msg ''409''
             then addConsoleMessage ''warning''
                    ''Cannot reconnect - an active session already exists'' True
                    (showToast ''warning'' ''A session is already active'' s1)
             else addConsoleMessage ''error'' (''Reconnection failed: '' @ msg) True
                    (showToast ''error'' (''Failed to reconnect: '' @ msg) s1));
          s2 = (case outcome of
                  Answered ok msg d \<Rightarrow>
                    if ok
                    then (let ageMinutes = session_age_seconds d div 60;
                              ageSeconds = session_age_seconds d mod 60;
                              s' = addConsoleMessage ''info''
                                     (''Session age: '' @ showNat ageMinutes @ ''m ''
                                        @ showNat ageSeconds @ ''s | Handle: '' @ handle_preview d)
                                     True
                                     (addConsoleMessage ''success''
                                        (''Reconnection initiated with saved '' @ session_mode d
                                           @ '' session'') True
                                        (showToast ''success''
                                           (''Reconnecting with saved '' @ session_mode d
                                              @ '' session'') s1))
                          in if session_age_seconds d > 1800
                             then addConsoleMessage ''warning''
                                    ''Session is older than 30 minutes - reconnection may fail''
                                    True s'
                             else s')
                    else caught (orElse msg ''Failed to reconnect session'')
                | Thrown msg \<Rightarrow> caught msg)
      in (hideLoading s2, [request]))"

definition freshStart ::
  "bool \<Rightarrow> fetch_outcome \<Rightarrow> panel \<Rightarrow> panel \<times> api_request list" where
  \<comment> \<open>\<open>confirmed\<close> is the answer to the \<open>confirm\<close> dialog\<close>
  "freshStart confirmed outcome s =
     (if \<not> confirmed then (s, [])
      else (let s1 = showLoading s;
                request = \<lparr>ar_method = ''POST'', ar_url = apiUrl s @ ''/api/session/fresh-start'',
                           ar_body = None\<rparr>;
                caught = (\<lambda>msg.
                   addConsoleMessage ''error'' (''Fresh start failed: '' @ msg) True
                     (showToast ''error'' (''Failed to start fresh: '' @ msg) s1));
                s2 = (case outcome of
                        Responded ok msg \<Rightarrow>
                          if ok
                          then addConsoleMessage ''info''
                                 ''AI will restart with a completely fresh session'' True
                                 (addConsoleMessage ''success'' ''Saved session handle cleared'' True
                                    (showToast ''success'' ''Session cleared - restarting fresh'' s1))
                          else caught (orElse msg ''Failed to clear session'')
                      | Threw msg \<Rightarrow> caught msg)
            in (hideLoading s2, [request])))"

definition renderPersonalities :: "panel \<Rightarrow> panel" where
  \<comment> \<open>the identifier is written into an attribute as it is; the click listeners are not
      modelled\<close>
  "renderPersonalities s =
     (let c = controls s
      in if personalities c = []
         then s\<lparr>controls := c\<lparr>personalitiesList := NoneAvailableView\<rparr>\<rparr>
         else s\<lparr>controls := c\<lparr>personalitiesList := ButtonsView
                (map (\<lambda>p. let isActive = (Some (p_id p) = currentPersonality c);
                               isDisabled = (\<not> p_enabled p)
                           in \<lparr>b_id = p_id p, b_name = htmlText (p_name p),
                               b_description = htmlText (p_description p),
                               b_status = (if isActive then ''Active''
                                           else if isDisabled then ''Disabled''
                                           else ''Available''),
                               b_active = isActive, b_disabled = isDisabled\<rparr>)
                   (personalities c))\<rparr>\<rparr>)"

definition updateCurrentPersonalityDisplay :: "panel \<Rightarrow> panel" where
  "updateCurrentPersonalityDisplay s =
     (let c = controls s
      in s\<lparr>controls := c\<lparr>currentPersonalityName :=
            (if truthy (currentPersonality c)
             then (case find (\<lambda>p. Some (p_id p) = currentPersonality c) (personalities c) of
                     Some current \<Rightarrow> (p_name current, ''var(--accent-primary)'')
                   | None \<Rightarrow> (orElse (currentPersonality c) [], ''var(--accent-warning)''))
             else (''None'', ''var(--text-muted)''))\<rparr>\<rparr>)"

record personalities_payload =
  pl_personalities :: "personality list"
  pl_current :: "string option"
  pl_count :: nat

definition loadPersonalities ::
  "personalities_payload answer \<Rightarrow> panel \<Rightarrow> panel \<times> api_request list" where
  \<comment> \<open>\<open>showPersonalitiesLoading(false)\<close> in the \<open>finally\<close> block does nothing\<close>
  "loadPersonalities outcome s =
     (let s1 = s\<lparr>controls := (controls s)\<lparr>personalitiesList := LoadingView\<rparr>\<rparr>;
          request = \<lparr>ar_method = ''GET'', ar_url = apiUrl s @ ''/api/personalities'',
                     ar_body = None\<rparr>;
          caught = (\<lambda>msg.
             (let s' = addConsoleMessage ''error'' (''Failed to load personalities: '' @ msg) True
                         (showToast ''error'' (''Failed to load personalities: '' @ msg) s1)
              in s'\<lparr>controls := (controls s')\<lparr>personalitiesList := ErrorView\<rparr>\<rparr>));
          s2 = (case outcome of
                  Answered ok msg d \<Rightarrow>
                    if ok
                    then addConsoleMessage ''system''
                           (''Loaded '' @ showNat (pl_count d) @ '' personalities'') True
                           (updateCurrentPersonalityDisplay
                              (renderPersonalities
                                 (s1\<lparr>controls := (controls s1)
                                      \<lparr>personalities := pl_personalities d,
                                       currentPersonality := pl_current d\<rparr>\<rparr>)))
                    else caught (orElse msg ''Failed to load personalities'')
                | Thrown msg \<Rightarrow> caught msg)
      in (s2, [request]))"

definition switchPersonality ::
  "string \<Rightarrow> (js_error + string) answer \<Rightarrow> panel \<Rightarrow> panel \<times> api_request list" where
  \<comment> \<open>the reply carries what \<open>data.personality.name\<close> evaluates to: the name, or the
      \<open>TypeError\<close> thrown when \<open>data.personality\<close> is missing\<close>
  "switchPersonality personalityId outcome s =
     (let s1 = showLoading s;
          request = \<lparr>ar_method = ''POST'',
                     ar_url = apiUrl s @ ''/api/personalities/switch/'' @ personalityId,
                     ar_body = None\<rparr>;
          caught = (\<lambda>msg st.
             addConsoleMessage ''error'' (''Failed to switch personality: '' @ msg) True
               (showToast ''error'' (''Failed to switch personality: '' @ msg) st));
          s2 = (case outcome of
                  Answered ok msg d \<Rightarrow>
                    if ok
                    then (let s' = updateCurrentPersonalityDisplay
                                     (renderPersonalities
                                        (s1\<lparr>controls := (controls s1)
                                             \<lparr>currentPersonality := Some personalityId\<rparr>\<rparr>))
                          in case d of
                               Inl (TypeError e) \<Rightarrow> caught e s'
                             | Inr name \<Rightarrow>
                                 addConsoleMessage ''success''
                                   (''Personality switched to: '' @ name) True
                                   (showToast ''success''
                                      (''Switched to '' @ name @ '' personality'') s'))
                    else caught (orElse msg ''Failed to switch personality'') s1
                | Thrown msg \<Rightarrow> caught msg s1)
      in (hideLoading s2, [request]))"

record vrchat_controls =
  vc_enabled :: bool
  vc_connected :: bool
  vc_safe_mode_enabled :: bool
  vc_voice_enabled :: bool

definition updateVRChatStatus :: "vrchat_controls \<Rightarrow> panel \<Rightarrow> panel" where
  "updateVRChatStatus vc s =
     (if vc_enabled vc \<and> vc_connected vc
      then s\<lparr>controls := (controls s)\<lparr>vrchatStatus := ''Connected'',
                                         voiceToggle := vc_voice_enabled vc\<rparr>\<rparr>
      else if vc_enabled vc \<and> \<not> vc_connected vc
      then s\<lparr>controls := (controls s)\<lparr>vrchatStatus := ''Disconnected''\<rparr>\<rparr>
      else s\<lparr>controls := (controls s)\<lparr>vrchatStatus := ''Disabled''\<rparr>\<rparr>)"

definition loadVRChatControlsStatus ::
  "vrchat_controls answer \<Rightarrow> panel \<Rightarrow> panel \<times> api_request list" where
  "loadVRChatControlsStatus outcome s =
     (let request = \<lparr>ar_method = ''GET'', ar_url = apiUrl s @ ''/api/vrchat/controls/status'',
                     ar_body = None\<rparr>;
          caught = updateVRChatStatus
                     \<lparr>vc_enabled = False, vc_connected = False, vc_safe_mode_enabled = False,
                      vc_voice_enabled = True\<rparr> s;
          s2 = (case outcome of
                  Answered ok msg vc \<Rightarrow> if ok then updateVRChatStatus vc s else caught
                | Thrown msg \<Rightarrow> caught)
      in (s2, [request]))"

definition enableSafeMode :: "fetch_outcome \<Rightarrow> panel \<Rightarrow> panel \<times> api_request list" where
  "enableSafeMode outcome s =
     (let s1 = showLoading s;
          request = \<lparr>ar_method = ''POST'',
                     ar_url = apiUrl s @ ''/api/vrchat/controls/safe-mode'', ar_body = None\<rparr>;
          caught = (\<lambda>msg.
             addConsoleMessage ''error'' (''Failed to enable Safe Mode: '' @ msg) True
               (showToast ''error'' (''Failed to enable Safe Mode: '' @ msg) s1));
          s2 = (case outcome of
                  Responded ok msg \<Rightarrow>
                    if ok
                    then snd (setTimeout LoadVRChatControlsStatusCallback 1000
                           (addConsoleMessage ''success'' ''VRChat Safe Mode enabled'' True
                              (showToast ''success'' ''VRChat Safe Mode enabled'' s1)))
                    else caught (orElse msg ''Failed to enable Safe Mode'')
                | Threw msg \<Rightarrow> caught msg)
      in (hideLoading s2, [request]))"

definition toggleVRChatVoice ::
  "bool \<Rightarrow> bool answer \<Rightarrow> panel \<Rightarrow> panel \<times> api_request list" where
  \<comment> \<open>the reply carries \<open>data.voice_enabled\<close>\<close>
  "toggleVRChatVoice enable outcome s =
     (let s1 = showLoading s;
          request = \<lparr>ar_method = ''POST'',
                     ar_url = apiUrl s @ ''/api/vrchat/controls/voice/toggle'',
                     ar_body = Some (''enable'', enable)\<rparr>;
          caught = (\<lambda>msg.
             (let s' = addConsoleMessage ''error'' (''Failed to toggle voice: '' @ msg) True
                         (showToast ''error'' (''Failed to toggle voice: '' @ msg) s1)
              in s'\<lparr>controls := (controls s')\<lparr>voiceToggle := (\<not> enable)\<rparr>\<rparr>));
          s2 = (case outcome of
                  Answered ok msg voice_enabled \<Rightarrow>
                    if ok
                    then (let action = (if voice_enabled then ''enabled'' else ''disabled'');
                              s' = addConsoleMessage ''success'' (''VRChat voice '' @ action) True
                                     (showToast ''success'' (''VRChat voice '' @ action) s1);
                              s'' = s'\<lparr>controls := (controls s')\<lparr>voiceToggle := voice_enabled\<rparr>\<rparr>
                          in snd (setTimeout LoadVRChatControlsStatusCallback 1000 s''))
                    else caught (orElse msg ''Failed to toggle voice'')
                | Thrown msg \<Rightarrow> caught msg)
      in (hideLoading s2, [request]))"

definition updateStatus :: "bool \<Rightarrow> panel \<Rightarrow> panel" where
  "updateStatus isOnline s = s\<lparr>controls := (controls s)\<lparr>statusOnline := isOnline\<rparr>\<rparr>"

definition updateApiStatus :: "bool \<Rightarrow> panel \<Rightarrow> panel" where
  "updateApiStatus isOnline s = s\<lparr>controls := (controls s)\<lparr>apiStatusOnline := isOnline\<rparr>\<rparr>"

definition checkStatus ::
  "bool answer \<Rightarrow> fetch_outcome \<Rightarrow> vrchat_controls answer \<Rightarrow> panel
     \<Rightarrow> panel \<times> api_request list" where
  \<comment> \<open>the first reply carries \<open>data.status === 'healthy' && data.session_active\<close>; the call
      of \<open>loadVRChatControlsStatus\<close>, which is not awaited, is run to its end\<close>
  "checkStatus health chat vr s =
     (let healthRequest = \<lparr>ar_method = ''GET'', ar_url = apiUrl s @ ''/health'',
                           ar_body = None\<rparr>;
          chatRequest = \<lparr>ar_method = ''GET'', ar_url = apiUrl s @ ''/api/chat/status'',
                         ar_body = None\<rparr>
      in case health of
           Thrown msg \<Rightarrow> (updateApiStatus False (updateStatus False s), [healthRequest])
         | Answered ok msg isOnline \<Rightarrow>
             (let s1 = updateStatus isOnline s
              in case chat of
                   Threw msg' \<Rightarrow>
                     (updateApiStatus False (updateStatus False s1), [healthRequest, chatRequest])
                 | Responded success msg' \<Rightarrow>
                     (let (s2, rqs) = loadVRChatControlsStatus vr (updateApiStatus success s1)
                      in (s2, [healthRequest, chatRequest] @ rqs))))"

definition loadV2ModeStatus ::
  "(bool \<times> bool) answer \<Rightarrow> panel \<Rightarrow> panel \<times> api_request list" where
  \<comment> \<open>the reply carries \<open>data.v2_mode_enabled\<close> and \<open>data.v2_available\<close>\<close>
  "loadV2ModeStatus outcome s =
     (let request = \<lparr>ar_method = ''GET'', ar_url = apiUrl s @ ''/api/v2/status'',
                     ar_body = None\<rparr>;
          unavailable = s\<lparr>controls := (controls s)
                           \<lparr>v2ModeEnabled := False, v2ModeAvailable := False,
                            v2ModeToggle := False, v2ModeToggleDisabled := True\<rparr>\<rparr>;
          s2 = (case outcome of
                  Answered ok msg d \<Rightarrow>
                    if ok
                    then (let c = (controls s)\<lparr>v2ModeEnabled := fst d, v2ModeAvailable := snd d,
                                                   v2ModeToggle := fst d\<rparr>
                          in if \<not> snd d
                             then s\<lparr>controls := c\<lparr>v2ModeToggleDisabled := True,
                                                    v2ModeGreyed := True\<rparr>\<rparr>
                             else s\<lparr>controls := c\<rparr>)
                    else unavailable
                | Thrown msg \<Rightarrow> unavailable)
      in (s2, [request]))"

text \<open>
  How an action reports a failure, \<open>s\<close> being the panel before the action and \<open>s'\<close> the
  panel after it: by one more toast, of type \<open>error\<close>, and one more console line, of type
  \<open>error\<close>, with the given texts as the page shows them; by the toast alone; or not at all.
\<close>

definition reportsError :: "string \<Rightarrow> string \<Rightarrow> panel \<Rightarrow> panel \<Rightarrow> bool" where
  "reportsError toastText consoleText s s' =
     (toasts s' = toasts s @ [(''error'', htmlText toastText)]
      \<and> consoleOutput s' =
          trimConsole (consoleOutput s @ [ConsoleLine ''error'' (htmlText consoleText)]))"

definition reportsErrorByToast :: "string \<Rightarrow> panel \<Rightarrow> panel \<Rightarrow> bool" where
  "reportsErrorByToast toastText s s' =
     (toasts s' = toasts s @ [(''error'', htmlText toastText)]
      \<and> consoleOutput s' = consoleOutput s)"

definition reportsNothing :: "panel \<Rightarrow> panel \<Rightarrow> bool" where
  "reportsNothing s s' = (toasts s' = toasts s \<and> consoleOutput s' = consoleOutput s)"

subsection \<open>Construction and the events of a run\<close>

text \<open>
  The constructor's assignments. \<open>children\<close> are the child elements that the page gives
  \<open>consoleOutput\<close>; the remaining page parts start as an idle page has them.
\<close>

definition newPanel :: "string \<Rightarrow> console_child list \<Rightarrow> panel" where
  "newPanel url children =
     \<lparr>apiUrl = url, consoleOutput = children, toasts = [], wsStatus = [],
      websocket = None, sockets = [],
      reconnectAttempts = 0, maxReconnectAttempts = 5, reconnectDelay = 1000,
      userSpeechBuffer = [], userSpeechBufferTimeout = None, userSpeechGroupingDelay = 2000,
      timers = [], nextTimer = 1,
      yapModeEnabled = False, yapModeToggle = False,
      loadingOverlayHidden = True, sendButtonDisabled = False,
      messageInput = [], messageType = Some ''message'', charCounter = ''0/1000'',
      controls = \<lparr>statusOnline = False, apiStatusOnline = False, v2ModeEnabled = False,
        v2ModeAvailable = False, v2ModeToggle = False, v2ModeToggleDisabled = False,
        v2ModeGreyed = False, personalities = [], currentPersonality = None,
        personalitiesList = LoadingView, currentPersonalityName = (''None'', ''var(--text-muted)''),
        vrchatStatus = [], voiceToggle = False\<rparr>\<rparr>"

definition init :: "bool \<Rightarrow> panel \<Rightarrow> panel" where
  \<comment> \<open>\<open>init()\<close>; the requests that it starts (\<open>checkStatus\<close>, \<open>loadV2ModeStatus\<close>,
      \<open>loadPersonalities\<close>, \<open>loadVRChatControlsStatus\<close>) are answered after it returns, and
      are the actions of the previous subsection\<close>
  "init ctorThrows s =
     addConsoleMessage ''system'' ''Control panel initialized. Checking Gabriel status...'' True
       (connectWebSocket ctorThrows (s\<lparr>yapModeEnabled := False, yapModeToggle := False\<rparr>))"

text \<open>
  What the browser can do to a panel: a socket opens, closes, fails or delivers an event, a
  timer fires (the flag says whether the \<open>WebSocket\<close> constructor throws in a reconnect),
  the page unloads. An event that cannot happen in the state at hand changes nothing.
\<close>

datatype event =
    SocketOpens nat
  | SocketCloses nat
  | SocketErrors nat
  | SocketMessage nat ws_message
  | TimerFires nat bool
  | PageUnloads

definition fireTimer :: "nat \<Rightarrow> bool \<Rightarrow> panel \<Rightarrow> panel" where
  \<comment> \<open>the two loaders start a request and act on its reply; in a run their timers stay
      pending\<close>
  "fireTimer h ctorThrows s =
     (case find (\<lambda>t. fst t = h) (timers s) of
        None \<Rightarrow> s
      | Some (h', delay, cb) \<Rightarrow>
          (case cb of
             ReconnectCallback \<Rightarrow> reconnectCallback ctorThrows (clearTimeout h s)
           | FlushSpeechCallback \<Rightarrow> flushUserSpeechBuffer (clearTimeout h s)
           | LoadPersonalitiesCallback \<Rightarrow> s
           | LoadVRChatControlsStatusCallback \<Rightarrow> s))"

definition step :: "(string \<Rightarrow> response_data option) \<Rightarrow> event \<Rightarrow> panel \<Rightarrow> panel" where
  "step jsonParse e s =
     (case e of
        SocketOpens i \<Rightarrow>
          if i < length (sockets s) \<and> sockets s ! i = CONNECTING
          then onopen (s\<lparr>sockets := (sockets s)[i := OPEN]\<rparr>) else s
      | SocketCloses i \<Rightarrow>
          if i < length (sockets s) \<and> sockets s ! i \<noteq> CLOSED
          then onclose (s\<lparr>sockets := (sockets s)[i := CLOSED]\<rparr>) else s
      | SocketErrors i \<Rightarrow>
          if i < length (sockets s) \<and> sockets s ! i \<noteq> CLOSED then onerror s else s
      | SocketMessage i m \<Rightarrow>
          if i < length (sockets s) \<and> sockets s ! i = OPEN
          then handleWebSocketMessage jsonParse m s else s
      | TimerFires h ctorThrows \<Rightarrow> fireTimer h ctorThrows s
      | PageUnloads \<Rightarrow> disconnect s)"

fun run :: "(string \<Rightarrow> response_data option) \<Rightarrow> event list \<Rightarrow> panel \<Rightarrow> panel" where
  "run jsonParse [] s = s"
| "run jsonParse (e # es) s = run jsonParse es (step jsonParse e s)"

definition livePending :: "panel \<Rightarrow> nat" where
  \<comment> \<open>sockets not yet closed, plus reconnect timers not yet fired\<close>
  "livePending s =
     length (filter (\<lambda>r. r \<noteq> CLOSED) (sockets s))
     + length (filter (\<lambda>t. snd (snd t) = ReconnectCallback) (timers s))"

definition pendingReconnects :: "panel \<Rightarrow> nat" where
  "pendingReconnects s = length (filter (\<lambda>t. snd (snd t) = ReconnectCallback) (timers s))"

subsection \<open>Quantities of the reconnect loop\<close>

definition reconnect_inv :: "panel \<Rightarrow> bool" where
  "reconnect_inv s =
     (maxReconnectAttempts s = 5 \<and> 1000 \<le> reconnectDelay s \<and> reconnectDelay s \<le> 30000
      \<and> livePending s \<le> 1 \<and> reconnectAttempts s + pendingReconnects s \<le> 5)"

definition core :: "panel \<Rightarrow> ready_state list \<times> nat \<times> nat \<times> nat" where
  "core s = (sockets s, reconnectAttempts s, maxReconnectAttempts s, reconnectDelay s)"

definition pend :: "(nat \<times> nat \<times> callback) list \<Rightarrow> nat" where
  "pend ts = length (filter (\<lambda>t. snd (snd t) = ReconnectCallback) ts)"

definition live :: "ready_state list \<Rightarrow> nat" where
  "live socks = length (filter (\<lambda>r. r \<noteq> CLOSED) socks)"

fun isOpenEvent :: "event \<Rightarrow> bool" where
  "isOpenEvent (SocketOpens i) = True"
| "isOpenEvent _ = False"

definition firesReconnect :: "event \<Rightarrow> panel \<Rightarrow> bool" where
  \<comment> \<open>the event runs the reconnect callback, that is, one reconnect attempt is made\<close>
  "firesReconnect e s =
     (case e of
        TimerFires h c \<Rightarrow>
          (case find (\<lambda>t. fst t = h) (timers s) of
             Some (h', delay, cb) \<Rightarrow> cb = ReconnectCallback
           | None \<Rightarrow> False)
      | _ \<Rightarrow> False)"

fun attemptsMade :: "(string \<Rightarrow> response_data option) \<Rightarrow> event list \<Rightarrow> panel \<Rightarrow> nat" where
  \<comment> \<open>the number of reconnect attempts made while the events run\<close>
  "attemptsMade jsonParse [] s = 0"
| "attemptsMade jsonParse (e # es) s =
     (if firesReconnect e s then 1 else 0) + attemptsMade jsonParse es (step jsonParse e s)"

subsection \<open>The flush timer of the speech buffer\<close>

definition pendingFlushTimers :: "panel \<Rightarrow> (nat \<times> nat \<times> callback) list" where
  "pendingFlushTimers s = filter (\<lambda>t. snd (snd t) = FlushSpeechCallback) (timers s)"

definition flushTimerTracked :: "panel \<Rightarrow> bool" where
  \<comment> \<open>at most one flush timer is pending, and it is the one whose handle the panel keeps,
      for a buffer that is not empty\<close>
  "flushTimerTracked s =
     (length (pendingFlushTimers s) \<le> 1
      \<and> list_all (\<lambda>t. userSpeechBufferTimeout s = Some (fst t) \<and> userSpeechBuffer s \<noteq> [])
           (pendingFlushTimers s))"

definition speech ::
  "panel \<Rightarrow> speech_item list \<times> nat option \<times> (nat \<times> nat \<times> callback) list" where
  "speech s = (userSpeechBuffer s, userSpeechBufferTimeout s, pendingFlushTimers s)"

section \<open>The memory manager (memory.js)\<close>

subsection \<open>Memory records\<close>

text \<open>
  A memory as the API sends it. \<open>content\<close>, \<open>tags\<close> and \<open>access_count\<close> are \<open>None\<close> when the
  property is null. A timestamp is kept as the time value of \<open>new Date(...)\<close> applied to
  it, \<open>None\<close> for an invalid date (whose time value is NaN). \<open>access_count\<close> is an integer
  below \<open>10^21\<close> in size, which \<open>parseInt\<close> gives back unchanged.
\<close>

record memory =
  key :: string
  content :: "string option"
  category :: string
  memory_type :: string
  tags :: "string list option"
  created_at :: "int option"
  updated_at :: "int option"
  access_count :: "int option"

record sort_spec =
  field :: string
  direction :: string

text \<open>The entries of \<open>new FormData(elements.memoryForm)\<close>; \<open>None\<close> where \<open>get\<close> gives null.\<close>

record form_entries =
  fd_key :: "string option"
  fd_content :: "string option"
  fd_category :: "string option"
  fd_memory_type :: "string option"
  fd_tags :: "string option"

text \<open>
  The module's variables and the parts of the page that the modelled functions read or
  write. \<open>otherModalVisible\<close> is the outcome of
  \<open>document.querySelector('.modal:not(.hidden)') !== null\<close>; \<open>tableRows\<close> are the memories
  whose rows fill \<open>memoryTableBody\<close>; \<open>mm_toasts\<close> the toasts shown so far as (message,
  type); \<open>pendingRefreshes\<close> counts the queued \<open>setTimeout(() => refreshData(), 100)\<close>.
\<close>

record manager =
  apiBase :: string
  currentMemories :: "memory list"
  filteredMemories :: "memory list"
  currentSort :: sort_spec
  currentPage :: int
  itemsPerPage :: int
  isEditMode :: bool
  editingKey :: "string option"
  isAnyModalOpen :: bool
  lastViewMemoryTime :: int
  isViewingMemory :: bool
  searchInput :: string
  memoryTypeFilter :: string
  categoryFilter :: string
  categoryOptions :: "string list"
  memoryModalHidden :: bool
  viewModalHidden :: bool
  deleteModalHidden :: bool
  otherModalVisible :: bool
  memoryForm :: form_entries
  formDefaults :: form_entries
  tableRows :: "memory list"
  memoryCount :: string
  loadingStateHidden :: bool
  memoryTableContainerHidden :: bool
  emptyStateHidden :: bool
  connectionErrorStateHidden :: bool
  paginationContainerHidden :: bool
  paginationInfo :: string
  pageInfo :: string
  prevPageDisabled :: bool
  nextPageDisabled :: bool
  statTexts :: "string \<times> string \<times> string \<times> string"
  refreshBtnLoading :: bool
  saveMemoryBtnLoading :: bool
  mm_toasts :: "(string \<times> string) list"
  pendingRefreshes :: nat

subsection \<open>Sorting\<close>

text \<open>
  \<open>Array.prototype.sort\<close> with a comparison function. The sort is stable (ECMAScript
  2019): an element moves past another only when the comparison puts it strictly after.
  For a consistent comparison every stable sort gives the list that this insertion sort
  gives. With an inconsistent one (an invalid date compares as equal to every date) the
  order depends on the engine; what is proved of the order of dates is for valid dates.
\<close>

fun insert_by :: "('a \<Rightarrow> 'a \<Rightarrow> int) \<Rightarrow> 'a \<Rightarrow> 'a list \<Rightarrow> 'a list" where
  "insert_by cmp x [] = [x]"
| "insert_by cmp x (y # ys) = (if cmp x y \<le> 0 then x # y # ys else y # insert_by cmp x ys)"

definition sort_by :: "('a \<Rightarrow> 'a \<Rightarrow> int) \<Rightarrow> 'a list \<Rightarrow> 'a list" where
  "sort_by cmp xs = foldr (insert_by cmp) xs []"

text \<open>The converted \<open>aVal\<close>, \<open>bVal\<close> of the comparison: a number, a \<open>Date\<close> or a string.\<close>

datatype sortval = NumVal int | DateVal "int option" | StrVal string

fun greater :: "sortval \<Rightarrow> sortval \<Rightarrow> bool" where
  \<comment> \<open>\<open>aVal > bVal\<close>; a comparison with NaN is false\<close>
  "greater (NumVal a) (NumVal b) = (a > b)"
| "greater (DateVal (Some a)) (DateVal (Some b)) = (a > b)"
| "greater (StrVal a) (StrVal b) = (a > b)"
| "greater _ _ = False"

fun lesser :: "sortval \<Rightarrow> sortval \<Rightarrow> bool" where
  \<comment> \<open>\<open>aVal < bVal\<close>\<close>
  "lesser (NumVal a) (NumVal b) = (a < b)"
| "lesser (DateVal (Some a)) (DateVal (Some b)) = (a < b)"
| "lesser (StrVal a) (StrVal b) = (a < b)"
| "lesser _ _ = False"

definition countKey :: "memory \<Rightarrow> int" where
  \<comment> \<open>\<open>parseInt(memory.access_count) || 0\<close>\<close>
  "countKey m = (case access_count m of None \<Rightarrow> 0 | Some n \<Rightarrow> n)"

definition dateKey :: "string \<Rightarrow> memory \<Rightarrow> int option" where
  \<comment> \<open>the time value of \<open>new Date(memory[f])\<close>, for a name \<open>f\<close> containing \<open>_at\<close>:
      a property that the record lacks is undefined, which makes an invalid date\<close>
  "dateKey f m =
     (if f = ''created_at'' then created_at m
      else if f = ''updated_at'' then updated_at m
      else None)"

definition stringKey :: "string \<Rightarrow> memory \<Rightarrow> string" where
  \<comment> \<open>\<open>String(memory[f]).toLowerCase()\<close>, for a name \<open>f\<close> that is not \<open>access_count\<close> and
      does not contain \<open>_at\<close>\<close>
  "stringKey f m =
     toLowerCase
       (if f = ''key'' then key m
        else if f = ''content'' then (case content m of None \<Rightarrow> ''null'' | Some c \<Rightarrow> c)
        else if f = ''category'' then category m
        else if f = ''memory_type'' then memory_type m
        else if f = ''tags'' then (case tags m of None \<Rightarrow> ''null'' | Some ts \<Rightarrow> join '','' ts)
        else ''undefined'')"

definition fieldValue :: "string \<Rightarrow> memory \<Rightarrow> sortval" where
  "fieldValue f m =
     (if f = ''access_count'' then NumVal (countKey m)
      else if includes_str f ''_at'' then DateVal (dateKey f m)
      else StrVal (stringKey f m))"

definition compareMemories :: "sort_spec \<Rightarrow> memory \<Rightarrow> memory \<Rightarrow> int" where
  \<comment> \<open>the comparison function that \<open>applySorting\<close> passes to \<open>sort\<close>\<close>
  "compareMemories cs a b =
     (let aVal = fieldValue (field cs) a;
          bVal = fieldValue (field cs) b;
          comparison0 = 0;
          comparison1 = (if greater aVal bVal then 1 else comparison0);
          comparison = (if lesser aVal bVal then - 1 else comparison1)
      in if direction cs = ''desc'' then - comparison else comparison)"

definition applySorting :: "manager \<Rightarrow> manager" where
  "applySorting s =
     s\<lparr>filteredMemories := sort_by (compareMemories (currentSort s)) (filteredMemories s)\<rparr>"

subsection \<open>Pagination and the table\<close>

definition showInt :: "int \<Rightarrow> string" where
  "showInt i = (if i < 0 then CHR ''-'' # showNat (nat (- i)) else showNat (nat i))"

definition ceilDiv :: "int \<Rightarrow> int \<Rightarrow> int" where
  \<comment> \<open>\<open>Math.ceil(a / b)\<close> for \<open>a \<ge> 0\<close> and \<open>b > 0\<close>\<close>
  "ceilDiv a b = (a + b - 1) div b"

definition updatePagination :: "manager \<Rightarrow> manager" where
  "updatePagination s =
     (let totalItems = int (length (filteredMemories s));
          totalPages = ceilDiv totalItems (itemsPerPage s);
          page = (if currentPage s > totalPages \<and> totalPages > 0 then totalPages
                  else if currentPage s < 1 then 1 else currentPage s);
          startItem = (if totalItems = 0 then 0 else (page - 1) * itemsPerPage s + 1);
          endItem = min (page * itemsPerPage s) totalItems
      in s\<lparr>currentPage := page,
           paginationInfo := ''Showing '' @ showInt startItem @ ''-'' @ showInt endItem
              @ '' of '' @ showInt totalItems @ '' memories'',
           pageInfo := (if totalPages > 0
                        then ''Page '' @ showInt page @ '' of '' @ showInt totalPages
                        else ''Page 0 of 0''),
           prevPageDisabled := (page \<le> 1),
           nextPageDisabled := (page \<ge> totalPages),
           paginationContainerHidden := (totalPages \<le> 1)\<rparr>)"

definition slice :: "'a list \<Rightarrow> int \<Rightarrow> int \<Rightarrow> 'a list" where
  \<comment> \<open>\<open>xs.slice(start, end)\<close>: a negative index counts from the end\<close>
  "slice xs start end' =
     (let len = int (length xs);
          k = (if start < 0 then max (len + start) 0 else min start len);
          final = (if end' < 0 then max (len + end') 0 else min end' len)
      in take (nat (final - k)) (drop (nat k) xs))"

definition renderMemoryTable :: "manager \<Rightarrow> manager" where
  \<comment> \<open>a row of the table is kept as the memory it shows\<close>
  "renderMemoryTable s =
     (let startIndex = (currentPage s - 1) * itemsPerPage s;
          endIndex = startIndex + itemsPerPage s;
          pageMemories = slice (filteredMemories s) startIndex endIndex;
          n = length (filteredMemories s);
          s1 = s\<lparr>memoryCount := showNat n @ '' '' @ (if n = 1 then ''memory'' else ''memories'')\<rparr>
      in if n = 0
         then s1\<lparr>memoryTableContainerHidden := True, emptyStateHidden := False,
                 connectionErrorStateHidden := True, paginationContainerHidden := True\<rparr>
         else s1\<lparr>emptyStateHidden := True, connectionErrorStateHidden := True,
                 memoryTableContainerHidden := False, tableRows := pageMemories\<rparr>)"

subsection \<open>Search and filters\<close>

definition matchesSearch :: "string \<Rightarrow> memory \<Rightarrow> bool" where
  \<comment> \<open>the callback of the first \<open>filter\<close> in \<open>applyFiltersAndSearch\<close>\<close>
  "matchesSearch searchTerm m =
     (let keyMatch = includes_str (toLowerCase (key m)) searchTerm;
          contentMatch = (case content m of
                            None \<Rightarrow> False
                          | Some c \<Rightarrow> c \<noteq> [] \<and> includes_str (toLowerCase c) searchTerm);
          categoryMatch = includes_str (toLowerCase (category m)) searchTerm;
          tagsMatch = (case tags m of
                         None \<Rightarrow> False
                       | Some ts \<Rightarrow> list_ex (\<lambda>tag. includes_str (toLowerCase tag) searchTerm) ts)
      in keyMatch \<or> contentMatch \<or> categoryMatch \<or> tagsMatch)"

definition applyFiltersAndSearch :: "manager \<Rightarrow> manager" where
  "applyFiltersAndSearch s =
     (let filtered0 = currentMemories s;
          searchTerm = toLowerCase (trim (searchInput s));
          filtered1 = (if searchTerm \<noteq> [] then filter (matchesSearch searchTerm) filtered0
                       else filtered0);
          memoryType = memoryTypeFilter s;
          filtered2 = (if memoryType \<noteq> [] then filter (\<lambda>m. memory_type m = memoryType) filtered1
                       else filtered1);
          categoryValue = categoryFilter s;
          filtered3 = (if categoryValue \<noteq> [] then filter (\<lambda>m. category m = categoryValue) filtered2
                       else filtered2)
      in renderMemoryTable (updatePagination (applySorting (s\<lparr>filteredMemories := filtered3\<rparr>))))"

definition handleSearch :: "manager \<Rightarrow> manager" where
  "handleSearch s = applyFiltersAndSearch (s\<lparr>currentPage := 1\<rparr>)"

definition handleSort :: "string \<Rightarrow> manager \<Rightarrow> manager" where
  \<comment> \<open>the header icons that \<open>updateSortIndicators\<close> sets are not modelled\<close>
  "handleSort f s =
     (let cs = currentSort s;
          cs' = (if field cs = f
                 then cs\<lparr>direction := (if direction cs = ''asc'' then ''desc'' else ''asc'')\<rparr>
                 else \<lparr>field = f, direction = ''asc''\<rparr>)
      in renderMemoryTable (applySorting (s\<lparr>currentSort := cs'\<rparr>)))"

definition updateCategoryFilter :: "manager \<Rightarrow> manager" where
  "updateCategoryFilter s =
     (let categories = sort (remdups (map category (currentMemories s)));
          currentValue = categoryFilter s
      in s\<lparr>categoryOptions := [] # categories,
           categoryFilter := (if currentValue \<in> set categories then currentValue else [])\<rparr>)"

subsection \<open>Debounce\<close>

text \<open>
  The closure that \<open>debounce(func, wait)\<close> returns, with the timers it has pending:
  \<open>db_timeout\<close> is its variable \<open>timeout\<close> (\<open>None\<close> while undefined), \<open>db_timers\<close> the pending
  timers as (handle, due time, arguments of the call that set it), \<open>db_calls\<close> the
  executions of \<open>func\<close> so far, each with its time and arguments. Time is in milliseconds;
  a timer runs at its due time.
\<close>

record 'a debounced =
  db_timeout :: "nat option"
  db_timers :: "(nat \<times> nat \<times> 'a) list"
  db_next :: nat
  db_calls :: "(nat \<times> 'a) list"

definition debounce :: "'a debounced" where
  \<comment> \<open>the state of a new closure\<close>
  "debounce = \<lparr>db_timeout = None, db_timers = [], db_next = 1, db_calls = []\<rparr>"

definition db_clearTimeout :: "nat option \<Rightarrow> 'a debounced \<Rightarrow> 'a debounced" where
  "db_clearTimeout h d =
     (case h of None \<Rightarrow> d
      | Some i \<Rightarrow> d\<lparr>db_timers := filter (\<lambda>t. fst t \<noteq> i) (db_timers d)\<rparr>)"

definition executedFunction :: "nat \<Rightarrow> nat \<Rightarrow> 'a \<Rightarrow> 'a debounced \<Rightarrow> 'a debounced" where
  \<comment> \<open>a call of the wrapper at time \<open>now\<close>\<close>
  "executedFunction wait now args d =
     (let d1 = db_clearTimeout (db_timeout d) d
      in d1\<lparr>db_timers := db_timers d1 @ [(db_next d1, now + wait, args)],
            db_timeout := Some (db_next d1),
            db_next := Suc (db_next d1)\<rparr>)"

definition later :: "nat \<Rightarrow> 'a \<Rightarrow> 'a debounced \<Rightarrow> 'a debounced" where
  \<comment> \<open>the callback \<open>later\<close>, run at time \<open>t\<close> with the arguments it closed over\<close>
  "later t args d =
     (let d1 = db_clearTimeout (db_timeout d) d
      in d1\<lparr>db_calls := db_calls d1 @ [(t, args)]\<rparr>)"

definition fireTimers :: "(nat \<Rightarrow> bool) \<Rightarrow> 'a debounced \<Rightarrow> 'a debounced" where
  \<comment> \<open>the timers whose due time satisfies \<open>due\<close> run in the order of their due times;
      one that an earlier callback has cleared does not run\<close>
  "fireTimers due d =
     foldl (\<lambda>d' t. if t \<in> set (db_timers d')
                     then later (fst (snd t)) (snd (snd t))
                            (d'\<lparr>db_timers := filter (\<lambda>u. fst u \<noteq> fst t) (db_timers d')\<rparr>)
                     else d')
       d (sort_key (\<lambda>t. fst (snd t)) (filter (\<lambda>t. due (fst (snd t))) (db_timers d)))"

fun runCalls :: "nat \<Rightarrow> (nat \<times> 'a) list \<Rightarrow> 'a debounced \<Rightarrow> 'a debounced" where
  \<comment> \<open>calls of the wrapper, each with its time; the timers due by then run first\<close>
  "runCalls wait [] d = d"
| "runCalls wait ((now, args) # cs) d =
     runCalls wait cs (executedFunction wait now args (fireTimers (\<lambda>t. t \<le> now) d))"

definition settle :: "'a debounced \<Rightarrow> 'a debounced" where
  \<comment> \<open>no further call: every pending timer runs\<close>
  "settle d = fireTimers (\<lambda>t. True) d"

fun burst :: "nat \<Rightarrow> (nat \<times> 'a) list \<Rightarrow> bool" where
  \<comment> \<open>consecutive calls are less than \<open>wait\<close> apart\<close>
  "burst wait [] = True"
| "burst wait [c] = True"
| "burst wait (c # c' # cs) = (fst c \<le> fst c' \<and> fst c' < fst c + wait \<and> burst wait (c' # cs))"

definition searchInputWait :: nat where
  \<comment> \<open>\<open>elements.searchInput.addEventListener('input', debounce(handleSearch, 300))\<close>\<close>
  "searchInputWait = 300"

subsection \<open>Requests and responses\<close>

text \<open>
  A response of the API, as far as the callers look at it. \<open>contentType\<close> is the header
  (\<open>None\<close> when missing), \<open>body\<close> what \<open>response.json()\<close> gives: the parsed object, or the
  message of the error it throws. \<open>FetchError\<close> is \<open>fetch\<close> itself throwing.
\<close>

datatype 'a parsed = ParseError string | Body 'a

record 'a response =
  contentType :: "string option"
  ok :: bool
  status :: nat
  statusText :: string
  body :: "'a parsed"

datatype 'a fetched = FetchError string | Response "'a response"

record list_data =
  list_success :: bool
  list_memories :: "memory list"
  list_message :: "string option"

record stats_data =
  stats_success :: bool
  stats_total :: nat
  stats_long_term :: nat
  stats_short_term :: nat
  stats_quick_note :: nat
  stats_message :: "string option"
  stats_detail :: "string option"

record memory_data =
  md_key :: string
  md_content :: string
  md_category :: string
  md_memory_type :: "string option"
  md_tags :: "string list option"

record request =
  rq_method :: string
  rq_url :: string
  rq_body :: "memory_data option"

definition hexDigit :: "nat \<Rightarrow> char" where
  "hexDigit n = (if n < 10 then char_of (48 + n) else char_of (55 + n))"

definition percent :: "nat \<Rightarrow> string" where
  "percent b = [CHR ''%'', hexDigit (b div 16), hexDigit (b mod 16)]"



definition showToast_mm :: "string \<Rightarrow> string \<Rightarrow> manager \<Rightarrow> manager" where
  \<comment> \<open>\<open>showToast(message, type)\<close> of memory.js\<close>
  "showToast_mm message ty s = s\<lparr>mm_toasts := mm_toasts s @ [(message, ty)]\<rparr>"

definition showLoading_mm :: "manager \<Rightarrow> manager" where
  "showLoading_mm s =
     s\<lparr>loadingStateHidden := False, memoryTableContainerHidden := True,
       emptyStateHidden := True, connectionErrorStateHidden := True\<rparr>"

definition hideLoading_mm :: "manager \<Rightarrow> manager" where
  "hideLoading_mm s = s\<lparr>loadingStateHidden := True\<rparr>"

subsection \<open>The refresh guard and the loaders\<close>

definition refreshBlocked :: "int \<Rightarrow> manager \<Rightarrow> bool" where
  \<comment> \<open>the three early returns that open \<open>loadMemories\<close>, \<open>loadMemoryStats\<close> and
      \<open>refreshData\<close>; \<open>now\<close> is \<open>Date.now()\<close>\<close>
  "refreshBlocked now s =
     (if isAnyModalOpen s \<or> isViewingMemory s then True
      else if now - lastViewMemoryTime s < 15000 then True
      else list_ex (\<lambda>visible. visible)
             [\<not> memoryModalHidden s, \<not> viewModalHidden s, \<not> deleteModalHidden s,
              otherModalVisible s])"

definition isFormSafe :: "char \<Rightarrow> bool" where
  "isFormSafe c =
     (let n = (of_char c :: nat)
      in (65 \<le> n \<and> n \<le> 90) \<or> (97 \<le> n \<and> n \<le> 122) \<or> (48 \<le> n \<and> n \<le> 57)
         \<or> c \<in> set ''*-._'')"

definition formUrlEncode :: "string \<Rightarrow> string" where
  \<comment> \<open>how \<open>URLSearchParams\<close> writes a name or a value: a space becomes \<open>+\<close>, and every
      other code unit but the letters, the digits and \<open>*-._\<close> becomes the escaped bytes of
      its UTF-8 form\<close>
  "formUrlEncode s =
     concat (map (\<lambda>c. let n = (of_char c :: nat)
                       in if c = CHR '' '' then ''+''
                          else if isFormSafe c then [c]
                          else if n < 128 then percent n
                          else percent (192 + n div 64) @ percent (128 + n mod 64)) s)"

definition listUrl :: "manager \<Rightarrow> string" where
  \<comment> \<open>the URL with the \<open>URLSearchParams\<close> of \<open>loadMemories\<close>\<close>
  "listUrl s =
     apiBase s @ ''/api/memory/list?''
     @ (if memoryTypeFilter s \<noteq> []
        then ''memory_type='' @ formUrlEncode (memoryTypeFilter s) @ ''&'' else [])
     @ (if categoryFilter s \<noteq> []
        then ''category='' @ formUrlEncode (categoryFilter s) @ ''&'' else [])
     @ ''limit=1000''"

definition loadMemories ::
  "int \<Rightarrow> list_data fetched \<Rightarrow> manager \<Rightarrow> manager \<times> request list" where
  "loadMemories now outcome s =
     (if refreshBlocked now s then (s, [])
      else (let s1 = showLoading_mm s;
                rq = \<lparr>rq_method = ''GET'', rq_url = listUrl s1, rq_body = None\<rparr>;
                caught = (\<lambda>msg.
                   applyFiltersAndSearch
                     ((showToast_mm (''Failed to load memories: '' @ msg) ''error'' s1)
                        \<lparr>currentMemories := []\<rparr>));
                s2 = (case outcome of
                        FetchError msg \<Rightarrow> caught msg
                      | Response r \<Rightarrow>
                          if \<not> (case contentType r of None \<Rightarrow> False
                                 | Some ct \<Rightarrow> ct \<noteq> [] \<and> includes_str ct ''application/json'')
                          then caught (''Server returned HTML instead of JSON. Check if ''
                                 @ ''Gabriel API is running and memory endpoints are available.'')
                          else if \<not> ok r
                          then caught (''HTTP '' @ showNat (status r) @ '': '' @ statusText r)
                          else (case body r of
                                  ParseError msg \<Rightarrow> caught msg
                                | Body d \<Rightarrow>
                                    if list_success d
                                    then showToast_mm ''Memories loaded successfully'' ''success''
                                           (applyFiltersAndSearch
                                              (updateCategoryFilter
                                                 (s1\<lparr>currentMemories := list_memories d\<rparr>)))
                                    else caught (orElse (list_message d)
                                                   ''Failed to load memories'')))
            in (hideLoading_mm s2, [rq])))"

definition loadMemoryStats ::
  "int \<Rightarrow> stats_data fetched \<Rightarrow> manager \<Rightarrow> manager \<times> request list" where
  "loadMemoryStats now outcome s =
     (if refreshBlocked now s then (s, [])
      else (let rq = \<lparr>rq_method = ''GET'', rq_url = apiBase s @ ''/api/memory/stats'',
                      rq_body = None\<rparr>;
                caught = (\<lambda>msg.
                   (let s1 = s\<lparr>statTexts := (''-'', ''-'', ''-'', ''-'')\<rparr>
                    in if \<not> includes_str msg ''HTML instead of JSON''
                          \<and> \<not> includes_str msg ''Failed to fetch''
                       then showToast_mm (''Failed to load memory statistics: '' @ msg) ''error'' s1
                       else s1));
                s2 = (case outcome of
                        FetchError msg \<Rightarrow> caught msg
                      | Response r \<Rightarrow>
                          if \<not> (case contentType r of None \<Rightarrow> False
                                 | Some ct \<Rightarrow> ct \<noteq> [] \<and> includes_str ct ''application/json'')
                          then caught (''Server returned '' @ showNat (status r)
                                 @ '' with non-JSON response. Content-Type: ''
                                 @ orElse (contentType r) ''none'')
                          else (case body r of
                                  ParseError msg \<Rightarrow>
                                    caught (''Failed to parse JSON response: '' @ msg)
                                | Body d \<Rightarrow>
                                    if \<not> ok r
                                    then caught (''HTTP '' @ showNat (status r) @ '': ''
                                           @ (if truthy (stats_detail d) then orElse (stats_detail d) []
                                              else orElse (stats_message d) ''Unknown error''))
                                    else if stats_success d
                                    then s\<lparr>statTexts :=
                                            (showNat (stats_total d), showNat (stats_long_term d),
                                             showNat (stats_short_term d),
                                             showNat (stats_quick_note d))\<rparr>
                                    else caught (orElse (stats_message d) ''Failed to load stats'')))
            in (s2, [rq])))"

definition loadMemoryStatsWithRetry ::
  "int \<Rightarrow> stats_data fetched \<Rightarrow> manager \<Rightarrow> manager \<times> request list" where
  \<comment> \<open>\<open>loadMemoryStats\<close> catches every error itself, so the first attempt of the retry
      loop returns\<close>
  "loadMemoryStatsWithRetry now outcome s = loadMemoryStats now outcome s"

definition refreshData ::
  "int \<Rightarrow> list_data fetched \<Rightarrow> stats_data fetched \<Rightarrow> manager \<Rightarrow> manager \<times> request list" where
  "refreshData now listOutcome statsOutcome s =
     (if refreshBlocked now s then (s, [])
      else (let s1 = s\<lparr>refreshBtnLoading := True\<rparr>;
                (s2, rqs2) = loadMemories now listOutcome s1;
                (s3, rqs3) = loadMemoryStatsWithRetry now statsOutcome s2
            in (s3\<lparr>refreshBtnLoading := False\<rparr>, rqs2 @ rqs3)))"

subsection \<open>Submitting the memory form\<close>




subsection \<open>The module's initial state\<close>

definition initialManager :: "string \<Rightarrow> form_entries \<Rightarrow> manager" where
  \<comment> \<open>the initial values of the module's variables, on a page with no modal open, an empty
      search box and no filter chosen; \<open>defaults\<close> are the form's default entries\<close>
  "initialManager base defaults =
     \<lparr>apiBase = base, currentMemories = [], filteredMemories = [],
      currentSort = \<lparr>field = ''updated_at'', direction = ''desc''\<rparr>,
      currentPage = 1, itemsPerPage = 20, isEditMode = False, editingKey = None,
      isAnyModalOpen = False, lastViewMemoryTime = 0, isViewingMemory = False,
      searchInput = [], memoryTypeFilter = [], categoryFilter = [], categoryOptions = [[]],
      memoryModalHidden = True, viewModalHidden = True, deleteModalHidden = True,
      otherModalVisible = False, memoryForm = defaults, formDefaults = defaults,
      tableRows = [], memoryCount = [], loadingStateHidden = True,
      memoryTableContainerHidden = True, emptyStateHidden = True,
      connectionErrorStateHidden = True, paginationContainerHidden = True,
      paginationInfo = [], pageInfo = [], prevPageDisabled = True, nextPageDisabled = True,
      statTexts = (''-'', ''-'', ''-'', ''-''), refreshBtnLoading = False,
      saveMemoryBtnLoading = False, mm_toasts = [], pendingRefreshes = 0\<rparr>"

subsection \<open>The claims' readings of filtering and ordering\<close>

text \<open>
  What the filters demand of a memory, in the words of the claim: each of the three
  conditions binds only when its control is set.
\<close>

definition passesFilters :: "manager \<Rightarrow> memory \<Rightarrow> bool" where
  "passesFilters s m =
     ((toLowerCase (trim (searchInput s)) = []
        \<or> includes_str (toLowerCase (key m)) (toLowerCase (trim (searchInput s)))
        \<or> (\<exists>c. content m = Some c
              \<and> includes_str (toLowerCase c) (toLowerCase (trim (searchInput s))))
        \<or> includes_str (toLowerCase (category m)) (toLowerCase (trim (searchInput s)))
        \<or> (\<exists>ts tag. tags m = Some ts \<and> tag \<in> set ts
              \<and> includes_str (toLowerCase tag) (toLowerCase (trim (searchInput s)))))
      \<and> (memoryTypeFilter s = [] \<or> memory_type m = memoryTypeFilter s)
      \<and> (categoryFilter s = [] \<or> category m = categoryFilter s))"

text \<open>
  \<open>orderedBy dir k xs r\<close>: the list \<open>r\<close> is \<open>xs\<close> put in the order of the keys \<open>k\<close>,
  ascending unless \<open>dir\<close> is \<open>desc\<close>, elements with equal keys staying in the order they have
  in \<open>xs\<close>. Ascending, that is the library's stable \<open>sort_key\<close>; descending, it is the
  reverse of that provided no two keys are equal.
\<close>

definition orderedBy :: "string \<Rightarrow> ('a \<Rightarrow> 'k::linorder) \<Rightarrow> 'a list \<Rightarrow> 'a list \<Rightarrow> bool" where
  "orderedBy dir k xs r =
     (mset r = mset xs
      \<and> (\<forall>v. filter (\<lambda>m. k m = v) r = filter (\<lambda>m. k m = v) xs)
      \<and> (if dir = ''desc''
         then sorted (rev (map k r)) \<and> (distinct (map k xs) \<longrightarrow> r = rev (sort_key k xs))
         else sorted (map k r) \<and> r = sort_key k xs))"

definition ascending :: "('a \<Rightarrow> 'k::linorder) \<Rightarrow> 'a \<Rightarrow> 'a \<Rightarrow> int" where
  \<comment> \<open>the three-way comparison of two elements by their keys\<close>
  "ascending k a b = (if k a > k b then 1 else if k a < k b then - 1 else 0)"

definition timeKey :: "string \<Rightarrow> memory \<Rightarrow> int" where
  \<comment> \<open>the time value of a valid date\<close>
  "timeKey f m = (case dateKey f m of None \<Rightarrow> 0 | Some t \<Rightarrow> t)"

definition armed :: "nat \<Rightarrow> nat \<Rightarrow> 'a \<Rightarrow> (nat \<times> 'a) list \<Rightarrow> 'a debounced \<Rightarrow> bool" where
  \<comment> \<open>the closure has exactly one timer pending, and \<open>func\<close> has run as in \<open>done\<close>\<close>
  "armed h due a done d =
     (db_timeout d = Some h \<and> db_timers d = [(h, due, a)] \<and> db_calls d = done)"

subsection \<open>Sample data\<close>

text \<open>Three memories and a form, for the concrete instances of the theorems below.\<close>

definition memoryA :: memory where
  "memoryA = \<lparr>key = ''a'', content = Some ''first'', category = ''general'',
     memory_type = ''long_term'', tags = None, created_at = Some 10, updated_at = Some 10,
     access_count = Some 3\<rparr>"

definition memoryB :: memory where
  "memoryB = \<lparr>key = ''b'', content = Some ''second'', category = ''general'',
     memory_type = ''long_term'', tags = None, created_at = Some 20, updated_at = Some 20,
     access_count = Some 3\<rparr>"

definition memoryC :: memory where
  "memoryC = \<lparr>key = ''C'', content = None, category = ''Work'',
     memory_type = ''quick_note'', tags = Some [''Urgent''], created_at = Some 5,
     updated_at = None, access_count = None\<rparr>"

definition blankForm :: form_entries where
  "blankForm = \<lparr>fd_key = Some [], fd_content = Some [], fd_category = Some ''general'',
     fd_memory_type = Some ''long_term'', fd_tags = Some []\<rparr>"

definition loadedManager :: manager where
  \<comment> \<open>the manager once the three memories are loaded\<close>
  "loadedManager = (initialManager ''http://h:8000'' blankForm)
     \<lparr>currentMemories := [memoryA, memoryB, memoryC],
      filteredMemories := [memoryA, memoryB, memoryC]\<rparr>"

section \<open>Properties of the control panel\<close>

subsection \<open>Frame and invariant lemmas\<close>

lemma core_update [simp]:
  "core (s\<lparr>timers := a\<rparr>) = core s"
  "core (s\<lparr>userSpeechBuffer := b\<rparr>) = core s"
  "core (s\<lparr>userSpeechBufferTimeout := c\<rparr>) = core s"
  "core (s\<lparr>nextTimer := d\<rparr>) = core s"
  "core (s\<lparr>yapModeToggle := e\<rparr>) = core s"
  "core (s\<lparr>yapModeEnabled := f\<rparr>) = core s"
  "core (s\<lparr>consoleOutput := g\<rparr>) = core s"
  "core (s\<lparr>toasts := h\<rparr>) = core s"
  "core (s\<lparr>wsStatus := i\<rparr>) = core s"
  "core (s\<lparr>websocket := j\<rparr>) = core s"
  by (simp_all add: core_def)

lemma core_addConsoleMessage [simp]: "core (addConsoleMessage ty m nl s) = core s"
  and timers_addConsoleMessage [simp]: "timers (addConsoleMessage ty m nl s) = timers s"
  and websocket_addConsoleMessage [simp]: "websocket (addConsoleMessage ty m nl s) = websocket s"
  by (simp_all add: addConsoleMessage_def)

lemma core_showToast [simp]: "core (showToast ty m s) = core s"
  and timers_showToast [simp]: "timers (showToast ty m s) = timers s"
  by (simp_all add: showToast_def)

lemma core_updateWebSocketStatus [simp]: "core (updateWebSocketStatus st s) = core s"
  and timers_updateWebSocketStatus [simp]: "timers (updateWebSocketStatus st s) = timers s"
  and websocket_updateWebSocketStatus [simp]: "websocket (updateWebSocketStatus st s) = websocket s"
  by (simp_all add: updateWebSocketStatus_def)

lemma core_addFunctionCallMessage [simp]: "core (addFunctionCallMessage d s) = core s"
  and timers_addFunctionCallMessage [simp]: "timers (addFunctionCallMessage d s) = timers s"
  by (simp_all add: addFunctionCallMessage_def)

lemma core_addFunctionResponseMessage [simp]: "core (addFunctionResponseMessage d s) = core s"
  and timers_addFunctionResponseMessage [simp]: "timers (addFunctionResponseMessage d s) = timers s"
  by (simp_all add: addFunctionResponseMessage_def Let_def)

lemma core_updateYap [simp]: "core (updateYapModeFromResponse y m s) = core s"
  and timers_updateYap [simp]: "timers (updateYapModeFromResponse y m s) = timers s"
  by (simp_all add: updateYapModeFromResponse_def Let_def split: option.splits)

lemma core_checkFR [simp]: "core (checkForFunctionResponse jp m s) = core s"
  and timers_checkFR [simp]: "timers (checkForFunctionResponse jp m s) = timers s"
  by (simp_all add: checkForFunctionResponse_def Let_def split: option.splits)

lemma core_handleFR [simp]: "core (handleFunctionResponse d s) = core s"
  and timers_handleFR [simp]: "timers (handleFunctionResponse d s) = timers s"
  by (simp_all add: handleFunctionResponse_def Let_def split: option.splits property.splits)

lemma pend_filter: "pend (filter P ts) \<le> pend ts"
  unfolding pend_def by (induction ts) auto

lemma pend_append [simp]: "pend (ts @ us) = pend ts + pend us"
  by (simp add: pend_def)

lemma core_clearTimeout [simp]: "core (clearTimeout h s) = core s"
  and pend_clearTimeout: "pend (timers (clearTimeout h s)) \<le> pend (timers s)"
  by (simp_all add: clearTimeout_def pend_filter)

lemma core_flush [simp]: "core (flushUserSpeechBuffer s) = core s"
  by (simp add: flushUserSpeechBuffer_def Let_def split: option.splits)

lemma pend_flush: "pend (timers (flushUserSpeechBuffer s)) \<le> pend (timers s)"
  by (simp add: flushUserSpeechBuffer_def Let_def clearTimeout_def pend_filter split: option.splits)

lemma core_dispatch [simp]: "core (dispatchMessage jp m s) = core s"
  by (simp add: dispatchMessage_def Let_def setTimeout_def split: option.splits prod.splits)

lemma length_filter_conj_le: "length (filter (\<lambda>x. P x \<and> Q x) xs) \<le> length (filter Q xs)"
  by (induction xs) auto

lemma pend_dispatch: "pend (timers (dispatchMessage jp m s)) \<le> pend (timers s)"
  by (simp add: dispatchMessage_def Let_def setTimeout_def clearTimeout_def pend_def length_filter_conj_le split: option.splits prod.splits)

lemma reconnect_inv_alt:
  "reconnect_inv s \<longleftrightarrow>
     (case core s of (socks, attempts, mx, delay) \<Rightarrow>
        mx = 5 \<and> 1000 \<le> delay \<and> delay \<le> 30000
        \<and> length (filter (\<lambda>r. r \<noteq> CLOSED) socks) + pend (timers s) \<le> 1
        \<and> attempts + pend (timers s) \<le> 5)"
  by (simp add: reconnect_inv_def core_def livePending_def pendingReconnects_def pend_def)

lemma inv_frame:
  "reconnect_inv s \<Longrightarrow> core s' = core s \<Longrightarrow> pend (timers s') \<le> pend (timers s) \<Longrightarrow> reconnect_inv s'"
  by (auto simp: reconnect_inv_alt split: prod.splits)

lemma inv_scheduleReconnect:
  assumes "reconnect_inv s" "length (filter (\<lambda>r. r \<noteq> CLOSED) (sockets s)) = 0" "pend (timers s) = 0"
  shows "reconnect_inv (scheduleReconnect s)"
  using assms
  by (auto simp: reconnect_inv_alt scheduleReconnect_def core_def setTimeout_def Let_def pend_def
      updateWebSocketStatus_def addConsoleMessage_def)

lemma live_update_same:
  "i < length socks \<Longrightarrow> socks ! i \<noteq> CLOSED \<Longrightarrow> r \<noteq> CLOSED \<Longrightarrow> live (socks[i := r]) = live socks"
  unfolding live_def
proof (induction socks arbitrary: i)
  case Nil
  then show ?case by simp
next
  case (Cons a socks)
  then show ?case by (cases i) auto
qed

lemma live_update_closed:
  "i < length socks \<Longrightarrow> socks ! i \<noteq> CLOSED \<Longrightarrow> Suc (live (socks[i := CLOSED])) = live socks"
  unfolding live_def
proof (induction socks arbitrary: i)
  case Nil
  then show ?case by simp
next
  case (Cons a socks)
  then show ?case by (cases i) auto
qed

lemma live_pos: "i < length socks \<Longrightarrow> socks ! i \<noteq> CLOSED \<Longrightarrow> 0 < live socks"
  unfolding live_def using nth_mem[of i socks] by (auto simp: filter_empty_conv)

lemma inv_connectWebSocket:
  assumes "reconnect_inv s" "live (sockets s) = 0" "pend (timers s) = 0"
  shows "reconnect_inv (connectWebSocket c s)"
proof -
  have notopen: "\<not> isOpen s"
  proof
    assume "isOpen s"
    then obtain i where "i < length (sockets s)" "sockets s ! i = OPEN"
      by (auto simp: isOpen_def split: option.splits)
    then have "0 < live (sockets s)" by (intro live_pos[of i]) simp_all
    with assms(2) show False by simp
  qed
  let ?s1 = "updateWebSocketStatus ''error''
               (addConsoleMessage ''error'' ''Failed to establish WebSocket connection'' True
                  (updateWebSocketStatus ''connecting'' s))"
  show ?thesis
  proof (cases c)
    case True
    have "reconnect_inv ?s1"
      by (rule inv_frame[OF assms(1)]) simp_all
    moreover have "length (filter (\<lambda>r. r \<noteq> CLOSED) (sockets ?s1)) = 0"
      using assms(2) by (simp add: live_def updateWebSocketStatus_def addConsoleMessage_def)
    moreover have "pend (timers ?s1) = 0"
      using assms(3) by simp
    ultimately have "reconnect_inv (scheduleReconnect ?s1)"
      by (rule inv_scheduleReconnect)
    then show ?thesis using True notopen by (simp add: connectWebSocket_def Let_def)
  next
    case False
    then show ?thesis
      using notopen assms
      by (simp add: connectWebSocket_def Let_def reconnect_inv_alt core_def live_def
          updateWebSocketStatus_def)
  qed
qed

lemma inv_live_pend:
  "reconnect_inv s \<Longrightarrow> live (sockets s) + pend (timers s) \<le> 1"
  by (simp add: reconnect_inv_def livePending_def live_def pend_def)

lemma inv_onopen:
  assumes "reconnect_inv s" "i < length (sockets s)" "sockets s ! i = CONNECTING"
  shows "reconnect_inv (onopen (s\<lparr>sockets := (sockets s)[i := OPEN]\<rparr>))"
proof -
  have "live ((sockets s)[i := OPEN]) = live (sockets s)"
    using assms by (intro live_update_same) simp_all
  then show ?thesis
    using assms(1)
    by (simp add: onopen_def reconnect_inv_def livePending_def pendingReconnects_def live_def
        updateWebSocketStatus_def addConsoleMessage_def)
qed

lemma inv_onclose:
  assumes "reconnect_inv s" "i < length (sockets s)" "sockets s ! i \<noteq> CLOSED"
  shows "reconnect_inv (onclose (s\<lparr>sockets := (sockets s)[i := CLOSED]\<rparr>))"
proof -
  let ?s0 = "s\<lparr>sockets := (sockets s)[i := CLOSED]\<rparr>"
  let ?s1 = "updateWebSocketStatus ''disconnected''
               (addConsoleMessage ''warning''
                  ''WebSocket disconnected - Attempting to reconnect...'' True ?s0)"
  have l: "Suc (live ((sockets s)[i := CLOSED])) = live (sockets s)"
    using assms by (intro live_update_closed) simp_all
  with inv_live_pend[OF assms(1)]
  have z: "live ((sockets s)[i := CLOSED]) = 0" "pend (timers s) = 0" by simp_all
  have "reconnect_inv ?s0"
    using assms(1) z
    by (simp add: reconnect_inv_def livePending_def pendingReconnects_def live_def pend_def)
  then have "reconnect_inv ?s1"
    by (rule inv_frame) simp_all
  moreover have "length (filter (\<lambda>r. r \<noteq> CLOSED) (sockets ?s1)) = 0"
    using z(1) by (simp add: live_def updateWebSocketStatus_def addConsoleMessage_def)
  moreover have "pend (timers ?s1) = 0" using z(2) by simp
  ultimately show ?thesis
    unfolding onclose_def by (rule inv_scheduleReconnect)
qed

lemma inv_onerror: "reconnect_inv s \<Longrightarrow> reconnect_inv (onerror s)"
  unfolding onerror_def by (erule inv_frame) simp_all

lemma inv_handleWebSocketMessage:
  "reconnect_inv s \<Longrightarrow> reconnect_inv (handleWebSocketMessage jp m s)"
  unfolding handleWebSocketMessage_def
  by (erule inv_frame) (auto intro: order_trans[OF pend_dispatch] pend_flush)

lemma inv_flush: "reconnect_inv s \<Longrightarrow> reconnect_inv (flushUserSpeechBuffer s)"
  by (erule inv_frame) (simp_all add: pend_flush)

lemma inv_disconnect: "reconnect_inv s \<Longrightarrow> reconnect_inv (disconnect s)"
proof -
  assume "reconnect_inv s"
  then have f: "reconnect_inv (flushUserSpeechBuffer s)" by (rule inv_flush)
  show ?thesis
  proof (cases "websocket (flushUserSpeechBuffer s)")
    case None
    then show ?thesis using f by (simp add: disconnect_def Let_def)
  next
    case (Some i)
    let ?t = "flushUserSpeechBuffer s"
    have "live (if i < length (sockets ?t) \<and> sockets ?t ! i \<noteq> CLOSED
                then (sockets ?t)[i := CLOSING] else sockets ?t) = live (sockets ?t)"
      by (simp add: live_update_same)
    then show ?thesis
      using f Some
      by (simp add: disconnect_def Let_def reconnect_inv_def livePending_def
          pendingReconnects_def live_def)
  qed
qed

lemma pend_clear_reconnect:
  assumes "(h, d, ReconnectCallback) \<in> set ts"
  shows "pend (filter (\<lambda>t. fst t \<noteq> h) ts) < pend ts"
  using assms unfolding pend_def
proof (induction ts)
  case Nil
  then show ?case by simp
next
  case (Cons a ts)
  show ?case
  proof (cases "a = (h, d, ReconnectCallback)")
    case True
    have "length (filter (\<lambda>t. snd (snd t) = ReconnectCallback) (filter (\<lambda>t. fst t \<noteq> h) ts))
          \<le> length (filter (\<lambda>t. snd (snd t) = ReconnectCallback) ts)"
      using pend_filter[of "\<lambda>t. fst t \<noteq> h" ts] by (simp add: pend_def)
    with True show ?thesis by simp
  next
    case False
    with Cons have "length (filter (\<lambda>t. snd (snd t) = ReconnectCallback) (filter (\<lambda>t. fst t \<noteq> h) ts))
          < length (filter (\<lambda>t. snd (snd t) = ReconnectCallback) ts)" by simp
    then show ?thesis by simp
  qed
qed

lemma inv_reconnectCallback:
  assumes "reconnect_inv s" "(h, d, ReconnectCallback) \<in> set (timers s)"
  shows "reconnect_inv (reconnectCallback c (clearTimeout h s))"
proof -
  have lt: "pend (timers (clearTimeout h s)) < pend (timers s)"
    using pend_clear_reconnect[OF assms(2)] by (simp add: clearTimeout_def)
  with inv_live_pend[OF assms(1)]
  have z: "pend (timers (clearTimeout h s)) = 0" "live (sockets s) = 0" "pend (timers s) = 1"
    by simp_all
  let ?s1 = "(clearTimeout h s)\<lparr>reconnectAttempts := Suc (reconnectAttempts (clearTimeout h s))\<rparr>"
  let ?s2 = "addConsoleMessage ''system''
               (''Reconnecting... (Attempt '' @ showNat (reconnectAttempts ?s1) @ ''/''
                  @ showNat (maxReconnectAttempts ?s1) @ '')'') True ?s1"
  have "reconnect_inv ?s1"
    using assms(1) z
    by (simp add: reconnect_inv_def livePending_def pendingReconnects_def live_def pend_def
        clearTimeout_def)
  then have "reconnect_inv ?s2" by (rule inv_frame) simp_all
  moreover have "live (sockets ?s2) = 0"
    using z(2) by (simp add: addConsoleMessage_def clearTimeout_def)
  moreover have "pend (timers ?s2) = 0" using z(1) by simp
  ultimately have "reconnect_inv (connectWebSocket c ?s2)" by (rule inv_connectWebSocket)
  then show ?thesis by (simp add: reconnectCallback_def Let_def)
qed

lemma inv_fireTimer: "reconnect_inv s \<Longrightarrow> reconnect_inv (fireTimer h c s)"
proof -
  assume i: "reconnect_inv s"
  show ?thesis
  proof (cases "find (\<lambda>t. fst t = h) (timers s)")
    case None
    then show ?thesis using i by (simp add: fireTimer_def)
  next
    case (Some t)
    obtain h' d cb where t: "t = (h', d, cb)" by (cases t) auto
    from Some have "t \<in> set (timers s)" "fst t = h"
      by (auto simp: find_Some_iff)
    with t have mem: "(h, d, cb) \<in> set (timers s)" by simp
    show ?thesis
    proof (cases cb)
      case ReconnectCallback
      with mem i have "reconnect_inv (reconnectCallback c (clearTimeout h s))"
        by (intro inv_reconnectCallback[of s h d]) simp_all
      then show ?thesis using Some t ReconnectCallback by (simp add: fireTimer_def)
    next
      case FlushSpeechCallback
      have "reconnect_inv (clearTimeout h s)"
        by (rule inv_frame[OF i]) (simp_all add: pend_clearTimeout)
      then have "reconnect_inv (flushUserSpeechBuffer (clearTimeout h s))" by (rule inv_flush)
      then show ?thesis using Some t FlushSpeechCallback by (simp add: fireTimer_def)
    next
      case LoadPersonalitiesCallback
      then show ?thesis using Some t i by (simp add: fireTimer_def)
    next
      case LoadVRChatControlsStatusCallback
      then show ?thesis using Some t i by (simp add: fireTimer_def)
    qed
  qed
qed

lemma inv_step: "reconnect_inv s \<Longrightarrow> reconnect_inv (step jp e s)"
  by (cases e)
     (simp_all add: step_def inv_onopen inv_onclose inv_onerror inv_handleWebSocketMessage
        inv_fireTimer inv_disconnect)

lemma inv_run: "reconnect_inv s \<Longrightarrow> reconnect_inv (run jp es s)"
  by (induction es arbitrary: s) (simp_all add: inv_step)

lemma inv_init: "reconnect_inv (init c (newPanel url ch))"
proof -
  let ?s0 = "(newPanel url ch)\<lparr>yapModeEnabled := False, yapModeToggle := False\<rparr>"
  have "reconnect_inv ?s0"
    by (simp add: newPanel_def reconnect_inv_def livePending_def pendingReconnects_def)
  moreover have "live (sockets ?s0) = 0" "pend (timers ?s0) = 0"
    by (simp_all add: newPanel_def live_def pend_def)
  ultimately have "reconnect_inv (connectWebSocket c ?s0)" by (intro inv_connectWebSocket)
  then show ?thesis unfolding init_def by (rule inv_frame) simp_all
qed

subsection \<open>Counting reconnect attempts\<close>

lemma core_attempts: "core a = core b \<Longrightarrow> reconnectAttempts a = reconnectAttempts b"
  by (simp add: core_def)

lemma attempts_scheduleReconnect [simp]:
  "reconnectAttempts (scheduleReconnect s) = reconnectAttempts s"
  by (simp add: scheduleReconnect_def setTimeout_def Let_def updateWebSocketStatus_def
      addConsoleMessage_def)

lemma attempts_connectWebSocket [simp]:
  "reconnectAttempts (connectWebSocket c s) = reconnectAttempts s"
  by (simp add: connectWebSocket_def Let_def updateWebSocketStatus_def addConsoleMessage_def)

lemma attempts_step:
  assumes "\<not> isOpenEvent e"
  shows "reconnectAttempts (step jp e s) = reconnectAttempts s + (if firesReconnect e s then 1 else 0)"
proof (cases e)
  case (SocketOpens i)
  with assms show ?thesis by simp
next
  case (SocketCloses i)
  then show ?thesis
    by (simp add: step_def firesReconnect_def onclose_def updateWebSocketStatus_def
        addConsoleMessage_def)
next
  case (SocketErrors i)
  then show ?thesis
    by (simp add: step_def firesReconnect_def onerror_def updateWebSocketStatus_def
        addConsoleMessage_def)
next
  case (SocketMessage i m)
  have "core (handleWebSocketMessage jp m s) = core s"
    by (simp add: handleWebSocketMessage_def)
  then have "reconnectAttempts (handleWebSocketMessage jp m s) = reconnectAttempts s"
    by (rule core_attempts)
  then show ?thesis
    using SocketMessage by (simp add: step_def firesReconnect_def)
next
  case (TimerFires h c)
  show ?thesis
  proof (cases "find (\<lambda>t. fst t = h) (timers s)")
    case None
    then show ?thesis using TimerFires by (simp add: step_def fireTimer_def firesReconnect_def)
  next
    case (Some t)
    obtain h' d cb where t: "t = (h', d, cb)" by (cases t) auto
    have f: "reconnectAttempts (flushUserSpeechBuffer (clearTimeout h s)) = reconnectAttempts s"
      using core_attempts[of "flushUserSpeechBuffer (clearTimeout h s)" s] by simp
    show ?thesis
      using TimerFires Some t f
      by (cases cb)
         (simp_all add: step_def fireTimer_def firesReconnect_def reconnectCallback_def Let_def
            clearTimeout_def addConsoleMessage_def)
  qed
next
  case PageUnloads
  have "reconnectAttempts (flushUserSpeechBuffer s) = reconnectAttempts s"
    using core_attempts[of "flushUserSpeechBuffer s" s] by simp
  then show ?thesis
    using PageUnloads
    by (simp add: step_def firesReconnect_def disconnect_def Let_def split: option.splits)
qed

lemma attempts_run:
  "\<forall>e\<in>set es. \<not> isOpenEvent e \<Longrightarrow>
   reconnectAttempts (run jp es s) = reconnectAttempts s + attemptsMade jp es s"
  by (induction es arbitrary: s) (simp_all add: attempts_step)

lemma inv_attempts: "reconnect_inv s \<Longrightarrow> reconnectAttempts s \<le> 5"
  by (simp add: reconnect_inv_def)

lemma attemptsMade_bounded:
  assumes "reconnect_inv s" "\<forall>e\<in>set es. \<not> isOpenEvent e"
  shows "attemptsMade jp es s \<le> 5"
proof -
  have "reconnectAttempts (run jp es s) \<le> 5"
    using inv_run[OF assms(1)] by (rule inv_attempts)
  with attempts_run[OF assms(2), of jp s] show ?thesis by simp
qed

lemma scheduleReconnect_exhausted:
  "reconnectAttempts s \<ge> maxReconnectAttempts s \<Longrightarrow>
   scheduleReconnect s =
     updateWebSocketStatus ''failed''
       (addConsoleMessage ''error'' ''Max reconnection attempts reached. Please refresh the page.'' True s)"
  by (simp add: scheduleReconnect_def)

lemma scheduleReconnect_schedules:
  "reconnectAttempts s < maxReconnectAttempts s \<Longrightarrow>
   scheduleReconnect s =
     s\<lparr>timers := timers s @ [(nextTimer s, reconnectDelay s, ReconnectCallback)],
       nextTimer := Suc (nextTimer s),
       reconnectDelay := min (reconnectDelay s * 2) 30000\<rparr>"
  by (simp add: scheduleReconnect_def setTimeout_def Let_def)

subsection \<open>Text that the HTML parser leaves as it is\<close>

lemma normaliseNewlines_id: "CHR 0x0D \<notin> set s \<Longrightarrow> normaliseNewlines s = s"
  by (induction s rule: normaliseNewlines.induct) auto

lemma htmlText_id: "CHR 0x0D \<notin> set s \<Longrightarrow> CHR 0x00 \<notin> set s \<Longrightarrow> htmlText s = s"
  by (auto simp: htmlText_def normaliseNewlines_id filter_id_conv)

subsection \<open>Length of the console\<close>

lemma length_trimConsole: "length ls \<le> 1000 \<Longrightarrow> length (trimConsole (ls @ [l])) \<le> 1000"
  by (simp add: trimConsole_def)

lemma trimConsole_append:
  "length ls \<le> 1000 \<Longrightarrow>
   trimConsole (ls @ [l]) = (if length ls = 1000 then tl ls else ls) @ [l]"
  by (cases ls) (auto simp: trimConsole_def)

lemma addConsoleMessage_length:
  "length (consoleOutput s) \<le> 1000 \<Longrightarrow>
   length (consoleOutput (addConsoleMessage ty m nl s)) \<le> 1000"
  by (simp add: addConsoleMessage_def length_trimConsole)

lemma addConsoleMessage_shape:
  "length (consoleOutput s) \<le> 1000 \<Longrightarrow>
   consoleOutput (addConsoleMessage ty m nl s) =
     (if \<not> nl \<and> ty = ''response'' \<and> consoleOutput s \<noteq> []
         \<and> isResponseLine (last (consoleOutput s))
      then butlast (consoleOutput s) @
             [appendToMessage (replace_first ''Gabriel: '' [] m) (last (consoleOutput s))]
      else (if length (consoleOutput s) = 1000 then tl (consoleOutput s) else consoleOutput s)
             @ [ConsoleLine ty (htmlText m)])"
  by (simp add: addConsoleMessage_def trimConsole_append)

lemma addFunctionCallMessage_shape:
  "length (consoleOutput s) \<le> 1000 \<Longrightarrow>
   consoleOutput (addFunctionCallMessage d s) =
     (if length (consoleOutput s) = 1000 then tl (consoleOutput s) else consoleOutput s)
       @ [FunctionCallLine (htmlText (d_name d)) (htmlText (d_args d))]"
  by (simp add: addFunctionCallMessage_def trimConsole_append)

lemma addFunctionResponseMessage_shape:
  "length (consoleOutput s) \<le> 1000 \<Longrightarrow>
   \<exists>l. consoleOutput (addFunctionResponseMessage d s) =
     (if length (consoleOutput s) = 1000 then tl (consoleOutput s) else consoleOutput s) @ [l]"
  by (simp add: addFunctionResponseMessage_def Let_def trimConsole_append)

lemma length_shape:
  "length ls \<le> 1000 \<Longrightarrow> length ((if length ls = 1000 then tl ls else ls) @ [l]) \<le> 1000"
  by simp

subsection \<open>Unfolding a run on concrete events\<close>

lemmas ev_defs = init_def newPanel_def step_def fireTimer_def onopen_def onclose_def onerror_def
  scheduleReconnect_def connectWebSocket_def reconnectCallback_def setTimeout_def clearTimeout_def
  addConsoleMessage_def updateWebSocketStatus_def isOpen_def trimConsole_def htmlText_def Let_def

subsection \<open>The speech buffer\<close>

lemma last_trimConsole [simp]: "last (trimConsole (xs @ [l])) = l"
proof (cases xs)
  case Nil
  then show ?thesis by (simp add: trimConsole_def)
next
  case (Cons a ys)
  then show ?thesis by (simp add: trimConsole_def)
qed

lemma last_addConsoleMessage_newline [simp]:
  "last (consoleOutput (addConsoleMessage ty m True s)) = ConsoleLine ty (htmlText m)"
  by (simp add: addConsoleMessage_def)

lemma flush_empty: "userSpeechBuffer s = [] \<Longrightarrow> flushUserSpeechBuffer s = s"
  by (simp add: flushUserSpeechBuffer_def)

lemma flush_buffer [simp]: "userSpeechBuffer (flushUserSpeechBuffer s) = []"
  by (simp add: flushUserSpeechBuffer_def Let_def)

lemma flush_timeout:
  "userSpeechBuffer s \<noteq> [] \<Longrightarrow> userSpeechBufferTimeout (flushUserSpeechBuffer s) = None"
  by (simp add: flushUserSpeechBuffer_def Let_def addConsoleMessage_def clearTimeout_def
      split: option.splits)

lemma flush_timers:
  "userSpeechBuffer s \<noteq> [] \<Longrightarrow>
   timers (flushUserSpeechBuffer s) =
     (case userSpeechBufferTimeout s of None \<Rightarrow> timers s
      | Some h \<Rightarrow> filter (\<lambda>t. fst t \<noteq> h) (timers s))"
  by (simp add: flushUserSpeechBuffer_def Let_def clearTimeout_def split: option.splits)

lemma flush_console:
  "userSpeechBuffer s \<noteq> [] \<Longrightarrow>
   consoleOutput (flushUserSpeechBuffer s) =
     (if trim (join '' '' (map speech_text (userSpeechBuffer s))) \<noteq> []
      then trimConsole (consoleOutput s @
             [ConsoleLine ''user-speech''
                (htmlText (''[User Speech]: ''
                   @ trim (join '' '' (map speech_text (userSpeechBuffer s)))))])
      else consoleOutput s)"
  by (simp add: flushUserSpeechBuffer_def Let_def clearTimeout_def addConsoleMessage_def
      split: option.splits)

lemma buffer_addConsoleMessage [simp]:
  "userSpeechBuffer (addConsoleMessage ty m nl s) = userSpeechBuffer s"
  by (simp add: addConsoleMessage_def)

lemma buffer_updateYap [simp]:
  "userSpeechBuffer (updateYapModeFromResponse y m s) = userSpeechBuffer s"
  by (simp add: updateYapModeFromResponse_def Let_def showToast_def split: option.splits)

lemma buffer_checkFR [simp]:
  "userSpeechBuffer (checkForFunctionResponse jp m s) = userSpeechBuffer s"
  by (simp add: checkForFunctionResponse_def Let_def split: option.splits)

lemma buffer_dispatch:
  "userSpeechBuffer (dispatchMessage jp m s) =
     (if msg_type m = ''user_input_transcription''
      then userSpeechBuffer s @
             [\<lparr>speech_text = d_text (msg_data m), speech_timestamp = msg_timestamp m\<rparr>]
      else userSpeechBuffer s)"
  by (simp add: dispatchMessage_def Let_def setTimeout_def clearTimeout_def
      addFunctionCallMessage_def handleFunctionResponse_def addFunctionResponseMessage_def
      split: option.splits prod.splits property.splits)

subsection \<open>The flush timer on a run\<close>

lemma speech_update [simp]:
  "speech (s\<lparr>consoleOutput := a\<rparr>) = speech s"
  "speech (s\<lparr>toasts := b\<rparr>) = speech s"
  "speech (s\<lparr>wsStatus := c\<rparr>) = speech s"
  "speech (s\<lparr>websocket := d\<rparr>) = speech s"
  "speech (s\<lparr>sockets := e\<rparr>) = speech s"
  "speech (s\<lparr>reconnectAttempts := f\<rparr>) = speech s"
  "speech (s\<lparr>reconnectDelay := g\<rparr>) = speech s"
  "speech (s\<lparr>nextTimer := h\<rparr>) = speech s"
  "speech (s\<lparr>yapModeToggle := i\<rparr>) = speech s"
  "speech (s\<lparr>yapModeEnabled := j\<rparr>) = speech s"
  by (simp_all add: speech_def pendingFlushTimers_def)

lemma speech_timers_other [simp]:
  "cb \<noteq> FlushSpeechCallback \<Longrightarrow>
   speech (s\<lparr>timers := ts @ [(h, d, cb)]\<rparr>) = speech (s\<lparr>timers := ts\<rparr>)"
  by (simp add: speech_def pendingFlushTimers_def)

lemma speech_timers_same [simp]: "ts = timers s \<Longrightarrow> speech (s\<lparr>timers := ts\<rparr>) = speech s"
  by (simp add: speech_def pendingFlushTimers_def)

lemma speech_addConsoleMessage [simp]: "speech (addConsoleMessage ty m nl s) = speech s"
  by (simp add: addConsoleMessage_def)

lemma speech_showToast [simp]: "speech (showToast ty m s) = speech s"
  by (simp add: showToast_def)

lemma speech_updateWebSocketStatus [simp]: "speech (updateWebSocketStatus st s) = speech s"
  by (simp add: updateWebSocketStatus_def)

lemma speech_addFunctionCallMessage [simp]: "speech (addFunctionCallMessage d s) = speech s"
  by (simp add: addFunctionCallMessage_def)

lemma speech_addFunctionResponseMessage [simp]:
  "speech (addFunctionResponseMessage d s) = speech s"
  by (simp add: addFunctionResponseMessage_def Let_def)

lemma speech_updateYap [simp]: "speech (updateYapModeFromResponse y m s) = speech s"
  by (simp add: updateYapModeFromResponse_def Let_def split: option.splits)

lemma speech_checkFR [simp]: "speech (checkForFunctionResponse jp m s) = speech s"
  by (simp add: checkForFunctionResponse_def Let_def split: option.splits)

lemma speech_handleFR [simp]: "speech (handleFunctionResponse d s) = speech s"
  by (simp add: handleFunctionResponse_def Let_def split: option.splits property.splits)

lemma speech_scheduleReconnect [simp]: "speech (scheduleReconnect s) = speech s"
  by (simp add: scheduleReconnect_def setTimeout_def Let_def)

lemma speech_connectWebSocket [simp]: "speech (connectWebSocket c s) = speech s"
  by (simp add: connectWebSocket_def Let_def)

lemma speech_onopen [simp]: "speech (onopen s) = speech s"
  by (simp add: onopen_def)

lemma speech_onclose [simp]: "speech (onclose s) = speech s"
  by (simp add: onclose_def)

lemma speech_onerror [simp]: "speech (onerror s) = speech s"
  by (simp add: onerror_def)

lemma speech_reconnectCallback [simp]: "speech (reconnectCallback c s) = speech s"
  by (simp add: reconnectCallback_def Let_def)

lemma tracked_speech: "flushTimerTracked s \<longleftrightarrow>
    (case speech s of (buffer, handle, pending) \<Rightarrow>
       length pending \<le> 1 \<and> list_all (\<lambda>t. handle = Some (fst t) \<and> buffer \<noteq> []) pending)"
  by (simp add: flushTimerTracked_def speech_def)

lemma tracked_frame: "flushTimerTracked s \<Longrightarrow> speech s' = speech s \<Longrightarrow> flushTimerTracked s'"
  by (simp add: tracked_speech)

lemma length_filter_le_one: "length xs \<le> Suc 0 \<Longrightarrow> length (filter P xs) \<le> Suc 0"
  by (rule order_trans[OF length_filter_le])

lemma pending_clearTimeout:
  "pendingFlushTimers (clearTimeout h s) = filter (\<lambda>t. fst t \<noteq> h) (pendingFlushTimers s)"
  by (auto simp: pendingFlushTimers_def clearTimeout_def intro: filter_cong)

lemma tracked_clearTimeout: "flushTimerTracked s \<Longrightarrow> flushTimerTracked (clearTimeout h s)"
  unfolding flushTimerTracked_def pending_clearTimeout
  by (auto simp: clearTimeout_def list_all_iff length_filter_le_one)

lemma tracked_none:
  "flushTimerTracked s \<Longrightarrow> userSpeechBufferTimeout s = None \<or> userSpeechBuffer s = []
   \<Longrightarrow> pendingFlushTimers s = []"
  by (cases "pendingFlushTimers s") (auto simp: flushTimerTracked_def)

lemma tracked_cleared:
  "flushTimerTracked s \<Longrightarrow> userSpeechBufferTimeout s = Some h
   \<Longrightarrow> filter (\<lambda>t. fst t \<noteq> h) (pendingFlushTimers s) = []"
  by (auto simp: flushTimerTracked_def list_all_iff filter_empty_conv)

lemma pending_flush:
  assumes "flushTimerTracked s"
  shows "pendingFlushTimers (flushUserSpeechBuffer s) = []"
proof (cases "userSpeechBuffer s = []")
  case True
  then show ?thesis using tracked_none[OF assms] by (simp add: flush_empty)
next
  case False
  have "pendingFlushTimers (flushUserSpeechBuffer s)
        = filter (\<lambda>t. snd (snd t) = FlushSpeechCallback) (timers (flushUserSpeechBuffer s))"
    by (simp add: pendingFlushTimers_def)
  also have "\<dots> = (case userSpeechBufferTimeout s of None \<Rightarrow> pendingFlushTimers s
                   | Some h \<Rightarrow> pendingFlushTimers (clearTimeout h s))"
    by (simp add: flush_timers[OF False] pendingFlushTimers_def clearTimeout_def
        split: option.splits)
  also have "\<dots> = []"
    using tracked_none[OF assms] tracked_cleared[OF assms]
    by (simp add: pending_clearTimeout split: option.splits)
  finally show ?thesis .
qed

lemma tracked_flush: "flushTimerTracked s \<Longrightarrow> flushTimerTracked (flushUserSpeechBuffer s)"
  using pending_flush[of s] by (simp add: flushTimerTracked_def)

lemma speech_dispatch_other:
  "msg_type m \<noteq> ''user_input_transcription'' \<Longrightarrow> speech (dispatchMessage jp m s) = speech s"
  by (simp add: dispatchMessage_def Let_def setTimeout_def)

lemma pending_dispatch_transcription:
  assumes "flushTimerTracked s" "msg_type m = ''user_input_transcription''"
  shows "pendingFlushTimers (dispatchMessage jp m s)
           = [(nextTimer s, userSpeechGroupingDelay s, FlushSpeechCallback)]
         \<and> userSpeechBufferTimeout (dispatchMessage jp m s) = Some (nextTimer s)
         \<and> userSpeechBuffer (dispatchMessage jp m s) \<noteq> []"
proof (cases "userSpeechBufferTimeout s")
  case None
  then show ?thesis
    using assms(2) tracked_none[OF assms(1)]
    by (simp add: dispatchMessage_def Let_def setTimeout_def pendingFlushTimers_def)
next
  case (Some h)
  have "filter (\<lambda>t. snd (snd t) = FlushSpeechCallback) (filter (\<lambda>t. fst t \<noteq> h) (timers s)) = []"
    using tracked_cleared[OF assms(1) Some] pending_clearTimeout[of h s]
    by (simp add: pendingFlushTimers_def clearTimeout_def)
  then show ?thesis
    using assms(2) Some
    by (simp add: dispatchMessage_def Let_def setTimeout_def clearTimeout_def
        pendingFlushTimers_def)
qed

lemma tracked_dispatch: "flushTimerTracked s \<Longrightarrow> flushTimerTracked (dispatchMessage jp m s)"
proof (cases "msg_type m = ''user_input_transcription''")
  case True
  assume "flushTimerTracked s"
  from pending_dispatch_transcription[OF this True, of jp]
  show ?thesis by (simp add: flushTimerTracked_def)
next
  case False
  assume "flushTimerTracked s"
  then show ?thesis by (rule tracked_frame) (simp add: speech_dispatch_other[OF False])
qed

lemma tracked_handleWebSocketMessage:
  "flushTimerTracked s \<Longrightarrow> flushTimerTracked (handleWebSocketMessage jp m s)"
  by (simp add: handleWebSocketMessage_def tracked_dispatch tracked_flush)

lemma tracked_disconnect: "flushTimerTracked s \<Longrightarrow> flushTimerTracked (disconnect s)"
proof -
  assume "flushTimerTracked s"
  then have f: "flushTimerTracked (flushUserSpeechBuffer s)" by (rule tracked_flush)
  have "speech (disconnect s) = speech (flushUserSpeechBuffer s)"
    by (simp add: disconnect_def Let_def split: option.splits)
  with f show ?thesis by (rule tracked_frame)
qed

lemma tracked_fireTimer: "flushTimerTracked s \<Longrightarrow> flushTimerTracked (fireTimer h c s)"
proof -
  assume i: "flushTimerTracked s"
  show ?thesis
  proof (cases "find (\<lambda>t. fst t = h) (timers s)")
    case None
    then show ?thesis using i by (simp add: fireTimer_def)
  next
    case (Some t)
    obtain h' d cb where t: "t = (h', d, cb)" by (cases t) auto
    have cl: "flushTimerTracked (clearTimeout h s)" using i by (rule tracked_clearTimeout)
    show ?thesis
    proof (cases cb)
      case ReconnectCallback
      have "flushTimerTracked (reconnectCallback c (clearTimeout h s))"
        using cl by (rule tracked_frame) simp
      then show ?thesis using Some t ReconnectCallback by (simp add: fireTimer_def)
    next
      case FlushSpeechCallback
      have "flushTimerTracked (flushUserSpeechBuffer (clearTimeout h s))"
        using cl by (rule tracked_flush)
      then show ?thesis using Some t FlushSpeechCallback by (simp add: fireTimer_def)
    next
      case LoadPersonalitiesCallback
      then show ?thesis using Some t i by (simp add: fireTimer_def)
    next
      case LoadVRChatControlsStatusCallback
      then show ?thesis using Some t i by (simp add: fireTimer_def)
    qed
  qed
qed

lemma tracked_step: "flushTimerTracked s \<Longrightarrow> flushTimerTracked (step jp e s)"
proof (cases e)
  case (SocketOpens i)
  assume "flushTimerTracked s"
  then have "flushTimerTracked (onopen (s\<lparr>sockets := (sockets s)[i := OPEN]\<rparr>))"
    by (rule tracked_frame) simp
  then show ?thesis using SocketOpens \<open>flushTimerTracked s\<close> by (simp add: step_def)
next
  case (SocketCloses i)
  assume "flushTimerTracked s"
  then have "flushTimerTracked (onclose (s\<lparr>sockets := (sockets s)[i := CLOSED]\<rparr>))"
    by (rule tracked_frame) simp
  then show ?thesis using SocketCloses \<open>flushTimerTracked s\<close> by (simp add: step_def)
next
  case (SocketErrors i)
  assume "flushTimerTracked s"
  then have "flushTimerTracked (onerror s)"
    by (rule tracked_frame) simp
  then show ?thesis using SocketErrors \<open>flushTimerTracked s\<close> by (simp add: step_def)
next
  case (SocketMessage i m)
  assume "flushTimerTracked s"
  then show ?thesis using SocketMessage by (simp add: step_def tracked_handleWebSocketMessage)
next
  case (TimerFires h c)
  assume "flushTimerTracked s"
  then show ?thesis using TimerFires by (simp add: step_def tracked_fireTimer)
next
  case PageUnloads
  assume "flushTimerTracked s"
  then show ?thesis using PageUnloads by (simp add: step_def tracked_disconnect)
qed

lemma tracked_run: "flushTimerTracked s \<Longrightarrow> flushTimerTracked (run jp es s)"
  by (induction es arbitrary: s) (simp_all add: tracked_step)

lemma tracked_init: "flushTimerTracked (init c (newPanel url ch))"
proof -
  have "flushTimerTracked (newPanel url ch)"
    by (simp add: flushTimerTracked_def pendingFlushTimers_def newPanel_def)
  then show ?thesis
    by (rule tracked_frame) (simp add: init_def)
qed

section \<open>Properties of the memory manager\<close>

subsection \<open>The stable sort\<close>

lemma insert_by_mset [simp]: "mset (insert_by cmp x ys) = add_mset x (mset ys)"
  by (induction ys) auto

lemma sort_by_mset [simp]: "mset (sort_by cmp xs) = mset xs"
  unfolding sort_by_def by (induction xs) auto

lemma insert_by_set [simp]: "set (insert_by cmp x ys) = insert x (set ys)"
  by (induction ys) auto

lemma sort_by_set [simp]: "set (sort_by cmp xs) = set xs"
  unfolding sort_by_def by (induction xs) auto

lemma sort_by_Cons: "sort_by cmp (x # xs) = insert_by cmp x (sort_by cmp xs)"
  by (simp add: sort_by_def)

lemma sort_by_Nil [simp]: "sort_by cmp [] = []"
  by (simp add: sort_by_def)

lemma insert_by_cong:
  "(\<And>y. y \<in> set ys \<Longrightarrow> cmp x y = cmp' x y) \<Longrightarrow> insert_by cmp x ys = insert_by cmp' x ys"
  by (induction ys) auto

lemma sort_by_cong:
  "(\<And>x y. x \<in> set xs \<Longrightarrow> y \<in> set xs \<Longrightarrow> cmp x y = cmp' x y) \<Longrightarrow>
   sort_by cmp xs = sort_by cmp' xs"
proof (induction xs)
  case Nil
  then show ?case by simp
next
  case (Cons x xs)
  then have "sort_by cmp xs = sort_by cmp' xs" by simp
  moreover have "insert_by cmp x (sort_by cmp' xs) = insert_by cmp' x (sort_by cmp' xs)"
    by (rule insert_by_cong) (simp add: Cons.prems)
  ultimately show ?case by (simp add: sort_by_Cons)
qed

lemma insert_by_ascending: "insert_by (ascending k) x ys = insort_key k x ys"
  by (induction ys) (auto simp: ascending_def)

lemma sort_by_ascending: "sort_by (ascending k) xs = sort_key k xs"
  by (induction xs) (simp_all add: sort_by_Cons insert_by_ascending)

lemma insert_by_descending_sorted:
  "sorted_wrt (\<lambda>a b. k a \<ge> k b) ys \<Longrightarrow>
   sorted_wrt (\<lambda>a b. k a \<ge> k b) (insert_by (\<lambda>a b. - ascending k a b) x ys)"
  by (induction ys) (auto simp: ascending_def split: if_splits)

lemma sort_by_descending_sorted:
  "sorted_wrt (\<lambda>a b. k a \<ge> k b) (sort_by (\<lambda>a b. - ascending k a b) xs)"
  by (induction xs) (simp_all add: sort_by_Cons insert_by_descending_sorted)

lemma sorted_rev_map:
  "sorted (rev (map k r)) \<longleftrightarrow> sorted_wrt (\<lambda>a b. k a \<ge> k b) r"
  by (simp add: sorted_wrt_rev sorted_wrt_map)

lemma insert_by_stable:
  assumes "\<And>y. P x \<Longrightarrow> y \<in> set ys \<Longrightarrow> P y \<Longrightarrow> cmp x y \<le> 0"
  shows "filter P (insert_by cmp x ys) = (if P x then x # filter P ys else filter P ys)"
  using assms by (induction ys) auto

lemma sort_by_stable:
  assumes "\<And>x y. x \<in> set xs \<Longrightarrow> y \<in> set xs \<Longrightarrow> P x \<Longrightarrow> P y \<Longrightarrow> cmp x y \<le> 0"
  shows "filter P (sort_by cmp xs) = filter P xs"
  using assms
proof (induction xs)
  case Nil
  then show ?case by simp
next
  case (Cons x xs)
  have ih: "filter P (sort_by cmp xs) = filter P xs"
    by (rule Cons.IH) (simp add: Cons.prems)
  have "filter P (insert_by cmp x (sort_by cmp xs))
        = (if P x then x # filter P (sort_by cmp xs) else filter P (sort_by cmp xs))"
    by (rule insert_by_stable) (simp add: Cons.prems)
  then show ?case using ih by (simp add: sort_by_Cons)
qed

lemma ascending_stable: "k x = k y \<Longrightarrow> ascending k x y \<le> 0 \<and> - ascending k x y \<le> 0"
  by (simp add: ascending_def)

lemma map_eq_inj:
  "map k as = map k bs \<Longrightarrow> inj_on k (set as \<union> set bs) \<Longrightarrow> as = bs"
  by (simp add: inj_on_map_eq_map)

lemma descending_is_rev:
  assumes "distinct (map k xs)"
  shows "sort_by (\<lambda>a b. - ascending k a b) xs = rev (sort_key k xs)"
proof -
  let ?d = "sort_by (\<lambda>a b. - ascending k a b) xs"
  have "sorted (rev (map k ?d))"
    using sort_by_descending_sorted[of k xs] by (simp only: sorted_rev_map)
  then have "sorted (map k (rev ?d))"
    by (simp only: rev_map)
  moreover have "sorted (map k (sort_key k xs))" by simp
  moreover have "mset (map k (rev ?d)) = mset (map k (sort_key k xs))"
    by simp
  ultimately have m: "map k (rev ?d) = map k (sort_key k xs)"
    by (metis properties_for_sort sorted_sort_id)
  have "inj_on k (set xs)"
    using assms by (simp add: distinct_map)
  then have "inj_on k (set (rev ?d) \<union> set (sort_key k xs))" by simp
  with m have "rev ?d = sort_key k xs" by (rule map_eq_inj)
  then show ?thesis by (metis rev_rev_ident)
qed

lemma orderedBy_asc:
  "dir \<noteq> ''desc'' \<Longrightarrow> orderedBy dir k xs (sort_by (ascending k) xs)"
  unfolding orderedBy_def
  by (simp add: sort_by_ascending sort_key_stable)

lemma orderedBy_desc:
  "orderedBy ''desc'' k xs (sort_by (\<lambda>a b. - ascending k a b) xs)"
proof -
  have "filter (\<lambda>m. k m = v) (sort_by (\<lambda>a b. - ascending k a b) xs) = filter (\<lambda>m. k m = v) xs" for v
    by (rule sort_by_stable) (simp add: ascending_def)
  then show ?thesis
    unfolding orderedBy_def
    using sort_by_descending_sorted[of k xs] descending_is_rev[of k xs]
    by (simp add: sorted_rev_map)
qed


lemma compare_count:
  "field cs = ''access_count'' \<Longrightarrow>
   compareMemories cs a b =
     (if direction cs = ''desc'' then - ascending countKey a b else ascending countKey a b)"
  by (simp add: compareMemories_def fieldValue_def ascending_def Let_def)

lemma compare_string:
  "field cs \<noteq> ''access_count'' \<Longrightarrow> \<not> includes_str (field cs) ''_at'' \<Longrightarrow>
   compareMemories cs a b =
     (if direction cs = ''desc'' then - ascending (stringKey (field cs)) a b
      else ascending (stringKey (field cs)) a b)"
  by (auto simp: compareMemories_def fieldValue_def ascending_def Let_def)

lemma compare_date:
  "field cs \<noteq> ''access_count'' \<Longrightarrow> includes_str (field cs) ''_at'' \<Longrightarrow>
   dateKey (field cs) a \<noteq> None \<Longrightarrow> dateKey (field cs) b \<noteq> None \<Longrightarrow>
   compareMemories cs a b =
     (if direction cs = ''desc'' then - ascending (timeKey (field cs)) a b
      else ascending (timeKey (field cs)) a b)"
  by (auto simp: compareMemories_def fieldValue_def ascending_def Let_def timeKey_def)

lemma orderedBy_sort:
  assumes "\<And>a b. a \<in> set xs \<Longrightarrow> b \<in> set xs \<Longrightarrow>
             cmp a b = (if dir = ''desc'' then - ascending k a b else ascending k a b)"
  shows "orderedBy dir k xs (sort_by cmp xs)"
proof (cases "dir = ''desc''")
  case True
  have "sort_by cmp xs = sort_by (\<lambda>a b. - ascending k a b) xs"
    by (rule sort_by_cong) (simp add: assms True)
  then show ?thesis using True orderedBy_desc[of k xs] by simp
next
  case False
  have "sort_by cmp xs = sort_by (ascending k) xs"
    by (rule sort_by_cong) (simp add: assms False)
  then show ?thesis using orderedBy_asc[OF False, of k xs] by simp
qed

lemma applySorting_count:
  "field (currentSort s) = ''access_count'' \<Longrightarrow>
   orderedBy (direction (currentSort s)) countKey (filteredMemories s)
     (filteredMemories (applySorting s))"
  unfolding applySorting_def
  by (simp, rule orderedBy_sort) (simp add: compare_count)

lemma applySorting_string:
  "field (currentSort s) \<noteq> ''access_count'' \<Longrightarrow> \<not> includes_str (field (currentSort s)) ''_at'' \<Longrightarrow>
   orderedBy (direction (currentSort s)) (stringKey (field (currentSort s))) (filteredMemories s)
     (filteredMemories (applySorting s))"
  unfolding applySorting_def
  by (simp, rule orderedBy_sort) (simp add: compare_string)

lemma applySorting_date:
  "field (currentSort s) \<noteq> ''access_count'' \<Longrightarrow> includes_str (field (currentSort s)) ''_at'' \<Longrightarrow>
   \<forall>m\<in>set (filteredMemories s). dateKey (field (currentSort s)) m \<noteq> None \<Longrightarrow>
   orderedBy (direction (currentSort s)) (timeKey (field (currentSort s))) (filteredMemories s)
     (filteredMemories (applySorting s))"
  unfolding applySorting_def
  by (simp, rule orderedBy_sort) (simp add: compare_date)

subsection \<open>Filtering\<close>

lemma filtered_applySorting [simp]:
  "mset (filteredMemories (applySorting s)) = mset (filteredMemories s)"
  by (simp add: applySorting_def)

lemma filtered_updatePagination [simp]:
  "filteredMemories (updatePagination s) = filteredMemories s"
  by (simp add: updatePagination_def Let_def)

lemma filtered_renderMemoryTable [simp]:
  "filteredMemories (renderMemoryTable s) = filteredMemories s"
  by (simp add: renderMemoryTable_def Let_def)

lemma current_applySorting [simp]: "currentMemories (applySorting s) = currentMemories s"
  by (simp add: applySorting_def)

lemma current_updatePagination [simp]: "currentMemories (updatePagination s) = currentMemories s"
  by (simp add: updatePagination_def Let_def)

lemma current_renderMemoryTable [simp]: "currentMemories (renderMemoryTable s) = currentMemories s"
  by (simp add: renderMemoryTable_def Let_def)

lemma includes_nonempty: "t \<noteq> [] \<Longrightarrow> includes_str [] t = False"
  by (simp add: includes_str_def)

lemma toLowerCase_Nil [simp]: "toLowerCase c = [] \<longleftrightarrow> c = []"
  by (simp add: toLowerCase_def)

lemma matchesSearch_iff:
  "t \<noteq> [] \<Longrightarrow>
   matchesSearch t m \<longleftrightarrow>
     (includes_str (toLowerCase (key m)) t
      \<or> (\<exists>c. content m = Some c \<and> includes_str (toLowerCase c) t)
      \<or> includes_str (toLowerCase (category m)) t
      \<or> (\<exists>ts tag. tags m = Some ts \<and> tag \<in> set ts \<and> includes_str (toLowerCase tag) t))"
  by (auto simp: matchesSearch_def Let_def list_ex_iff includes_str_def toLowerCase_def
      split: option.splits)

lemma applyFilters_list:
  "filteredMemories (applyFiltersAndSearch s) =
     sort_by (compareMemories (currentSort s))
       (filter (\<lambda>m. categoryFilter s = [] \<or> category m = categoryFilter s)
          (filter (\<lambda>m. memoryTypeFilter s = [] \<or> memory_type m = memoryTypeFilter s)
             (filter (\<lambda>m. toLowerCase (trim (searchInput s)) = []
                          \<or> matchesSearch (toLowerCase (trim (searchInput s))) m)
                (currentMemories s))))"
proof -
  let ?t = "toLowerCase (trim (searchInput s))"
  have 1: "(if memoryTypeFilter s \<noteq> [] then filter (\<lambda>m. memory_type m = memoryTypeFilter s) xs else xs)
        = filter (\<lambda>m. memoryTypeFilter s = [] \<or> memory_type m = memoryTypeFilter s) xs"
    for xs :: "memory list"
    by simp
  have 2: "(if categoryFilter s \<noteq> [] then filter (\<lambda>m. category m = categoryFilter s) xs else xs)
        = filter (\<lambda>m. categoryFilter s = [] \<or> category m = categoryFilter s) xs"
    for xs :: "memory list"
    by simp
  have 3: "(if ?t \<noteq> [] then filter (matchesSearch ?t) xs else xs)
        = filter (\<lambda>m. ?t = [] \<or> matchesSearch ?t m) xs" for xs :: "memory list"
    by simp
  have "filteredMemories (applyFiltersAndSearch s) =
     sort_by (compareMemories (currentSort s))
       (if categoryFilter s \<noteq> []
        then filter (\<lambda>m. category m = categoryFilter s)
          (if memoryTypeFilter s \<noteq> []
           then filter (\<lambda>m. memory_type m = memoryTypeFilter s)
             (if ?t \<noteq> [] then filter (matchesSearch ?t) (currentMemories s) else currentMemories s)
           else (if ?t \<noteq> [] then filter (matchesSearch ?t) (currentMemories s) else currentMemories s))
        else (if memoryTypeFilter s \<noteq> []
           then filter (\<lambda>m. memory_type m = memoryTypeFilter s)
             (if ?t \<noteq> [] then filter (matchesSearch ?t) (currentMemories s) else currentMemories s)
           else (if ?t \<noteq> [] then filter (matchesSearch ?t) (currentMemories s) else currentMemories s)))"
    unfolding applyFiltersAndSearch_def Let_def
    by (simp only: filtered_renderMemoryTable filtered_updatePagination)
       (simp add: applySorting_def del: toLowerCase_Nil)
  then show ?thesis
    unfolding 1 2 3 .
qed

lemma passesFilters_iff:
  "passesFilters s m \<longleftrightarrow>
     (toLowerCase (trim (searchInput s)) = []
        \<or> matchesSearch (toLowerCase (trim (searchInput s))) m)
     \<and> (memoryTypeFilter s = [] \<or> memory_type m = memoryTypeFilter s)
     \<and> (categoryFilter s = [] \<or> category m = categoryFilter s)"
proof (cases "toLowerCase (trim (searchInput s)) = []")
  case True
  then show ?thesis unfolding passesFilters_def by simp
next
  case False
  show ?thesis
    unfolding passesFilters_def matchesSearch_iff[OF False] by blast
qed

lemma applyFilters_filtered:
  "mset (filteredMemories (applyFiltersAndSearch s)) = mset (filter (passesFilters s) (currentMemories s))"
proof -
  have "filter (\<lambda>m. categoryFilter s = [] \<or> category m = categoryFilter s)
          (filter (\<lambda>m. memoryTypeFilter s = [] \<or> memory_type m = memoryTypeFilter s)
             (filter (\<lambda>m. toLowerCase (trim (searchInput s)) = []
                          \<or> matchesSearch (toLowerCase (trim (searchInput s))) m)
                (currentMemories s)))
        = filter (passesFilters s) (currentMemories s)"
    unfolding filter_filter
    by (rule filter_cong[OF refl]) (simp only: passesFilters_iff, blast)
  then show ?thesis
    by (simp add: applyFilters_list)
qed

subsection \<open>Evaluating string operations\<close>

lemmas str_defs = trim_def isWhiteSpace_def toLowerCase_def lowerChar_def includes_str_def
  sublist_code(3) char_of_def bit_0

subsection \<open>The sample data\<close>

lemma countKey_samples [simp]:
  "countKey memoryA = 3" "countKey memoryB = 3" "countKey memoryC = 0"
  by (simp_all add: countKey_def memoryA_def memoryB_def memoryC_def)

lemma timeKey_samples [simp]:
  "timeKey ''created_at'' memoryA = 10" "timeKey ''created_at'' memoryB = 20"
  "timeKey ''created_at'' memoryC = 5"
  by (simp_all add: timeKey_def dateKey_def memoryA_def memoryB_def memoryC_def)

lemma dateKey_samples:
  "dateKey ''created_at'' memoryA = Some 10" "dateKey ''created_at'' memoryB = Some 20"
  "dateKey ''created_at'' memoryC = Some 5"
  by (simp_all add: dateKey_def memoryA_def memoryB_def memoryC_def)

lemma samples_distinct [simp]:
  "memoryA \<noteq> memoryB" "memoryA \<noteq> memoryC" "memoryB \<noteq> memoryC"
  "memoryB \<noteq> memoryA" "memoryC \<noteq> memoryA" "memoryC \<noteq> memoryB"
  by (simp_all add: memoryA_def memoryB_def memoryC_def)

lemma loadedManager_fields [simp]:
  "currentMemories loadedManager = [memoryA, memoryB, memoryC]"
  "filteredMemories loadedManager = [memoryA, memoryB, memoryC]"
  "currentSort loadedManager = \<lparr>field = ''updated_at'', direction = ''desc''\<rparr>"
  "searchInput loadedManager = []" "memoryTypeFilter loadedManager = []"
  "categoryFilter loadedManager = []"
  by (simp_all add: loadedManager_def initialManager_def)

lemma passes_samples:
  "passesFilters (loadedManager\<lparr>searchInput := '' URG ''\<rparr>) memoryC"
  "\<not> passesFilters (loadedManager\<lparr>searchInput := '' URG ''\<rparr>) memoryA"
  "\<not> passesFilters (loadedManager\<lparr>searchInput := '' URG ''\<rparr>) memoryB"
  "passesFilters (loadedManager\<lparr>searchInput := ''s'', memoryTypeFilter := ''long_term''\<rparr>) memoryA"
  "passesFilters (loadedManager\<lparr>searchInput := ''s'', memoryTypeFilter := ''long_term''\<rparr>) memoryB"
  "\<not> passesFilters (loadedManager\<lparr>searchInput := ''s'', memoryTypeFilter := ''long_term''\<rparr>) memoryC"
  by (simp_all add: passesFilters_def memoryA_def memoryB_def memoryC_def str_defs)

lemma handleSort_sorted:
  "currentSort (handleSort f s) =
     (if field (currentSort s) = f
      then \<lparr>field = f,
            direction = (if direction (currentSort s) = ''asc'' then ''desc'' else ''asc'')\<rparr>
      else \<lparr>field = f, direction = ''asc''\<rparr>)"
  "filteredMemories (handleSort f s) =
     sort_by (compareMemories (currentSort (handleSort f s))) (filteredMemories s)"
  by (simp_all add: handleSort_def Let_def renderMemoryTable_def applySorting_def)

lemma sort_by_count:
  "sort_by (compareMemories \<lparr>field = ''access_count'', direction = ''asc''\<rparr>) xs
     = sort_by (ascending countKey) xs"
  "sort_by (compareMemories \<lparr>field = ''access_count'', direction = ''desc''\<rparr>) xs
     = sort_by (\<lambda>a b. - ascending countKey a b) xs"
  by (rule sort_by_cong, simp add: compare_count)+

lemma sort_count_samples:
  "sort_by (ascending countKey) [memoryA, memoryB, memoryC] = [memoryC, memoryA, memoryB]"
  "sort_by (\<lambda>a b. - ascending countKey a b) [memoryA, memoryB, memoryC]
     = [memoryA, memoryB, memoryC]"
  "sort_by (\<lambda>a b. - ascending countKey a b) [memoryC, memoryA, memoryB]
     = [memoryA, memoryB, memoryC]"
  by (simp_all add: sort_by_def ascending_def)

subsection \<open>Debounce\<close>

lemma fireTimers_none:
  "\<forall>t\<in>set (db_timers d). \<not> due (fst (snd t)) \<Longrightarrow> fireTimers due d = d"
  by (simp add: fireTimers_def)

lemma executedFunction_armed:
  "armed h due a done d \<Longrightarrow>
   armed (db_next d) (now + wait) a' done (executedFunction wait now a' d)"
  by (simp add: armed_def executedFunction_def db_clearTimeout_def Let_def)

lemma executedFunction_idle:
  "db_timers d = [] \<Longrightarrow>
   armed (db_next d) (now + wait) a' (db_calls d) (executedFunction wait now a' d)"
  by (simp add: armed_def executedFunction_def db_clearTimeout_def Let_def split: option.splits)

lemma runCalls_burst:
  "armed h (t + wait) a done d \<Longrightarrow> burst wait ((t, a) # cs) \<Longrightarrow>
   \<exists>h'. armed h' (fst (last ((t, a) # cs)) + wait) (snd (last ((t, a) # cs))) done
          (runCalls wait cs d)"
proof (induction cs arbitrary: h t a d)
  case Nil
  then show ?case by auto
next
  case (Cons c cs)
  obtain t' a' where c: "c = (t', a')" by (cases c) auto
  from Cons.prems(2) c have lt: "t' < t + wait" and b: "burst wait ((t', a') # cs)"
    by simp_all
  have "fireTimers (\<lambda>u. u \<le> t') d = d"
    using Cons.prems(1) lt by (intro fireTimers_none) (simp add: armed_def)
  moreover have "armed (db_next d) (t' + wait) a' done (executedFunction wait t' a' d)"
    using Cons.prems(1) by (rule executedFunction_armed)
  ultimately have "\<exists>h'. armed h' (fst (last ((t', a') # cs)) + wait)
      (snd (last ((t', a') # cs))) done
      (runCalls wait cs (executedFunction wait t' a' (fireTimers (\<lambda>u. u \<le> t') d)))"
    using Cons.IH[OF _ b] by simp
  then show ?case using c by simp
qed

lemma settle_armed:
  "armed h due a done d \<Longrightarrow>
   db_calls (settle d) = done @ [(due, a)] \<and> db_timers (settle d) = []"
  by (simp add: armed_def settle_def fireTimers_def later_def db_clearTimeout_def Let_def)

lemma debounce_burst_lemma:
  assumes "cs \<noteq> []" "burst wait cs" "db_timers d = []"
  shows "db_calls (runCalls wait cs d) = db_calls d
       \<and> db_calls (settle (runCalls wait cs d))
           = db_calls d @ [(fst (last cs) + wait, snd (last cs))]
       \<and> db_timers (settle (runCalls wait cs d)) = []"
proof -
  obtain t a cs' where cs: "cs = (t, a) # cs'"
    using assms(1) by (cases cs) auto
  have f: "fireTimers (\<lambda>u. u \<le> t) d = d"
    using assms(3) by (simp add: fireTimers_def)
  have a0: "armed (db_next d) (t + wait) a (db_calls d) (executedFunction wait t a d)"
    using assms(3) by (rule executedFunction_idle)
  have b0: "burst wait ((t, a) # cs')"
    using assms(2) cs by simp
  obtain h' where "armed h' (fst (last ((t, a) # cs')) + wait) (snd (last ((t, a) # cs')))
      (db_calls d) (runCalls wait cs' (executedFunction wait t a d))"
    using runCalls_burst[OF a0 b0] by blast
  then have ar: "armed h' (fst (last cs) + wait) (snd (last cs)) (db_calls d)
      (runCalls wait cs d)"
    using cs f by simp
  then have "db_calls (runCalls wait cs d) = db_calls d" by (simp add: armed_def)
  with settle_armed[OF ar] show ?thesis by simp
qed

subsection \<open>The refresh guard and the form\<close>

lemma refreshBlocked_iff:
  "refreshBlocked now s \<longleftrightarrow>
     isAnyModalOpen s \<or> isViewingMemory s \<or> now - lastViewMemoryTime s < 15000
     \<or> \<not> memoryModalHidden s \<or> \<not> viewModalHidden s \<or> \<not> deleteModalHidden s
     \<or> otherModalVisible s"
  by (auto simp: refreshBlocked_def)

lemma blocked_loaders:
  "refreshBlocked now s \<Longrightarrow>
   loadMemories now lo s = (s, []) \<and> loadMemoryStats now so s = (s, [])
   \<and> refreshData now lo so s = (s, [])"
  by (simp add: loadMemories_def loadMemoryStats_def refreshData_def)

lemma unblocked_loaders:
  "\<not> refreshBlocked now s \<Longrightarrow>
   snd (loadMemories now lo s) = [\<lparr>rq_method = ''GET'', rq_url = listUrl (showLoading_mm s), rq_body = None\<rparr>]
   \<and> snd (loadMemoryStats now so s)
       = [\<lparr>rq_method = ''GET'', rq_url = apiBase s @ ''/api/memory/stats'', rq_body = None\<rparr>]"
  by (simp add: loadMemories_def loadMemoryStats_def Let_def)




subsection \<open>Toasts and console lines of an action\<close>

lemma trimConsole_nonempty [simp]: "trimConsole (xs @ [l]) \<noteq> []"
proof (cases xs)
  case Nil
  then show ?thesis by (simp add: trimConsole_def)
next
  case (Cons a ys)
  then show ?thesis by (simp add: trimConsole_def)
qed

lemmas action_defs = showLoading_def hideLoading_def showToast_def addConsoleMessage_def
  reportsError_def reportsErrorByToast_def reportsNothing_def Let_def

lemmas personality_defs = renderPersonalities_def updateCurrentPersonalityDisplay_def

lemma includes_empty [simp]: "\<not> includes_str [] (c # cs)"
  by (simp add: includes_str_def)

section \<open>The claims\<close>

text \<open>
  C10. The console stays bounded: when \<open>consoleOutput\<close> has at most 1000 children, it has at
  most 1000 after \<open>addConsoleMessage\<close>, \<open>addFunctionCallMessage\<close> or
  \<open>addFunctionResponseMessage\<close>. Each of them either extends the text of the last line
  (\<open>addConsoleMessage\<close> alone, for a response chunk) or appends one line, dropping the
  oldest child when that makes 1001. The texts of a new line are those that the HTML parser
  reads back from the escaped markup.
\<close>

theorem console_output_bounded:
  assumes "length (consoleOutput s) \<le> 1000"
  shows "length (consoleOutput (addConsoleMessage ty m nl s)) \<le> 1000
       \<and> length (consoleOutput (addFunctionCallMessage d s)) \<le> 1000
       \<and> length (consoleOutput (addFunctionResponseMessage d s)) \<le> 1000
       \<and> (consoleOutput (addConsoleMessage ty m nl s) =
             butlast (consoleOutput s) @
               [appendToMessage (replace_first ''Gabriel: '' [] m) (last (consoleOutput s))]
            \<or> consoleOutput (addConsoleMessage ty m nl s) =
                 (if length (consoleOutput s) = 1000 then tl (consoleOutput s)
                  else consoleOutput s) @ [ConsoleLine ty (htmlText m)])
       \<and> consoleOutput (addFunctionCallMessage d s) =
             (if length (consoleOutput s) = 1000 then tl (consoleOutput s)
              else consoleOutput s) @ [FunctionCallLine (htmlText (d_name d)) (htmlText (d_args d))]
       \<and> (\<exists>l. consoleOutput (addFunctionResponseMessage d s) =
             (if length (consoleOutput s) = 1000 then tl (consoleOutput s)
              else consoleOutput s) @ [l])"
proof -
  obtain l where l: "consoleOutput (addFunctionResponseMessage d s) =
      (if length (consoleOutput s) = 1000 then tl (consoleOutput s) else consoleOutput s) @ [l]"
    using addFunctionResponseMessage_shape[OF assms] by blast
  have "length (consoleOutput (addConsoleMessage ty m nl s)) \<le> 1000"
    using assms by (rule addConsoleMessage_length)
  moreover have "length (consoleOutput (addFunctionCallMessage d s)) \<le> 1000"
    unfolding addFunctionCallMessage_shape[OF assms] using assms by (rule length_shape)
  moreover have "length (consoleOutput (addFunctionResponseMessage d s)) \<le> 1000"
    unfolding l using assms by (rule length_shape)
  moreover have "consoleOutput (addConsoleMessage ty m nl s) =
             butlast (consoleOutput s) @
               [appendToMessage (replace_first ''Gabriel: '' [] m) (last (consoleOutput s))]
            \<or> consoleOutput (addConsoleMessage ty m nl s) =
                 (if length (consoleOutput s) = 1000 then tl (consoleOutput s)
                  else consoleOutput s) @ [ConsoleLine ty (htmlText m)]"
    unfolding addConsoleMessage_shape[OF assms] by presburger
  ultimately show ?thesis
    using addFunctionCallMessage_shape[OF assms] l by blast
qed

theorem console_output_bounded_witness:
  "length (consoleOutput (newPanel [] (replicate 1000 (ConsoleLine ''info'' ''x'')))) \<le> 1000
   \<and> length (consoleOutput (addConsoleMessage ''error'' ''y'' True
               (newPanel [] (replicate 1000 (ConsoleLine ''info'' ''x''))))) \<le> 1000
   \<and> consoleOutput (addFunctionCallMessage
         \<lparr>d_message = [], d_text = [], d_name = ''f'', d_args = ''{}'', d_response = Absent,
          d_yap_mode_enabled = None\<rparr>
         (newPanel [] (replicate 1000 (ConsoleLine ''info'' ''x'')))) =
       replicate 999 (ConsoleLine ''info'' ''x'') @ [FunctionCallLine ''f'' ''{}'']"
proof -
  have h: "length (consoleOutput (newPanel [] (replicate 1000 (ConsoleLine ''info'' ''x'')))) \<le> 1000"
    by (simp add: newPanel_def)
  have t: "tl (replicate 1000 (ConsoleLine ''info'' ''x'')) = replicate 999 (ConsoleLine ''info'' ''x'')"
    by simp
  show ?thesis
    using h t console_output_bounded[OF h, of "''error''" "''y''" True
        "\<lparr>d_message = [], d_text = [], d_name = ''f'', d_args = ''{}'', d_response = Absent,
          d_yap_mode_enabled = None\<rparr>"]
    by (simp add: newPanel_def htmlText_def)
qed

text \<open>
  C3. The reconnect delay backs off exponentially. A new panel has \<open>reconnectDelay = 1000\<close>.
  A call of \<open>scheduleReconnect\<close> that schedules a reconnect (the attempts are below the
  maximum) queues the timer with the present delay and sets the delay to
  \<open>min (2 * reconnectDelay) 30000\<close>; a call that schedules nothing leaves the delay alone.
  Whatever events follow the construction of the panel, the delay stays between 1000 and
  30000. The \<open>open\<close> handler sets the delay to 1000 and the attempts to 0.
\<close>

theorem reconnect_backoff:
  "reconnectDelay (newPanel url ch) = 1000
   \<and> (reconnectAttempts s < maxReconnectAttempts s \<longrightarrow>
        reconnectDelay (scheduleReconnect s) = min (2 * reconnectDelay s) 30000
        \<and> timers (scheduleReconnect s) =
            timers s @ [(nextTimer s, reconnectDelay s, ReconnectCallback)])
   \<and> (maxReconnectAttempts s \<le> reconnectAttempts s \<longrightarrow>
        reconnectDelay (scheduleReconnect s) = reconnectDelay s
        \<and> timers (scheduleReconnect s) = timers s)
   \<and> 1000 \<le> reconnectDelay (run jp es (init c (newPanel url ch)))
   \<and> reconnectDelay (run jp es (init c (newPanel url ch))) \<le> 30000
   \<and> reconnectDelay (onopen s) = 1000 \<and> reconnectAttempts (onopen s) = 0
   \<and> (i < length (sockets s) \<and> sockets s ! i = CONNECTING \<longrightarrow>
        reconnectDelay (step jp (SocketOpens i) s) = 1000
        \<and> reconnectAttempts (step jp (SocketOpens i) s) = 0)"
proof -
  have "reconnect_inv (run jp es (init c (newPanel url ch)))"
    using inv_init by (rule inv_run)
  then have bounds: "1000 \<le> reconnectDelay (run jp es (init c (newPanel url ch)))"
    "reconnectDelay (run jp es (init c (newPanel url ch))) \<le> 30000"
    by (simp_all add: reconnect_inv_def)
  have start: "reconnectDelay (newPanel url ch) = 1000"
    by (simp add: newPanel_def)
  have sched: "reconnectAttempts s < maxReconnectAttempts s \<longrightarrow>
        reconnectDelay (scheduleReconnect s) = min (2 * reconnectDelay s) 30000
        \<and> timers (scheduleReconnect s) =
            timers s @ [(nextTimer s, reconnectDelay s, ReconnectCallback)]"
    by (simp add: scheduleReconnect_schedules mult.commute)
  have idle: "maxReconnectAttempts s \<le> reconnectAttempts s \<longrightarrow>
        reconnectDelay (scheduleReconnect s) = reconnectDelay s
        \<and> timers (scheduleReconnect s) = timers s"
    by (simp add: scheduleReconnect_exhausted updateWebSocketStatus_def addConsoleMessage_def)
  have opened: "reconnectDelay (onopen t) = 1000 \<and> reconnectAttempts (onopen t) = 0" for t
    by (simp add: onopen_def)
  have ev: "i < length (sockets s) \<and> sockets s ! i = CONNECTING \<longrightarrow>
        reconnectDelay (step jp (SocketOpens i) s) = 1000
        \<and> reconnectAttempts (step jp (SocketOpens i) s) = 0"
    by (simp add: step_def opened)
  from start sched idle bounds opened[of s] ev show ?thesis by blast
qed

theorem reconnect_backoff_witness:
  "reconnectDelay (scheduleReconnect (init False (newPanel [] []))) = 2000
   \<and> reconnectDelay (run (\<lambda>_. None)
        [SocketCloses 0, TimerFires 1 False, SocketCloses 1, TimerFires 2 False,
         SocketCloses 2, TimerFires 3 False, SocketCloses 3, TimerFires 4 False,
         SocketCloses 4, TimerFires 5 False] (init False (newPanel [] []))) = 30000
   \<and> reconnectDelay (step (\<lambda>_. None) (SocketOpens 0) (init False (newPanel [] []))) = 1000"
proof -
  have h1: "reconnectAttempts (init False (newPanel [] []))
            < maxReconnectAttempts (init False (newPanel [] []))"
    by (simp add: ev_defs)
  have h2: "0 < length (sockets (init False (newPanel [] [])))
            \<and> sockets (init False (newPanel [] [])) ! 0 = CONNECTING"
    by (simp add: ev_defs)
  have d: "reconnectDelay (init False (newPanel [] [])) = 1000"
    by (simp add: ev_defs)
  have r: "reconnectDelay (run (\<lambda>_. None)
        [SocketCloses 0, TimerFires 1 False, SocketCloses 1, TimerFires 2 False,
         SocketCloses 2, TimerFires 3 False, SocketCloses 3, TimerFires 4 False,
         SocketCloses 4, TimerFires 5 False] (init False (newPanel [] []))) = 30000"
    by (simp add: ev_defs)
  show ?thesis
    using h1 h2 d r reconnect_backoff[of "[]" "[]" "init False (newPanel [] [])" "\<lambda>_. None"
        "[]" False 0]
    by simp
qed

text \<open>
  C4. Reconnection attempts are bounded by \<open>maxReconnectAttempts = 5\<close>.
  \<open>scheduleReconnect\<close> queues a timer exactly when the attempts are below the maximum;
  otherwise it sets the status to \<open>failed\<close> and queues nothing. Whatever events follow the
  construction of the panel, \<open>reconnectAttempts\<close> is at most 5, and a stretch of events
  without an \<open>open\<close> makes at most 5 reconnect attempts. Once the attempts are 5, they stay
  5 through such a stretch, at whose end \<open>scheduleReconnect\<close> still reports \<open>failed\<close> and
  queues nothing.
\<close>

theorem reconnect_attempts_bounded:
  "maxReconnectAttempts (newPanel url ch) = 5
   \<and> (timers (scheduleReconnect s) \<noteq> timers s \<longleftrightarrow>
        reconnectAttempts s < maxReconnectAttempts s)
   \<and> (maxReconnectAttempts s \<le> reconnectAttempts s \<longrightarrow>
        wsStatus (scheduleReconnect s) = ''failed''
        \<and> timers (scheduleReconnect s) = timers s
        \<and> sockets (scheduleReconnect s) = sockets s)
   \<and> reconnectAttempts (run jp es0 (init c (newPanel url ch))) \<le> 5
   \<and> ((\<forall>e\<in>set es. \<not> isOpenEvent e) \<longrightarrow>
        attemptsMade jp es (run jp es0 (init c (newPanel url ch))) \<le> 5)
   \<and> ((\<forall>e\<in>set es. \<not> isOpenEvent e)
        \<and> reconnectAttempts (run jp es0 (init c (newPanel url ch))) = 5 \<longrightarrow>
        reconnectAttempts (run jp es (run jp es0 (init c (newPanel url ch)))) = 5
        \<and> attemptsMade jp es (run jp es0 (init c (newPanel url ch))) = 0
        \<and> wsStatus (scheduleReconnect (run jp es (run jp es0 (init c (newPanel url ch)))))
            = ''failed''
        \<and> timers (scheduleReconnect (run jp es (run jp es0 (init c (newPanel url ch)))))
            = timers (run jp es (run jp es0 (init c (newPanel url ch)))))"
proof -
  let ?r = "run jp es0 (init c (newPanel url ch))"
  have inv: "reconnect_inv ?r"
    using inv_init by (rule inv_run)
  have inv': "reconnect_inv (run jp es ?r)"
    using inv by (rule inv_run)
  have mx: "maxReconnectAttempts (newPanel url ch) = 5"
    by (simp add: newPanel_def)
  have iff: "timers (scheduleReconnect s) \<noteq> timers s \<longleftrightarrow>
        reconnectAttempts s < maxReconnectAttempts s"
    by (cases "reconnectAttempts s < maxReconnectAttempts s")
       (simp_all add: scheduleReconnect_schedules scheduleReconnect_exhausted
          updateWebSocketStatus_def addConsoleMessage_def)
  have failed: "maxReconnectAttempts t \<le> reconnectAttempts t \<longrightarrow>
        wsStatus (scheduleReconnect t) = ''failed''
        \<and> timers (scheduleReconnect t) = timers t
        \<and> sockets (scheduleReconnect t) = sockets t" for t
    by (simp add: scheduleReconnect_exhausted updateWebSocketStatus_def addConsoleMessage_def)
  have le: "reconnectAttempts ?r \<le> 5"
    using inv by (rule inv_attempts)
  have made: "(\<forall>e\<in>set es. \<not> isOpenEvent e) \<longrightarrow> attemptsMade jp es ?r \<le> 5"
    using attemptsMade_bounded[OF inv] by blast
  have stay: "(\<forall>e\<in>set es. \<not> isOpenEvent e) \<and> reconnectAttempts ?r = 5 \<longrightarrow>
        reconnectAttempts (run jp es ?r) = 5
        \<and> attemptsMade jp es ?r = 0
        \<and> wsStatus (scheduleReconnect (run jp es ?r)) = ''failed''
        \<and> timers (scheduleReconnect (run jp es ?r)) = timers (run jp es ?r)"
  proof
    assume a: "(\<forall>e\<in>set es. \<not> isOpenEvent e) \<and> reconnectAttempts ?r = 5"
    then have eq: "reconnectAttempts (run jp es ?r) = 5 + attemptsMade jp es ?r"
      using attempts_run[of es jp ?r] by simp
    moreover have "reconnectAttempts (run jp es ?r) \<le> 5"
      using inv' by (rule inv_attempts)
    ultimately have five: "reconnectAttempts (run jp es ?r) = 5" "attemptsMade jp es ?r = 0"
      by simp_all
    have "maxReconnectAttempts (run jp es ?r) = 5"
      using inv' by (simp add: reconnect_inv_def)
    with five failed[of "run jp es ?r"] show "reconnectAttempts (run jp es ?r) = 5
        \<and> attemptsMade jp es ?r = 0
        \<and> wsStatus (scheduleReconnect (run jp es ?r)) = ''failed''
        \<and> timers (scheduleReconnect (run jp es ?r)) = timers (run jp es ?r)"
      by simp
  qed
  from mx iff failed[of s] le made stay show ?thesis by blast
qed

theorem reconnect_attempts_bounded_witness:
  "reconnectAttempts (run (\<lambda>_. None)
        [SocketCloses 0, TimerFires 1 False, SocketCloses 1, TimerFires 2 False,
         SocketCloses 2, TimerFires 3 False, SocketCloses 3, TimerFires 4 False,
         SocketCloses 4, TimerFires 5 False] (init False (newPanel [] []))) = 5
   \<and> reconnectAttempts (run (\<lambda>_. None) [SocketCloses 5, TimerFires 6 False, SocketErrors 5]
        (run (\<lambda>_. None)
          [SocketCloses 0, TimerFires 1 False, SocketCloses 1, TimerFires 2 False,
           SocketCloses 2, TimerFires 3 False, SocketCloses 3, TimerFires 4 False,
           SocketCloses 4, TimerFires 5 False] (init False (newPanel [] [])))) = 5
   \<and> attemptsMade (\<lambda>_. None) [SocketCloses 5, TimerFires 6 False, SocketErrors 5]
        (run (\<lambda>_. None)
          [SocketCloses 0, TimerFires 1 False, SocketCloses 1, TimerFires 2 False,
           SocketCloses 2, TimerFires 3 False, SocketCloses 3, TimerFires 4 False,
           SocketCloses 4, TimerFires 5 False] (init False (newPanel [] []))) = 0
   \<and> wsStatus (scheduleReconnect (run (\<lambda>_. None) [SocketCloses 5, TimerFires 6 False, SocketErrors 5]
        (run (\<lambda>_. None)
          [SocketCloses 0, TimerFires 1 False, SocketCloses 1, TimerFires 2 False,
           SocketCloses 2, TimerFires 3 False, SocketCloses 3, TimerFires 4 False,
           SocketCloses 4, TimerFires 5 False] (init False (newPanel [] []))))) = ''failed''"
proof -
  have h1: "\<forall>e\<in>set [SocketCloses 5, TimerFires 6 False, SocketErrors 5]. \<not> isOpenEvent e"
    by simp
  have h2: "reconnectAttempts (run (\<lambda>_. None)
        [SocketCloses 0, TimerFires 1 False, SocketCloses 1, TimerFires 2 False,
         SocketCloses 2, TimerFires 3 False, SocketCloses 3, TimerFires 4 False,
         SocketCloses 4, TimerFires 5 False] (init False (newPanel [] []))) = 5"
    by (simp add: ev_defs)
  show ?thesis
    using h1 h2 reconnect_attempts_bounded[of "[]" "[]" "init False (newPanel [] [])" "\<lambda>_. None"
        "[SocketCloses 0, TimerFires 1 False, SocketCloses 1, TimerFires 2 False,
         SocketCloses 2, TimerFires 3 False, SocketCloses 3, TimerFires 4 False,
         SocketCloses 4, TimerFires 5 False]" False
        "[SocketCloses 5, TimerFires 6 False, SocketErrors 5]"]
    by blast
qed

text \<open>
  C5, as stated, fails: a buffer that is not empty but whose texts are blank is flushed
  without a console line. The buffer below is what one \<open>user_input_transcription\<close> event
  with the text \<open>" "\<close> leaves in a new panel.
\<close>

theorem flush_blank_speech_counterexample:
  "userSpeechBuffer (handleWebSocketMessage (\<lambda>_. None)
       \<lparr>msg_type = ''user_input_transcription'',
        msg_data = \<lparr>d_message = [], d_text = '' '', d_name = [], d_args = [],
                    d_response = Absent, d_yap_mode_enabled = None\<rparr>,
        msg_timestamp = ''t''\<rparr> (newPanel [] []))
     = [\<lparr>speech_text = '' '', speech_timestamp = ''t''\<rparr>]
   \<and> consoleOutput (flushUserSpeechBuffer (handleWebSocketMessage (\<lambda>_. None)
       \<lparr>msg_type = ''user_input_transcription'',
        msg_data = \<lparr>d_message = [], d_text = '' '', d_name = [], d_args = [],
                    d_response = Absent, d_yap_mode_enabled = None\<rparr>,
        msg_timestamp = ''t''\<rparr> (newPanel [] []))) = []"
  by (simp add: handleWebSocketMessage_def flushesBuffer_def dispatchMessage_def
      flushUserSpeechBuffer_def newPanel_def setTimeout_def clearTimeout_def Let_def trim_def
      isWhiteSpace_def)

text \<open>
  C5, amended. \<open>flushUserSpeechBuffer\<close> on a buffer that is not empty cancels the timer whose
  handle is in \<open>userSpeechBufferTimeout\<close>, clears that field and empties the buffer; when the
  buffered texts, joined by single spaces in arrival order and trimmed, are not empty, it
  appends one console line of type \<open>user-speech\<close> with the text \<open>[User Speech]: \<close> followed
  by the joined text (dropping the oldest child past 1000), and when they are blank it
  appends nothing. The line shows the text as the HTML parser reads it back, which is the
  text itself when it holds neither a carriage return nor a NUL. On an empty buffer
  \<open>flushUserSpeechBuffer\<close> changes nothing. \<open>handleWebSocketMessage\<close> flushes before it
  dispatches every event whose type is none of \<open>user_input_transcription\<close>, \<open>heartbeat\<close>,
  \<open>pong\<close>, so that the buffer is empty afterwards; for those three it does not flush, and a
  transcription is added at the end of the buffer. In every state that a run of events
  reaches from \<open>init\<close> on a new panel, at most one flush timer is pending, its handle is the
  one in \<open>userSpeechBufferTimeout\<close> and the buffer is not empty then; so after
  \<open>flushUserSpeechBuffer\<close> no flush timer is pending.
\<close>

theorem flush_user_speech_buffer:
  "(userSpeechBuffer s \<noteq> [] \<longrightarrow>
      userSpeechBuffer (flushUserSpeechBuffer s) = []
      \<and> userSpeechBufferTimeout (flushUserSpeechBuffer s) = None
      \<and> timers (flushUserSpeechBuffer s) =
          (case userSpeechBufferTimeout s of None \<Rightarrow> timers s
           | Some h \<Rightarrow> filter (\<lambda>t. fst t \<noteq> h) (timers s))
      \<and> consoleOutput (flushUserSpeechBuffer s) =
          (if trim (join '' '' (map speech_text (userSpeechBuffer s))) \<noteq> []
           then trimConsole (consoleOutput s @
                  [ConsoleLine ''user-speech''
                     (htmlText (''[User Speech]: ''
                        @ trim (join '' '' (map speech_text (userSpeechBuffer s)))))])
           else consoleOutput s))
   \<and> (CHR 0x0D \<notin> set (trim (join '' '' (map speech_text (userSpeechBuffer s))))
        \<and> CHR 0x00 \<notin> set (trim (join '' '' (map speech_text (userSpeechBuffer s)))) \<longrightarrow>
        htmlText (''[User Speech]: '' @ trim (join '' '' (map speech_text (userSpeechBuffer s))))
          = ''[User Speech]: '' @ trim (join '' '' (map speech_text (userSpeechBuffer s))))
   \<and> (userSpeechBuffer s = [] \<longrightarrow> flushUserSpeechBuffer s = s)
   \<and> (flushesBuffer ty \<longleftrightarrow>
        ty \<noteq> ''user_input_transcription'' \<and> ty \<noteq> ''heartbeat'' \<and> ty \<noteq> ''pong'')
   \<and> (flushesBuffer (msg_type m) \<longrightarrow>
        handleWebSocketMessage jp m s = dispatchMessage jp m (flushUserSpeechBuffer s)
        \<and> userSpeechBuffer (handleWebSocketMessage jp m s) = [])
   \<and> (\<not> flushesBuffer (msg_type m) \<longrightarrow>
        handleWebSocketMessage jp m s = dispatchMessage jp m s
        \<and> userSpeechBuffer (handleWebSocketMessage jp m s) =
            (if msg_type m = ''user_input_transcription''
             then userSpeechBuffer s @
                    [\<lparr>speech_text = d_text (msg_data m), speech_timestamp = msg_timestamp m\<rparr>]
             else userSpeechBuffer s))
   \<and> flushTimerTracked (run jp es (init c (newPanel url ch)))
   \<and> pendingFlushTimers (flushUserSpeechBuffer (run jp es (init c (newPanel url ch)))) = []"
proof -
  have a: "userSpeechBuffer s \<noteq> [] \<longrightarrow>
      userSpeechBuffer (flushUserSpeechBuffer s) = []
      \<and> userSpeechBufferTimeout (flushUserSpeechBuffer s) = None
      \<and> timers (flushUserSpeechBuffer s) =
          (case userSpeechBufferTimeout s of None \<Rightarrow> timers s
           | Some h \<Rightarrow> filter (\<lambda>t. fst t \<noteq> h) (timers s))
      \<and> consoleOutput (flushUserSpeechBuffer s) =
          (if trim (join '' '' (map speech_text (userSpeechBuffer s))) \<noteq> []
           then trimConsole (consoleOutput s @
                  [ConsoleLine ''user-speech''
                     (htmlText (''[User Speech]: ''
                        @ trim (join '' '' (map speech_text (userSpeechBuffer s)))))])
           else consoleOutput s)"
    using flush_timeout[of s] flush_timers[of s] flush_console[of s] flush_buffer[of s]
    by blast
  have a': "CHR 0x0D \<notin> set (trim (join '' '' (map speech_text (userSpeechBuffer s))))
        \<and> CHR 0x00 \<notin> set (trim (join '' '' (map speech_text (userSpeechBuffer s)))) \<longrightarrow>
        htmlText (''[User Speech]: '' @ trim (join '' '' (map speech_text (userSpeechBuffer s))))
          = ''[User Speech]: '' @ trim (join '' '' (map speech_text (userSpeechBuffer s)))"
    by (simp add: htmlText_id)
  have b: "userSpeechBuffer s = [] \<longrightarrow> flushUserSpeechBuffer s = s"
    by (simp add: flush_empty)
  have c: "flushesBuffer ty \<longleftrightarrow>
        ty \<noteq> ''user_input_transcription'' \<and> ty \<noteq> ''heartbeat'' \<and> ty \<noteq> ''pong''"
    by (simp add: flushesBuffer_def)
  have d: "flushesBuffer (msg_type m) \<longrightarrow>
        handleWebSocketMessage jp m s = dispatchMessage jp m (flushUserSpeechBuffer s)
        \<and> userSpeechBuffer (handleWebSocketMessage jp m s) = []"
    by (simp add: handleWebSocketMessage_def buffer_dispatch flushesBuffer_def)
  have e: "\<not> flushesBuffer (msg_type m) \<longrightarrow>
        handleWebSocketMessage jp m s = dispatchMessage jp m s
        \<and> userSpeechBuffer (handleWebSocketMessage jp m s) =
            (if msg_type m = ''user_input_transcription''
             then userSpeechBuffer s @
                    [\<lparr>speech_text = d_text (msg_data m), speech_timestamp = msg_timestamp m\<rparr>]
             else userSpeechBuffer s)"
    by (simp add: handleWebSocketMessage_def buffer_dispatch)
  have f: "flushTimerTracked (run jp es (init c (newPanel url ch)))"
    by (rule tracked_run[OF tracked_init])
  have g: "pendingFlushTimers (flushUserSpeechBuffer (run jp es (init c (newPanel url ch)))) = []"
    by (rule pending_flush[OF f])
  from a a' b c d e f g show ?thesis by blast
qed

theorem flush_user_speech_buffer_witness:
  "userSpeechBuffer
     (run (\<lambda>_. None)
        [SocketOpens 0,
         SocketMessage 0 \<lparr>msg_type = ''user_input_transcription'',
           msg_data = \<lparr>d_message = [], d_text = ''hello'', d_name = [], d_args = [],
                       d_response = Absent, d_yap_mode_enabled = None\<rparr>, msg_timestamp = ''1''\<rparr>,
         SocketMessage 0 \<lparr>msg_type = ''user_input_transcription'',
           msg_data = \<lparr>d_message = [], d_text = ''world '', d_name = [], d_args = [],
                       d_response = Absent, d_yap_mode_enabled = None\<rparr>, msg_timestamp = ''2''\<rparr>]
        (init False (newPanel [] [])))
     = [\<lparr>speech_text = ''hello'', speech_timestamp = ''1''\<rparr>,
        \<lparr>speech_text = ''world '', speech_timestamp = ''2''\<rparr>]
   \<and> pendingFlushTimers
     (run (\<lambda>_. None)
        [SocketOpens 0,
         SocketMessage 0 \<lparr>msg_type = ''user_input_transcription'',
           msg_data = \<lparr>d_message = [], d_text = ''hello'', d_name = [], d_args = [],
                       d_response = Absent, d_yap_mode_enabled = None\<rparr>, msg_timestamp = ''1''\<rparr>,
         SocketMessage 0 \<lparr>msg_type = ''user_input_transcription'',
           msg_data = \<lparr>d_message = [], d_text = ''world '', d_name = [], d_args = [],
                       d_response = Absent, d_yap_mode_enabled = None\<rparr>, msg_timestamp = ''2''\<rparr>]
        (init False (newPanel [] [])))
     = [(2, 2000, FlushSpeechCallback)]
   \<and> consoleOutput (handleWebSocketMessage (\<lambda>_. None)
        \<lparr>msg_type = ''error'',
         msg_data = \<lparr>d_message = ''boom'', d_text = [], d_name = [], d_args = [],
                     d_response = Absent, d_yap_mode_enabled = None\<rparr>, msg_timestamp = ''3''\<rparr>
     (run (\<lambda>_. None)
        [SocketOpens 0,
         SocketMessage 0 \<lparr>msg_type = ''user_input_transcription'',
           msg_data = \<lparr>d_message = [], d_text = ''hello'', d_name = [], d_args = [],
                       d_response = Absent, d_yap_mode_enabled = None\<rparr>, msg_timestamp = ''1''\<rparr>,
         SocketMessage 0 \<lparr>msg_type = ''user_input_transcription'',
           msg_data = \<lparr>d_message = [], d_text = ''world '', d_name = [], d_args = [],
                       d_response = Absent, d_yap_mode_enabled = None\<rparr>, msg_timestamp = ''2''\<rparr>]
        (init False (newPanel [] []))))
     = [ConsoleLine ''system'' ''Control panel initialized. Checking Gabriel status...'',
        ConsoleLine ''system'' ''WebSocket connected - Real-time monitoring active'',
        ConsoleLine ''user-speech'' ''[User Speech]: hello world'',
        ConsoleLine ''error'' ''boom'']
   \<and> pendingFlushTimers (flushUserSpeechBuffer
     (run (\<lambda>_. None)
        [SocketOpens 0,
         SocketMessage 0 \<lparr>msg_type = ''user_input_transcription'',
           msg_data = \<lparr>d_message = [], d_text = ''hello'', d_name = [], d_args = [],
                       d_response = Absent, d_yap_mode_enabled = None\<rparr>, msg_timestamp = ''1''\<rparr>,
         SocketMessage 0 \<lparr>msg_type = ''user_input_transcription'',
           msg_data = \<lparr>d_message = [], d_text = ''world '', d_name = [], d_args = [],
                       d_response = Absent, d_yap_mode_enabled = None\<rparr>, msg_timestamp = ''2''\<rparr>]
        (init False (newPanel [] [])))) = []"
proof -
  let ?es = "[SocketOpens 0,
         SocketMessage 0 \<lparr>msg_type = ''user_input_transcription'',
           msg_data = \<lparr>d_message = [], d_text = ''hello'', d_name = [], d_args = [],
                       d_response = Absent, d_yap_mode_enabled = None\<rparr>, msg_timestamp = ''1''\<rparr>,
         SocketMessage 0 \<lparr>msg_type = ''user_input_transcription'',
           msg_data = \<lparr>d_message = [], d_text = ''world '', d_name = [], d_args = [],
                       d_response = Absent, d_yap_mode_enabled = None\<rparr>, msg_timestamp = ''2''\<rparr>]"
  let ?s = "run (\<lambda>_. None) ?es (init False (newPanel [] []))"
  let ?m = "\<lparr>msg_type = ''error'',
         msg_data = \<lparr>d_message = ''boom'', d_text = [], d_name = [], d_args = [],
                     d_response = Absent, d_yap_mode_enabled = None\<rparr>, msg_timestamp = ''3''\<rparr>"
  have s: "?s = (newPanel [] [])
      \<lparr>consoleOutput := [ConsoleLine ''system'' ''Control panel initialized. Checking Gabriel status...'',
                         ConsoleLine ''system'' ''WebSocket connected - Real-time monitoring active''],
       wsStatus := ''connected'', websocket := Some 0, sockets := [OPEN],
       userSpeechBuffer := [\<lparr>speech_text = ''hello'', speech_timestamp = ''1''\<rparr>,
                            \<lparr>speech_text = ''world '', speech_timestamp = ''2''\<rparr>],
       userSpeechBufferTimeout := Some 2,
       timers := [(2, 2000, FlushSpeechCallback)], nextTimer := 3\<rparr>"
    by (simp add: ev_defs handleWebSocketMessage_def flushesBuffer_def dispatchMessage_def)
  note all = flush_user_speech_buffer[of ?s "''error''" ?m "\<lambda>_. None" ?es False "[]" "[]"]
  have h2: "flushesBuffer (msg_type ?m)"
    by (simp add: flushesBuffer_def)
  have f: "flushUserSpeechBuffer ?s = (newPanel [] [])
      \<lparr>consoleOutput := [ConsoleLine ''system'' ''Control panel initialized. Checking Gabriel status...'',
                         ConsoleLine ''system'' ''WebSocket connected - Real-time monitoring active'',
                         ConsoleLine ''user-speech'' ''[User Speech]: hello world''],
       wsStatus := ''connected'', websocket := Some 0, sockets := [OPEN],
       userSpeechBuffer := [], userSpeechBufferTimeout := None,
       timers := [], nextTimer := 3\<rparr>"
    unfolding s
    by (simp add: flushUserSpeechBuffer_def Let_def clearTimeout_def addConsoleMessage_def
        trimConsole_def trim_def isWhiteSpace_def newPanel_def htmlText_def)
  have d: "handleWebSocketMessage (\<lambda>_. None) ?m ?s
           = dispatchMessage (\<lambda>_. None) ?m (flushUserSpeechBuffer ?s)"
    using all[THEN conjunct2, THEN conjunct2, THEN conjunct2, THEN conjunct2, THEN conjunct1,
        THEN mp, OF h2]
    by (rule conjunct1)
  have c: "consoleOutput (dispatchMessage (\<lambda>_. None) ?m (flushUserSpeechBuffer ?s))
     = [ConsoleLine ''system'' ''Control panel initialized. Checking Gabriel status...'',
        ConsoleLine ''system'' ''WebSocket connected - Real-time monitoring active'',
        ConsoleLine ''user-speech'' ''[User Speech]: hello world'',
        ConsoleLine ''error'' ''boom'']"
    unfolding f by (simp add: dispatchMessage_def addConsoleMessage_def trimConsole_def htmlText_def)
  have p: "pendingFlushTimers ?s = [(2, 2000, FlushSpeechCallback)]"
    unfolding s by (simp add: pendingFlushTimers_def)
  have b: "userSpeechBuffer ?s = [\<lparr>speech_text = ''hello'', speech_timestamp = ''1''\<rparr>,
        \<lparr>speech_text = ''world '', speech_timestamp = ''2''\<rparr>]"
    unfolding s by simp
  have z: "pendingFlushTimers (flushUserSpeechBuffer ?s) = []"
    by (rule all[THEN conjunct2, THEN conjunct2, THEN conjunct2, THEN conjunct2, THEN conjunct2,
        THEN conjunct2, THEN conjunct2])
  have c': "consoleOutput (handleWebSocketMessage (\<lambda>_. None) ?m ?s)
     = [ConsoleLine ''system'' ''Control panel initialized. Checking Gabriel status...'',
        ConsoleLine ''system'' ''WebSocket connected - Real-time monitoring active'',
        ConsoleLine ''user-speech'' ''[User Speech]: hello world'',
        ConsoleLine ''error'' ''boom'']"
    by (simp only: d c)
  show ?thesis
    using b p c' z by (intro conjI)
qed

text \<open>
  C9, as stated, fails for seven of the actions around a \<open>fetch\<close> call. When their request
  fails, \<open>toggleYapMode\<close> and \<open>toggleV2Mode\<close> show an error toast but write no console line;
  \<open>reconnectSession\<close> answers a failure whose message holds \<open>409\<close> with a warning toast and
  a warning line; \<open>loadPersonalities\<close> reports the error but leaves the loading overlay
  and the send button as they are, here shown and disabled as they are while another
  action waits for its reply; \<open>checkStatus\<close>, \<open>loadV2ModeStatus\<close> and
  \<open>loadVRChatControlsStatus\<close> show no toast and write no line.
\<close>

theorem fetch_actions_counterexample:
  "toasts (fst (toggleYapMode True (Threw ''Failed to fetch'') (newPanel [] [])))
     = [(''error'', ''Failed to toggle yap mode: Failed to fetch'')]
   \<and> consoleOutput (fst (toggleYapMode True (Threw ''Failed to fetch'') (newPanel [] []))) = []
   \<and> toasts (fst (toggleV2Mode False (Threw ''Failed to fetch'') (newPanel [] [])))
     = [(''error'', ''Failed to toggle V2 mode: Failed to fetch'')]
   \<and> consoleOutput (fst (toggleV2Mode False (Threw ''Failed to fetch'') (newPanel [] []))) = []
   \<and> toasts (fst (reconnectSession
         (Answered False (Some ''409: a session is active'')
            \<lparr>session_age_seconds = 0, session_mode = [], handle_preview = []\<rparr>)
         (newPanel [] [])))
     = [(''warning'', ''A session is already active'')]
   \<and> consoleOutput (fst (reconnectSession
         (Answered False (Some ''409: a session is active'')
            \<lparr>session_age_seconds = 0, session_mode = [], handle_preview = []\<rparr>)
         (newPanel [] [])))
     = [ConsoleLine ''warning'' ''Cannot reconnect - an active session already exists'']
   \<and> \<not> loadingOverlayHidden
         (fst (loadPersonalities (Thrown ''Failed to fetch'') (showLoading (newPanel [] []))))
   \<and> sendButtonDisabled
         (fst (loadPersonalities (Thrown ''Failed to fetch'') (showLoading (newPanel [] []))))
   \<and> toasts (fst (checkStatus (Thrown ''Failed to fetch'') (Threw ''Failed to fetch'')
         (Thrown ''Failed to fetch'') (newPanel [] []))) = []
   \<and> consoleOutput (fst (checkStatus (Thrown ''Failed to fetch'') (Threw ''Failed to fetch'')
         (Thrown ''Failed to fetch'') (newPanel [] []))) = []
   \<and> toasts (fst (loadV2ModeStatus (Thrown ''Failed to fetch'') (newPanel [] []))) = []
   \<and> consoleOutput (fst (loadV2ModeStatus (Thrown ''Failed to fetch'') (newPanel [] []))) = []
   \<and> toasts (fst (loadVRChatControlsStatus (Thrown ''Failed to fetch'') (newPanel [] []))) = []
   \<and> consoleOutput (fst (loadVRChatControlsStatus (Thrown ''Failed to fetch'') (newPanel [] [])))
       = []"
proof -
  have yap: "toasts (fst (toggleYapMode True (Threw ''Failed to fetch'') (newPanel [] [])))
     = [(''error'', ''Failed to toggle yap mode: Failed to fetch'')]
   \<and> consoleOutput (fst (toggleYapMode True (Threw ''Failed to fetch'') (newPanel [] []))) = []"
    by (simp add: toggleYapMode_def newPanel_def showLoading_def hideLoading_def showToast_def
        htmlText_def Let_def)
  have v2: "toasts (fst (toggleV2Mode False (Threw ''Failed to fetch'') (newPanel [] [])))
     = [(''error'', ''Failed to toggle V2 mode: Failed to fetch'')]
   \<and> consoleOutput (fst (toggleV2Mode False (Threw ''Failed to fetch'') (newPanel [] []))) = []"
    by (simp add: toggleV2Mode_def newPanel_def showLoading_def hideLoading_def showToast_def
        htmlText_def Let_def)
  have inc: "includes_str ''409: a session is active'' ''409''"
    "\<not> includes_str ''409: a session is active'' ''404''"
    by (simp_all add: includes_str_def sublist_code(3))
  have rc: "toasts (fst (reconnectSession
         (Answered False (Some ''409: a session is active'')
            \<lparr>session_age_seconds = 0, session_mode = [], handle_preview = []\<rparr>)
         (newPanel [] [])))
     = [(''warning'', ''A session is already active'')]
   \<and> consoleOutput (fst (reconnectSession
         (Answered False (Some ''409: a session is active'')
            \<lparr>session_age_seconds = 0, session_mode = [], handle_preview = []\<rparr>)
         (newPanel [] [])))
     = [ConsoleLine ''warning'' ''Cannot reconnect - an active session already exists'']"
    using inc
    by (simp add: reconnectSession_def newPanel_def showLoading_def hideLoading_def showToast_def
        addConsoleMessage_def trimConsole_def orElse_def htmlText_def Let_def)
  have lp: "\<not> loadingOverlayHidden
         (fst (loadPersonalities (Thrown ''Failed to fetch'') (showLoading (newPanel [] []))))
   \<and> sendButtonDisabled
         (fst (loadPersonalities (Thrown ''Failed to fetch'') (showLoading (newPanel [] []))))"
    by (simp add: loadPersonalities_def newPanel_def showLoading_def showToast_def
        addConsoleMessage_def Let_def)
  have cs: "toasts (fst (checkStatus (Thrown ''Failed to fetch'') (Threw ''Failed to fetch'')
         (Thrown ''Failed to fetch'') (newPanel [] []))) = []
   \<and> consoleOutput (fst (checkStatus (Thrown ''Failed to fetch'') (Threw ''Failed to fetch'')
         (Thrown ''Failed to fetch'') (newPanel [] []))) = []"
    by (simp add: checkStatus_def updateStatus_def updateApiStatus_def newPanel_def Let_def)
  have l2: "toasts (fst (loadV2ModeStatus (Thrown ''Failed to fetch'') (newPanel [] []))) = []
   \<and> consoleOutput (fst (loadV2ModeStatus (Thrown ''Failed to fetch'') (newPanel [] []))) = []"
    by (simp add: loadV2ModeStatus_def newPanel_def Let_def)
  have lv: "toasts (fst (loadVRChatControlsStatus (Thrown ''Failed to fetch'') (newPanel [] []))) = []
   \<and> consoleOutput (fst (loadVRChatControlsStatus (Thrown ''Failed to fetch'') (newPanel [] [])))
       = []"
    by (simp add: loadVRChatControlsStatus_def updateVRChatStatus_def newPanel_def Let_def)
  from yap v2 rc lp cs l2 lv show ?thesis by (intro conjI) (elim conjE, assumption)+
qed

text \<open>
  C9, amended. Every action around a \<open>fetch\<close> call returns normally whatever the outcome
  of its request, \<open>sendMessage\<close> when its message is not blank and a message type is
  selected. Six actions have the property in full: \<open>sendMessage\<close>, \<open>sendQuickMessage\<close>,
  \<open>freshStart\<close> (once the user has confirmed; declined, it does nothing),
  \<open>switchPersonality\<close>, \<open>enableSafeMode\<close> and \<open>toggleVRChatVoice\<close> issue one request, report
  a failure (no success, \<open>fetch\<close> or the JSON parse throwing, for \<open>switchPersonality\<close> also a
  successful reply without a personality) by one error toast and one error console line
  with the action's failure text and the error's message, and end with the loading overlay
  hidden and the send button enabled. Only \<open>sendMessage\<close>, on success, clears the message
  input and sets the counter to \<open>0/1000\<close>; no other action touches them. Of the other
  actions, \<open>toggleYapMode\<close> and \<open>toggleV2Mode\<close> report a failure by an error toast alone and
  end with the overlay hidden (\<open>toggleV2Mode\<close> sends nothing when V2 mode is asked for but
  not available); \<open>reconnectSession\<close> ends with the overlay hidden and reports a failure by
  an error toast and an error line, unless the message holds \<open>409\<close> and not \<open>404\<close>, when
  both are warnings; \<open>loadPersonalities\<close> reports a failure by an error toast and an error
  line and leaves the overlay and the send button as they are; \<open>checkStatus\<close>,
  \<open>loadV2ModeStatus\<close> and \<open>loadVRChatControlsStatus\<close> show no toast, write no line and leave
  the overlay and the send button as they are.
\<close>

theorem fetch_actions_exception_safe:
  "(trim (messageInput s) \<noteq> [] \<and> messageType s = Some mt \<longrightarrow>
      (\<exists>s' request.
           sendMessage outcome s = Inr (s', [request])
           \<and> req_method request = ''POST''
           \<and> req_url request = apiUrl s @ ''/api/chat/send''
           \<and> req_message request = trim (messageInput s)
           \<and> loadingOverlayHidden s' \<and> \<not> sendButtonDisabled s'
           \<and> (case outcome of
                 Responded succeeded msg \<Rightarrow>
                   if succeeded
                   then messageInput s' = [] \<and> charCounter s' = ''0/1000''
                        \<and> toasts s' = toasts s @ [(''success'', htmlText ''Message sent successfully'')]
                   else messageInput s' = messageInput s \<and> charCounter s' = charCounter s
                        \<and> reportsError
                            (''Failed to send message: '' @ orElse msg ''Failed to send message'')
                            (''Failed to send message: '' @ orElse msg ''Failed to send message'')
                            s s'
               | Threw msg \<Rightarrow>
                   messageInput s' = messageInput s \<and> charCounter s' = charCounter s
                   \<and> reportsError (''Failed to send message: '' @ msg)
                        (''Failed to send message: '' @ msg) s s')))
   \<and> (\<exists>s' request.
           sendQuickMessage message outcome s = (s', [request])
           \<and> req_method request = ''POST''
           \<and> req_url request = apiUrl s @ ''/api/chat/send''
           \<and> req_message request = message
           \<and> loadingOverlayHidden s' \<and> \<not> sendButtonDisabled s'
           \<and> messageInput s' = messageInput s \<and> charCounter s' = charCounter s
           \<and> (case outcome of
                 Responded succeeded msg \<Rightarrow>
                   if succeeded
                   then toasts s' = toasts s @ [(''success'', htmlText ''Quick instruction sent'')]
                   else reportsError
                          (''Failed to send instruction: '' @ orElse msg ''Failed to send instruction'')
                          (''Failed to send instruction: '' @ orElse msg ''Failed to send instruction'')
                          s s'
               | Threw msg \<Rightarrow>
                   reportsError (''Failed to send instruction: '' @ msg)
                     (''Failed to send instruction: '' @ msg) s s'))
   \<and> freshStart False outcome s = (s, [])
   \<and> (\<exists>s' request.
           freshStart True outcome s = (s', [request])
           \<and> ar_method request = ''POST''
           \<and> ar_url request = apiUrl s @ ''/api/session/fresh-start''
           \<and> loadingOverlayHidden s' \<and> \<not> sendButtonDisabled s'
           \<and> messageInput s' = messageInput s \<and> charCounter s' = charCounter s
           \<and> (case outcome of
                 Responded succeeded msg \<Rightarrow>
                   if succeeded
                   then toasts s'
                          = toasts s @ [(''success'', htmlText ''Session cleared - restarting fresh'')]
                   else reportsError
                          (''Failed to start fresh: '' @ orElse msg ''Failed to clear session'')
                          (''Fresh start failed: '' @ orElse msg ''Failed to clear session'') s s'
               | Threw msg \<Rightarrow>
                   reportsError (''Failed to start fresh: '' @ msg)
                     (''Fresh start failed: '' @ msg) s s'))
   \<and> (\<exists>s' request.
           switchPersonality personalityId switched s = (s', [request])
           \<and> ar_method request = ''POST''
           \<and> ar_url request = apiUrl s @ ''/api/personalities/switch/'' @ personalityId
           \<and> loadingOverlayHidden s' \<and> \<not> sendButtonDisabled s'
           \<and> messageInput s' = messageInput s \<and> charCounter s' = charCounter s
           \<and> (case switched of
                 Answered succeeded msg d \<Rightarrow>
                   if succeeded
                   then (case d of
                           Inr name \<Rightarrow>
                             toasts s' = toasts s
                               @ [(''success'', htmlText (''Switched to '' @ name @ '' personality''))]
                         | Inl (TypeError e) \<Rightarrow>
                             reportsError (''Failed to switch personality: '' @ e)
                               (''Failed to switch personality: '' @ e) s s')
                   else reportsError
                          (''Failed to switch personality: ''
                             @ orElse msg ''Failed to switch personality'')
                          (''Failed to switch personality: ''
                             @ orElse msg ''Failed to switch personality'') s s'
               | Thrown msg \<Rightarrow>
                   reportsError (''Failed to switch personality: '' @ msg)
                     (''Failed to switch personality: '' @ msg) s s'))
   \<and> (\<exists>s' request.
           enableSafeMode outcome s = (s', [request])
           \<and> ar_method request = ''POST''
           \<and> ar_url request = apiUrl s @ ''/api/vrchat/controls/safe-mode''
           \<and> loadingOverlayHidden s' \<and> \<not> sendButtonDisabled s'
           \<and> messageInput s' = messageInput s \<and> charCounter s' = charCounter s
           \<and> (case outcome of
                 Responded succeeded msg \<Rightarrow>
                   if succeeded
                   then toasts s' = toasts s @ [(''success'', htmlText ''VRChat Safe Mode enabled'')]
                   else reportsError
                          (''Failed to enable Safe Mode: '' @ orElse msg ''Failed to enable Safe Mode'')
                          (''Failed to enable Safe Mode: '' @ orElse msg ''Failed to enable Safe Mode'')
                          s s'
               | Threw msg \<Rightarrow>
                   reportsError (''Failed to enable Safe Mode: '' @ msg)
                     (''Failed to enable Safe Mode: '' @ msg) s s'))
   \<and> (\<exists>s' request.
           toggleVRChatVoice enable toggled s = (s', [request])
           \<and> ar_method request = ''POST''
           \<and> ar_url request = apiUrl s @ ''/api/vrchat/controls/voice/toggle''
           \<and> ar_body request = Some (''enable'', enable)
           \<and> loadingOverlayHidden s' \<and> \<not> sendButtonDisabled s'
           \<and> messageInput s' = messageInput s \<and> charCounter s' = charCounter s
           \<and> (case toggled of
                 Answered succeeded msg voice_enabled \<Rightarrow>
                   if succeeded
                   then toasts s'
                          = toasts s @ [(''success'', htmlText (''VRChat voice ''
                               @ (if voice_enabled then ''enabled'' else ''disabled'')))]
                   else reportsError
                          (''Failed to toggle voice: '' @ orElse msg ''Failed to toggle voice'')
                          (''Failed to toggle voice: '' @ orElse msg ''Failed to toggle voice'') s s'
               | Thrown msg \<Rightarrow>
                   reportsError (''Failed to toggle voice: '' @ msg)
                     (''Failed to toggle voice: '' @ msg) s s'))
   \<and> (\<exists>s' request.
           toggleYapMode enabled outcome s = (s', [request])
           \<and> req_method request = ''POST''
           \<and> req_url request = apiUrl s @ ''/api/chat/send''
           \<and> loadingOverlayHidden s' \<and> \<not> sendButtonDisabled s'
           \<and> messageInput s' = messageInput s \<and> charCounter s' = charCounter s
           \<and> (case outcome of
                 Responded succeeded msg \<Rightarrow>
                   if succeeded
                   then toasts s'
                          = toasts s @ [(''success'', htmlText (''Yap mode ''
                               @ (if enabled then ''enabled'' else ''disabled'')))]
                   else reportsErrorByToast
                          (''Failed to toggle yap mode: '' @ orElse msg ''Failed to toggle yap mode'')
                          s s'
               | Threw msg \<Rightarrow>
                   reportsErrorByToast (''Failed to toggle yap mode: '' @ msg) s s'))
   \<and> (enabled \<and> \<not> v2ModeAvailable (controls s) \<longrightarrow>
        (\<exists>s'. toggleV2Mode enabled outcome s = (s', [])
           \<and> reportsErrorByToast ''V2 mode is not available on this system'' s s'
           \<and> loadingOverlayHidden s' = loadingOverlayHidden s
           \<and> sendButtonDisabled s' = sendButtonDisabled s
           \<and> messageInput s' = messageInput s \<and> charCounter s' = charCounter s))
   \<and> (\<not> (enabled \<and> \<not> v2ModeAvailable (controls s)) \<longrightarrow>
        (\<exists>s' request.
           toggleV2Mode enabled outcome s = (s', [request])
           \<and> ar_method request = ''POST''
           \<and> ar_url request = apiUrl s @ ''/api/v2/toggle''
           \<and> ar_body request = Some (''enable_v2'', enabled)
           \<and> loadingOverlayHidden s' \<and> \<not> sendButtonDisabled s'
           \<and> messageInput s' = messageInput s \<and> charCounter s' = charCounter s
           \<and> (case outcome of
                 Responded succeeded msg \<Rightarrow>
                   if succeeded
                   then toasts s'
                          = toasts s @ [(''success'', htmlText (''Switched to ''
                               @ (if enabled then ''V2'' else ''V1'') @ '' mode''))]
                   else reportsErrorByToast
                          (''Failed to toggle V2 mode: '' @ orElse msg ''Failed to toggle V2 mode'')
                          s s'
               | Threw msg \<Rightarrow>
                   reportsErrorByToast (''Failed to toggle V2 mode: '' @ msg) s s')))
   \<and> (\<exists>s' request.
           reconnectSession reconnected s = (s', [request])
           \<and> ar_method request = ''POST''
           \<and> ar_url request = apiUrl s @ ''/api/session/reconnect''
           \<and> loadingOverlayHidden s' \<and> \<not> sendButtonDisabled s'
           \<and> messageInput s' = messageInput s \<and> charCounter s' = charCounter s
           \<and> (let reported = (\<lambda>failure.
                  if includes_str failure ''404''
                  then reportsError ''No saved session handle found''
                         ''No saved session available. Start a new session first.'' s s'
                  else if includes_str failure ''409''
                  then toasts s' = toasts s @ [(''warning'', htmlText ''A session is already active'')]
                       \<and> consoleOutput s' =
                           trimConsole (consoleOutput s @
                             [ConsoleLine ''warning''
                                (htmlText ''Cannot reconnect - an active session already exists'')])
                  else reportsError (''Failed to reconnect: '' @ failure)
                         (''Reconnection failed: '' @ failure) s s')
               in case reconnected of
                    Answered succeeded msg d \<Rightarrow>
                      if succeeded
                      then toasts s' = toasts s
                             @ [(''success'', htmlText (''Reconnecting with saved ''
                                   @ session_mode d @ '' session''))]
                      else reported (orElse msg ''Failed to reconnect session'')
                  | Thrown msg \<Rightarrow> reported msg))
   \<and> (\<exists>s' request.
           loadPersonalities loaded s = (s', [request])
           \<and> ar_method request = ''GET''
           \<and> ar_url request = apiUrl s @ ''/api/personalities''
           \<and> loadingOverlayHidden s' = loadingOverlayHidden s
           \<and> sendButtonDisabled s' = sendButtonDisabled s
           \<and> messageInput s' = messageInput s \<and> charCounter s' = charCounter s
           \<and> (case loaded of
                 Answered succeeded msg d \<Rightarrow>
                   if succeeded then toasts s' = toasts s
                   else reportsError
                          (''Failed to load personalities: ''
                             @ orElse msg ''Failed to load personalities'')
                          (''Failed to load personalities: ''
                             @ orElse msg ''Failed to load personalities'') s s'
               | Thrown msg \<Rightarrow>
                   reportsError (''Failed to load personalities: '' @ msg)
                     (''Failed to load personalities: '' @ msg) s s'))
   \<and> (\<exists>s' requests.
           checkStatus health chat vrchat s = (s', requests)
           \<and> reportsNothing s s'
           \<and> loadingOverlayHidden s' = loadingOverlayHidden s
           \<and> sendButtonDisabled s' = sendButtonDisabled s
           \<and> messageInput s' = messageInput s \<and> charCounter s' = charCounter s)
   \<and> (\<exists>s' request.
           loadV2ModeStatus v2 s = (s', [request])
           \<and> reportsNothing s s'
           \<and> loadingOverlayHidden s' = loadingOverlayHidden s
           \<and> sendButtonDisabled s' = sendButtonDisabled s
           \<and> messageInput s' = messageInput s \<and> charCounter s' = charCounter s)
   \<and> (\<exists>s' request.
           loadVRChatControlsStatus vrchat s = (s', [request])
           \<and> reportsNothing s s'
           \<and> loadingOverlayHidden s' = loadingOverlayHidden s
           \<and> sendButtonDisabled s' = sendButtonDisabled s
           \<and> messageInput s' = messageInput s \<and> charCounter s' = charCounter s)"
proof (intro conjI impI, goal_cases)
  case 1
  show ?case
  proof (cases outcome)
    case (Responded succeeded msg)
    with 1 show ?thesis
      by (cases succeeded) (simp_all add: sendMessage_def action_defs)
  next
    case (Threw msg)
    with 1 show ?thesis by (simp add: sendMessage_def action_defs)
  qed
next
  case 2
  show ?case
  proof (cases outcome)
    case (Responded succeeded msg)
    then show ?thesis
      by (cases succeeded) (simp_all add: sendQuickMessage_def action_defs)
  next
    case (Threw msg)
    then show ?thesis by (simp add: sendQuickMessage_def action_defs)
  qed
next
  case 3
  show ?case by (simp add: freshStart_def)
next
  case 4
  show ?case
  proof (cases outcome)
    case (Responded succeeded msg)
    then show ?thesis
      by (cases succeeded) (simp_all add: freshStart_def action_defs)
  next
    case (Threw msg)
    then show ?thesis by (simp add: freshStart_def action_defs)
  qed
next
  case 5
  show ?case
  proof (cases switched)
    case (Answered succeeded msg d)
    show ?thesis
    proof (cases succeeded)
      case True
      show ?thesis
      proof (cases d)
        case (Inl err)
        obtain e where "err = TypeError e" by (cases err) auto
        with Answered True Inl show ?thesis
          by (simp add: switchPersonality_def action_defs personality_defs)
      next
        case (Inr name)
        with Answered True show ?thesis
          by (simp add: switchPersonality_def action_defs personality_defs)
      qed
    next
      case False
      with Answered show ?thesis by (simp add: switchPersonality_def action_defs)
    qed
  next
    case (Thrown msg)
    then show ?thesis by (simp add: switchPersonality_def action_defs)
  qed
next
  case 6
  show ?case
  proof (cases outcome)
    case (Responded succeeded msg)
    then show ?thesis
      by (cases succeeded) (simp_all add: enableSafeMode_def setTimeout_def action_defs)
  next
    case (Threw msg)
    then show ?thesis by (simp add: enableSafeMode_def action_defs)
  qed
next
  case 7
  show ?case
  proof (cases toggled)
    case (Answered succeeded msg voice_enabled)
    then show ?thesis
      by (cases succeeded) (simp_all add: toggleVRChatVoice_def setTimeout_def action_defs)
  next
    case (Thrown msg)
    then show ?thesis by (simp add: toggleVRChatVoice_def action_defs)
  qed
next
  case 8
  show ?case
  proof (cases outcome)
    case (Responded succeeded msg)
    then show ?thesis
      by (cases succeeded) (simp_all add: toggleYapMode_def action_defs)
  next
    case (Threw msg)
    then show ?thesis by (simp add: toggleYapMode_def action_defs)
  qed
next
  case 9
  then show ?case by (simp add: toggleV2Mode_def action_defs)
next
  case 10
  show ?case
  proof (cases outcome)
    case (Responded succeeded msg)
    with 10 show ?thesis
      by (cases succeeded) (auto simp: toggleV2Mode_def action_defs)
  next
    case (Threw msg)
    with 10 show ?thesis by (auto simp: toggleV2Mode_def action_defs)
  qed
next
  case 11
  show ?case
  proof (cases reconnected)
    case (Answered succeeded msg d)
    then show ?thesis
      by (cases succeeded) (simp_all add: reconnectSession_def action_defs)
  next
    case (Thrown msg)
    then show ?thesis
      by (cases msg) (simp_all add: reconnectSession_def action_defs)
  qed
next
  case 12
  show ?case
  proof (cases loaded)
    case (Answered succeeded msg d)
    then show ?thesis
      by (cases succeeded) (simp_all add: loadPersonalities_def action_defs personality_defs)
  next
    case (Thrown msg)
    then show ?thesis by (simp add: loadPersonalities_def action_defs)
  qed
next
  case 13
  show ?case
    by (simp add: checkStatus_def loadVRChatControlsStatus_def updateVRChatStatus_def
        updateStatus_def updateApiStatus_def reportsNothing_def Let_def
        split: answer.splits fetch_outcome.splits)
next
  case 14
  show ?case
    by (simp add: loadV2ModeStatus_def reportsNothing_def Let_def split: answer.splits)
next
  case 15
  show ?case
    by (simp add: loadVRChatControlsStatus_def updateVRChatStatus_def reportsNothing_def Let_def
        split: answer.splits)
qed

theorem fetch_actions_exception_safe_witness:
  "sendMessage (Threw ''Failed to fetch'') ((newPanel ''http://h:8000'' [])\<lparr>messageInput := '' hi ''\<rparr>)
     = Inr ((newPanel ''http://h:8000'' [])
              \<lparr>messageInput := '' hi '',
               toasts := [(''error'', ''Failed to send message: Failed to fetch'')],
               consoleOutput := [ConsoleLine ''error'' ''Failed to send message: Failed to fetch'']\<rparr>,
            [\<lparr>req_method = ''POST'', req_url = ''http://h:8000/api/chat/send'',
              req_message = ''hi'', req_system_instruction = False,
              req_turn_complete = True\<rparr>])
   \<and> (\<exists>s' request.
         sendMessage (Responded True None)
           ((newPanel ''http://h:8000'' [])\<lparr>messageInput := '' hi ''\<rparr>) = Inr (s', [request])
         \<and> messageInput s' = [] \<and> charCounter s' = ''0/1000''
         \<and> loadingOverlayHidden s' \<and> \<not> sendButtonDisabled s')
   \<and> (\<exists>s' request.
         toggleVRChatVoice True (Thrown ''Failed to fetch'')
           ((newPanel ''http://h:8000'' [])\<lparr>messageInput := '' hi ''\<rparr>) = (s', [request])
         \<and> loadingOverlayHidden s' \<and> \<not> sendButtonDisabled s'
         \<and> messageInput s' = '' hi ''
         \<and> toasts s' = [(''error'', ''Failed to toggle voice: Failed to fetch'')]
         \<and> consoleOutput s'
             = [ConsoleLine ''error'' ''Failed to toggle voice: Failed to fetch''])"
proof -
  let ?s = "(newPanel ''http://h:8000'' [])\<lparr>messageInput := '' hi ''\<rparr>"
  have h: "trim (messageInput ?s) \<noteq> [] \<and> messageType ?s = Some ''message''"
    by (simp add: trim_def isWhiteSpace_def newPanel_def)
  note all = fetch_actions_exception_safe[where s = ?s and mt = "''message''"
      and outcome = "Responded True None" and enable = True
      and toggled = "Thrown ''Failed to fetch''"]
  have e: "sendMessage (Threw ''Failed to fetch'') ?s
     = Inr ((newPanel ''http://h:8000'' [])
              \<lparr>messageInput := '' hi '',
               toasts := [(''error'', ''Failed to send message: Failed to fetch'')],
               consoleOutput := [ConsoleLine ''error'' ''Failed to send message: Failed to fetch'']\<rparr>,
            [\<lparr>req_method = ''POST'', req_url = ''http://h:8000/api/chat/send'',
              req_message = ''hi'', req_system_instruction = False,
              req_turn_complete = True\<rparr>])"
    by (simp add: sendMessage_def Let_def hideLoading_def showLoading_def showToast_def
        addConsoleMessage_def trimConsole_def newPanel_def trim_def isWhiteSpace_def htmlText_def)
  have t: "htmlText ''Failed to toggle voice: Failed to fetch''
             = ''Failed to toggle voice: Failed to fetch''"
    by (simp add: htmlText_def)
  have a: "\<exists>s' request.
         sendMessage (Responded True None) ?s = Inr (s', [request])
         \<and> messageInput s' = [] \<and> charCounter s' = ''0/1000''
         \<and> loadingOverlayHidden s' \<and> \<not> sendButtonDisabled s'"
    using all[THEN conjunct1, THEN mp, OF h] by auto
  have n: "toasts ?s = []" "consoleOutput ?s = []" "messageInput ?s = '' hi ''"
    by (simp_all add: newPanel_def)
  have b: "\<exists>s' request.
         toggleVRChatVoice True (Thrown ''Failed to fetch'') ?s = (s', [request])
         \<and> loadingOverlayHidden s' \<and> \<not> sendButtonDisabled s'
         \<and> messageInput s' = '' hi ''
         \<and> toasts s' = [(''error'', ''Failed to toggle voice: Failed to fetch'')]
         \<and> consoleOutput s'
             = [ConsoleLine ''error'' ''Failed to toggle voice: Failed to fetch'']"
    using all[THEN conjunct2, THEN conjunct2, THEN conjunct2, THEN conjunct2, THEN conjunct2,
        THEN conjunct2, THEN conjunct1]
    by (auto simp: reportsError_def t n trimConsole_def)
  show ?thesis
    using e a b by (intro conjI)
qed

text \<open>
  C1. After \<open>applyFiltersAndSearch\<close>, \<open>filteredMemories\<close> holds exactly the elements of
  \<open>currentMemories\<close> that pass every active filter, each as often as \<open>currentMemories\<close>
  holds it: the search term (trimmed, lowercased), when not empty, occurs in the lowercased
  key, content or category or in some lowercased tag; the type filter, when set, equals
  \<open>memory_type\<close>; the category filter, when set, equals \<open>category\<close>. \<open>currentMemories\<close>
  itself is unchanged.
\<close>

theorem apply_filters_and_search:
  "mset (filteredMemories (applyFiltersAndSearch s))
     = mset (filter (passesFilters s) (currentMemories s))
   \<and> set (filteredMemories (applyFiltersAndSearch s))
     = {m \<in> set (currentMemories s). passesFilters s m}
   \<and> currentMemories (applyFiltersAndSearch s) = currentMemories s"
proof -
  have m: "mset (filteredMemories (applyFiltersAndSearch s))
     = mset (filter (passesFilters s) (currentMemories s))"
    by (rule applyFilters_filtered)
  have "set (filteredMemories (applyFiltersAndSearch s))
     = set (filter (passesFilters s) (currentMemories s))"
    using m by (rule mset_eq_setD)
  then have "set (filteredMemories (applyFiltersAndSearch s))
     = {m \<in> set (currentMemories s). passesFilters s m}"
    by simp
  moreover have "currentMemories (applyFiltersAndSearch s) = currentMemories s"
    by (simp add: applyFiltersAndSearch_def Let_def)
  ultimately show ?thesis using m by blast
qed

theorem apply_filters_and_search_witness:
  "mset (filteredMemories (applyFiltersAndSearch (loadedManager\<lparr>searchInput := '' URG ''\<rparr>)))
     = {#memoryC#}
   \<and> set (filteredMemories (applyFiltersAndSearch
         (loadedManager\<lparr>searchInput := ''s'', memoryTypeFilter := ''long_term''\<rparr>)))
     = {memoryA, memoryB}"
proof -
  have 1: "filter (passesFilters (loadedManager\<lparr>searchInput := '' URG ''\<rparr>))
             (currentMemories (loadedManager\<lparr>searchInput := '' URG ''\<rparr>)) = [memoryC]"
    by (simp add: passes_samples)
  have 2: "{m \<in> set (currentMemories
              (loadedManager\<lparr>searchInput := ''s'', memoryTypeFilter := ''long_term''\<rparr>)).
            passesFilters (loadedManager\<lparr>searchInput := ''s'', memoryTypeFilter := ''long_term''\<rparr>) m}
           = {memoryA, memoryB}"
    using passes_samples by auto
  show ?thesis
    using apply_filters_and_search[of "loadedManager\<lparr>searchInput := '' URG ''\<rparr>"]
      apply_filters_and_search[of
        "loadedManager\<lparr>searchInput := ''s'', memoryTypeFilter := ''long_term''\<rparr>"]
    unfolding 1 2 by simp
qed

text \<open>
  C2, as stated, fails where two memories have equal sort keys: the comparison is negated
  for \<open>desc\<close>, and the stable sort then leaves them in the order they had, which is not the
  reverse of the ascending order. \<open>memoryA\<close> and \<open>memoryB\<close> both have \<open>access_count = 3\<close>.
\<close>

theorem descending_not_reverse_counterexample:
  "filteredMemories (handleSort ''access_count'' loadedManager)
     = [memoryC, memoryA, memoryB]
   \<and> filteredMemories (handleSort ''access_count'' (handleSort ''access_count'' loadedManager))
     = [memoryA, memoryB, memoryC]
   \<and> filteredMemories (applySorting
         (loadedManager\<lparr>currentSort := \<lparr>field = ''access_count'', direction = ''desc''\<rparr>\<rparr>))
     \<noteq> rev (filteredMemories (applySorting
         (loadedManager\<lparr>currentSort := \<lparr>field = ''access_count'', direction = ''asc''\<rparr>\<rparr>)))"
  by (simp add: handleSort_sorted applySorting_def sort_by_count sort_count_samples)

text \<open>
  C2, amended. \<open>applySorting\<close> changes \<open>filteredMemories\<close> alone and keeps its elements. It
  orders them by a key that depends on \<open>currentSort.field\<close>: for \<open>access_count\<close> the count as
  an integer, a missing count being 0; for a name containing \<open>_at\<close> the time value of the
  date, provided every date is valid; for any other name the lowercased string. The order
  is ascending unless \<open>currentSort.direction\<close> is \<open>desc\<close>, and then descending; in both,
  memories with equal keys stay in the order they had, so the descending order is the
  reverse of the ascending one when no two keys are equal. \<open>handleSort\<close> flips the direction
  of the present field, or takes a new field ascending, and sorts.
\<close>

theorem apply_sorting_ordered:
  "applySorting s = s\<lparr>filteredMemories := filteredMemories (applySorting s)\<rparr>
   \<and> mset (filteredMemories (applySorting s)) = mset (filteredMemories s)
   \<and> (field (currentSort s) = ''access_count'' \<longrightarrow>
        orderedBy (direction (currentSort s)) countKey (filteredMemories s)
          (filteredMemories (applySorting s)))
   \<and> (field (currentSort s) \<noteq> ''access_count'' \<and> includes_str (field (currentSort s)) ''_at''
        \<and> (\<forall>m\<in>set (filteredMemories s). dateKey (field (currentSort s)) m \<noteq> None) \<longrightarrow>
        orderedBy (direction (currentSort s)) (timeKey (field (currentSort s)))
          (filteredMemories s) (filteredMemories (applySorting s)))
   \<and> (field (currentSort s) \<noteq> ''access_count'' \<and> \<not> includes_str (field (currentSort s)) ''_at''
        \<longrightarrow>
        orderedBy (direction (currentSort s)) (stringKey (field (currentSort s)))
          (filteredMemories s) (filteredMemories (applySorting s)))
   \<and> currentSort (handleSort f s) =
        (if field (currentSort s) = f
         then \<lparr>field = f,
               direction = (if direction (currentSort s) = ''asc'' then ''desc'' else ''asc'')\<rparr>
         else \<lparr>field = f, direction = ''asc''\<rparr>)
   \<and> filteredMemories (handleSort f s) =
        filteredMemories (applySorting (s\<lparr>currentSort := currentSort (handleSort f s)\<rparr>))"
proof -
  have a: "applySorting s = s\<lparr>filteredMemories := filteredMemories (applySorting s)\<rparr>"
    by (simp add: applySorting_def)
  have b: "mset (filteredMemories (applySorting s)) = mset (filteredMemories s)"
    by simp
  have c: "currentSort (handleSort f s) =
        (if field (currentSort s) = f
         then \<lparr>field = f,
               direction = (if direction (currentSort s) = ''asc'' then ''desc'' else ''asc'')\<rparr>
         else \<lparr>field = f, direction = ''asc''\<rparr>)"
    by (simp add: handleSort_def Let_def renderMemoryTable_def applySorting_def)
  have d: "filteredMemories (handleSort f s) =
        filteredMemories (applySorting (s\<lparr>currentSort := currentSort (handleSort f s)\<rparr>))"
    by (simp add: handleSort_def Let_def renderMemoryTable_def applySorting_def)
  from a b c d applySorting_count[of s] applySorting_date[of s] applySorting_string[of s]
  show ?thesis by blast
qed
theorem apply_sorting_ordered_witness:
  "filteredMemories (applySorting
       (loadedManager\<lparr>currentSort := \<lparr>field = ''access_count'', direction = ''desc''\<rparr>\<rparr>))
     = [memoryA, memoryB, memoryC]
   \<and> sorted (rev (map countKey (filteredMemories (applySorting
       (loadedManager\<lparr>currentSort := \<lparr>field = ''access_count'', direction = ''desc''\<rparr>\<rparr>)))))
   \<and> filteredMemories (applySorting
       (loadedManager\<lparr>currentSort := \<lparr>field = ''created_at'', direction = ''desc''\<rparr>\<rparr>))
     = rev (sort_key (timeKey ''created_at'') [memoryA, memoryB, memoryC])
   \<and> filteredMemories (applySorting
       (loadedManager\<lparr>currentSort := \<lparr>field = ''key'', direction = ''asc''\<rparr>\<rparr>))
     = sort_key (stringKey ''key'') [memoryA, memoryB, memoryC]"
proof -
  let ?c = "loadedManager\<lparr>currentSort := \<lparr>field = ''access_count'', direction = ''desc''\<rparr>\<rparr>"
  let ?d = "loadedManager\<lparr>currentSort := \<lparr>field = ''created_at'', direction = ''desc''\<rparr>\<rparr>"
  let ?k = "loadedManager\<lparr>currentSort := \<lparr>field = ''key'', direction = ''asc''\<rparr>\<rparr>"
  have c1: "field (currentSort ?c) = ''access_count''"
    by simp
  have "orderedBy (direction (currentSort ?c)) countKey (filteredMemories ?c)
          (filteredMemories (applySorting ?c))"
    using c1 apply_sorting_ordered[of ?c] by blast
  then have c2: "sorted (rev (map countKey (filteredMemories (applySorting ?c))))"
    by (simp add: orderedBy_def)
  have c3: "filteredMemories (applySorting ?c) = [memoryA, memoryB, memoryC]"
    by (simp add: applySorting_def sort_by_count sort_count_samples)
  have d1: "field (currentSort ?d) \<noteq> ''access_count''
            \<and> includes_str (field (currentSort ?d)) ''_at''
            \<and> (\<forall>m\<in>set (filteredMemories ?d). dateKey (field (currentSort ?d)) m \<noteq> None)"
    by (simp add: dateKey_samples str_defs)
  have "orderedBy (direction (currentSort ?d)) (timeKey (field (currentSort ?d)))
          (filteredMemories ?d) (filteredMemories (applySorting ?d))"
    using d1 apply_sorting_ordered[of ?d] by blast
  then have d2: "filteredMemories (applySorting ?d)
                 = rev (sort_key (timeKey ''created_at'') [memoryA, memoryB, memoryC])"
    by (simp add: orderedBy_def)
  have k1: "field (currentSort ?k) \<noteq> ''access_count''
            \<and> \<not> includes_str (field (currentSort ?k)) ''_at''"
    by (simp add: str_defs)
  have "orderedBy (direction (currentSort ?k)) (stringKey (field (currentSort ?k)))
          (filteredMemories ?k) (filteredMemories (applySorting ?k))"
    using k1 apply_sorting_ordered[of ?k] by blast
  then have k2: "filteredMemories (applySorting ?k)
                 = sort_key (stringKey ''key'') [memoryA, memoryB, memoryC]"
    by (simp add: orderedBy_def)
  from c2 c3 d2 k2 show ?thesis by blast
qed

text \<open>
  C6. A burst of calls of the wrapper that \<open>debounce(func, wait)\<close> returns, consecutive
  calls less than \<open>wait\<close> milliseconds apart, runs \<open>func\<close> exactly once: not during the
  burst, but \<open>wait\<close> milliseconds after the last call and with the arguments of that call.
  This holds of a new wrapper and of one whose earlier timers have all run. The search box
  is wired to such a wrapper with \<open>wait = 300\<close>.
\<close>

theorem debounce_burst:
  assumes "cs \<noteq> []" and "db_timers d = []"
  shows "(burst wait cs \<longrightarrow>
            db_calls (runCalls wait cs d) = db_calls d
            \<and> db_calls (settle (runCalls wait cs d))
                = db_calls d @ [(fst (last cs) + wait, snd (last cs))]
            \<and> db_timers (settle (runCalls wait cs d)) = [])
       \<and> (burst wait cs \<longrightarrow>
            db_calls (runCalls wait cs debounce) = []
            \<and> db_calls (settle (runCalls wait cs debounce))
                = [(fst (last cs) + wait, snd (last cs))])
       \<and> (burst 300 cs \<longrightarrow>
            db_calls (runCalls searchInputWait cs d) = db_calls d
            \<and> db_calls (settle (runCalls searchInputWait cs d))
                = db_calls d @ [(fst (last cs) + 300, snd (last cs))])"
proof (intro conjI impI)
  assume b: "burst wait cs"
  show "db_calls (runCalls wait cs d) = db_calls d"
    "db_calls (settle (runCalls wait cs d))
       = db_calls d @ [(fst (last cs) + wait, snd (last cs))]"
    "db_timers (settle (runCalls wait cs d)) = []"
    using debounce_burst_lemma[OF assms(1) b assms(2)] by simp_all
  have n: "db_timers (debounce :: 'a debounced) = []" "db_calls (debounce :: 'a debounced) = []"
    by (simp_all add: debounce_def)
  show "db_calls (runCalls wait cs debounce) = []"
    "db_calls (settle (runCalls wait cs debounce)) = [(fst (last cs) + wait, snd (last cs))]"
    using debounce_burst_lemma[OF assms(1) b n(1)] n(2) by simp_all
next
  assume b: "burst 300 cs"
  show "db_calls (runCalls searchInputWait cs d) = db_calls d"
    "db_calls (settle (runCalls searchInputWait cs d))
       = db_calls d @ [(fst (last cs) + 300, snd (last cs))]"
    using debounce_burst_lemma[OF assms(1) b assms(2)] by (simp_all add: searchInputWait_def)
qed

theorem debounce_burst_witness:
  "db_calls (runCalls searchInputWait [(0, ''a''), (100, ''ab''), (350, ''abc'')] debounce) = []
   \<and> db_calls (settle (runCalls searchInputWait [(0, ''a''), (100, ''ab''), (350, ''abc'')] debounce))
     = [(650, ''abc'')]
   \<and> db_calls (settle (runCalls searchInputWait [(1000, ''x''), (1299, ''xy'')]
        (settle (runCalls searchInputWait [(0, ''a''), (100, ''ab''), (350, ''abc'')] debounce))))
     = [(650, ''abc''), (1599, ''xy'')]"
proof -
  let ?d = "settle (runCalls searchInputWait [(0, ''a''), (100, ''ab''), (350, ''abc'')] debounce)"
  have h1: "[(0::nat, ''a''), (100, ''ab''), (350, ''abc'')] \<noteq> []"
    by simp
  have h0: "db_timers (debounce :: string debounced) = []"
    by (simp add: debounce_def)
  have h2: "burst 300 [(0, ''a''), (100, ''ab''), (350, ''abc'')]"
    by simp
  have c0: "db_calls (debounce :: string debounced) = []"
    by (simp add: debounce_def)
  note first = debounce_burst[OF h1 h0, where wait = 300, THEN conjunct2, THEN conjunct2,
      THEN mp, OF h2]
  have a: "db_calls (runCalls searchInputWait [(0, ''a''), (100, ''ab''), (350, ''abc'')] debounce)
             = []"
    using first c0 by simp
  have b: "db_calls ?d = [(650, ''abc'')]"
    using first c0 by simp
  have t: "db_timers ?d = []"
    using debounce_burst[OF h1 h0, where wait = searchInputWait, THEN conjunct1] h2
    by (simp add: searchInputWait_def)
  have h3: "[(1000::nat, ''x''), (1299, ''xy'')] \<noteq> []"
    by simp
  have h4: "burst 300 [(1000, ''x''), (1299, ''xy'')]"
    by simp
  have c: "db_calls (settle (runCalls searchInputWait [(1000, ''x''), (1299, ''xy'')] ?d))
             = [(650, ''abc''), (1599, ''xy'')]"
    using debounce_burst[OF h3 t, where wait = 300, THEN conjunct2, THEN conjunct2, THEN mp,
        OF h4] b
    by simp
  show ?thesis
    using a b c by (intro conjI)
qed



text \<open>
  C8. The modal guard suppresses refreshes. Whenever \<open>isAnyModalOpen\<close> or \<open>isViewingMemory\<close>
  is set, or less than 15000 ms have passed since \<open>lastViewMemoryTime\<close>, or one of the three
  modals is not hidden, each of \<open>loadMemories\<close>, \<open>loadMemoryStats\<close> and \<open>refreshData\<close> returns
  at once: no request is made and the state, with the memories, the page and the rendered
  table, is as before, whatever the server would have answered.
\<close>

theorem refresh_guard:
  assumes "isAnyModalOpen s \<or> isViewingMemory s \<or> now - lastViewMemoryTime s < 15000
           \<or> \<not> memoryModalHidden s \<or> \<not> viewModalHidden s \<or> \<not> deleteModalHidden s"
  shows "loadMemories now listOutcome s = (s, [])
       \<and> loadMemoryStats now statsOutcome s = (s, [])
       \<and> refreshData now listOutcome statsOutcome s = (s, [])"
proof -
  have "refreshBlocked now s"
    using assms unfolding refreshBlocked_iff by blast
  then show ?thesis by (rule blocked_loaders)
qed

theorem refresh_guard_witness:
  "loadMemories 20000
     (Response \<lparr>contentType = Some ''application/json'', ok = True, status = 200,
        statusText = ''OK'',
        body = Body \<lparr>list_success = True, list_memories = [], list_message = None\<rparr>\<rparr>)
     (loadedManager\<lparr>lastViewMemoryTime := 8000\<rparr>)
     = (loadedManager\<lparr>lastViewMemoryTime := 8000\<rparr>, [])
   \<and> refreshData 20000
     (Response \<lparr>contentType = Some ''application/json'', ok = True, status = 200,
        statusText = ''OK'',
        body = Body \<lparr>list_success = True, list_memories = [], list_message = None\<rparr>\<rparr>)
     (FetchError ''Failed to fetch'')
     (loadedManager\<lparr>lastViewMemoryTime := 8000\<rparr>)
     = (loadedManager\<lparr>lastViewMemoryTime := 8000\<rparr>, [])
   \<and> snd (loadMemories 20000
     (Response \<lparr>contentType = Some ''application/json'', ok = True, status = 200,
        statusText = ''OK'',
        body = Body \<lparr>list_success = True, list_memories = [], list_message = None\<rparr>\<rparr>)
     loadedManager)
     = [\<lparr>rq_method = ''GET'', rq_url = ''http://h:8000/api/memory/list?limit=1000'',
         rq_body = None\<rparr>]"
proof -
  have h: "isAnyModalOpen (loadedManager\<lparr>lastViewMemoryTime := 8000\<rparr>)
           \<or> isViewingMemory (loadedManager\<lparr>lastViewMemoryTime := 8000\<rparr>)
           \<or> 20000 - lastViewMemoryTime (loadedManager\<lparr>lastViewMemoryTime := 8000\<rparr>) < 15000
           \<or> \<not> memoryModalHidden (loadedManager\<lparr>lastViewMemoryTime := 8000\<rparr>)
           \<or> \<not> viewModalHidden (loadedManager\<lparr>lastViewMemoryTime := 8000\<rparr>)
           \<or> \<not> deleteModalHidden (loadedManager\<lparr>lastViewMemoryTime := 8000\<rparr>)"
    by simp
  have n: "\<not> refreshBlocked 20000 loadedManager"
    by (simp add: refreshBlocked_def loadedManager_def initialManager_def)
  have u: "listUrl (showLoading_mm loadedManager) = ''http://h:8000/api/memory/list?limit=1000''"
    by (simp add: listUrl_def showLoading_mm_def loadedManager_def initialManager_def)
  show ?thesis
    using refresh_guard[OF h] unblocked_loaders[OF n] u by simp
qed

end
